(* ===== verification/Prelude.thy ===== *)
theory Prelude
  imports Main
begin

text \<open>
  Shared vocabulary of the naming_app model: the JavaScript values the backend
  passes around (the tri-state availability \<open>boolean | null\<close>, plain objects used
  as dictionaries, with the \<open>__proto__\<close> accessor), \<open>String.prototype.toLowerCase\<close> on 8-bit characters, and the
  list and map lemmas the component theories share.  The collection
  \<open>model_defs\<close> gathers the non-recursive definitions that component proofs unfold.
\<close>

named_theorems model_defs "definitions of the naming_app model unfolded by the component proofs"

section \<open>JavaScript values\<close>

text \<open>
  \<open>boolean | null\<close>: \<open>Some True\<close> is available, \<open>Some False\<close> taken,
  \<open>None\<close> is \<open>null\<close> (unknown).  Reading a key that an object does not have gives
  \<open>undefined\<close>; the map type below makes that the outer \<open>None\<close>, so a lookup
  \<open>m tld :: bool option option\<close> distinguishes all four JavaScript outcomes.
\<close>

type_synonym avail = "bool option"
type_synonym avail_map = "string \<rightharpoonup> avail"

text \<open>
  A plain object literal \<open>{}\<close> used as a dictionary of availabilities: its own
  properties and whether its prototype is still \<open>Object.prototype\<close> or has been
  set to \<open>null\<close>.  The key \<open>__proto__\<close> is an accessor inherited from
  \<open>Object.prototype\<close>: while the prototype is in place, \<open>obj['__proto__'] = null\<close>
  sets the prototype to \<open>null\<close> and \<open>obj['__proto__'] = true\<close> (or \<open>false\<close>) is
  ignored by the setter, neither creating an own property.  Once the prototype is
  \<open>null\<close> the accessor is no longer inherited, and a later assignment to
  \<open>__proto__\<close> creates an ordinary own property.  Every other key is stored.
\<close>

record js_object =
  obj_own :: avail_map
  obj_null_proto :: bool

definition js_empty_obj :: js_object where
  [model_defs]: "js_empty_obj = \<lparr>obj_own = Map.empty, obj_null_proto = False\<rparr>"

definition js_obj_set :: "js_object \<Rightarrow> string \<Rightarrow> avail \<Rightarrow> js_object" where
  [model_defs]: "js_obj_set obj k v =
     (if k = ''__proto__'' \<and> \<not> obj_null_proto obj then
        (if v = None then obj\<lparr>obj_null_proto := True\<rparr> else obj)
      else obj\<lparr>obj_own := (obj_own obj)(k \<mapsto> v)\<rparr>)"

text \<open>
  \<open>toLowerCase\<close> on the 8-bit characters: the ASCII capitals \<open>A\<close>-\<open>Z\<close> and the
  Latin-1 capitals U+00C0-U+00DE other than U+00D7 (the multiplication sign) map to
  the character 32 above; every other 8-bit character is its own lower case.
\<close>

definition lower_char :: "char \<Rightarrow> char" where
  [model_defs]: "lower_char c =
     (let n = (of_char c :: nat)
      in if (65 \<le> n \<and> n \<le> 90) \<or> (192 \<le> n \<and> n \<le> 222 \<and> n \<noteq> 215) then char_of (n + 32) else c)"

definition js_lower :: "string \<Rightarrow> string" where
  [model_defs]: "js_lower s = map lower_char s"

text \<open>
  \<open>s.split(c)\<close> for a one-character separator: the pieces between occurrences of
  \<open>c\<close>, always at least one (\<open>"".split(c)\<close> is \<open>[""]\<close>); and
  \<open>xs.join(c)\<close>, which puts \<open>c\<close> between neighbouring elements.
\<close>

fun js_split :: "char \<Rightarrow> string \<Rightarrow> string list" where
  "js_split c [] = [[]]"
| "js_split c (x # xs) =
     (if x = c then [] # js_split c xs
      else (case js_split c xs of [] \<Rightarrow> [[x]] | w # ws \<Rightarrow> (x # w) # ws))"

fun js_join :: "char \<Rightarrow> string list \<Rightarrow> string" where
  "js_join c [] = []"
| "js_join c [x] = x"
| "js_join c (x # y # xs) = x @ c # js_join c (y # xs)"

section \<open>Shared lemmas\<close>

lemma js_obj_set_other [simp]:
  "k' \<noteq> k \<Longrightarrow> obj_own (js_obj_set obj k v) k' = obj_own obj k'"
  by (simp add: js_obj_set_def)

lemma js_obj_set_same [simp]:
  "k \<noteq> ''__proto__'' \<Longrightarrow> obj_own (js_obj_set obj k v) k = Some v"
  by (simp add: js_obj_set_def)

lemma dom_js_obj_set_bounds:
  "dom (obj_own obj) \<union> ({k} - {''__proto__''}) \<subseteq> dom (obj_own (js_obj_set obj k v))"
  "dom (obj_own (js_obj_set obj k v)) \<subseteq> insert k (dom (obj_own obj))"
  by (auto simp: js_obj_set_def)

text \<open>An own \<open>__proto__\<close> key exists only once the prototype is \<open>null\<close>.\<close>

lemma js_obj_set_proto:
  "''__proto__'' \<in> dom (obj_own (js_obj_set obj k v)) \<Longrightarrow>
     ''__proto__'' \<in> dom (obj_own obj) \<or> (k = ''__proto__'' \<and> obj_null_proto obj)"
  "obj_null_proto (js_obj_set obj k v) \<Longrightarrow>
     obj_null_proto obj \<or> (k = ''__proto__'' \<and> v = None)"
  by (auto simp: js_obj_set_def split: if_splits)

lemma length_js_lower [simp]: "length (js_lower s) = length s"
  by (simp add: js_lower_def)

lemma js_lower_Nil [simp]: "js_lower [] = []"
  by (simp add: js_lower_def)

lemma js_split_nonempty [simp]: "js_split c s \<noteq> []"
  by (induction s) (auto split: list.split)

lemma js_split_Cons_other:
  "x \<noteq> c \<Longrightarrow> js_split c (x # xs) = (x # hd (js_split c xs)) # tl (js_split c xs)"
  by (cases "js_split c xs") auto

lemma js_split_append_sep:
  "c \<notin> set w \<Longrightarrow> js_split c (w @ c # s) = w # js_split c s"
  by (induction w) (auto simp: js_split_Cons_other)

lemma js_split_no_sep: "c \<notin> set w \<Longrightarrow> js_split c w = [w]"
  by (induction w) (auto simp: js_split_Cons_other)

lemma js_split_join:
  "xs \<noteq> [] \<Longrightarrow> list_all (\<lambda>x. c \<notin> set x) xs \<Longrightarrow> js_split c (js_join c xs) = xs"
  by (induction c xs rule: js_join.induct) (simp_all add: js_split_append_sep js_split_no_sep)

lemma js_join_split: "js_join c (js_split c s) = s"
proof (induction s)
  case Nil
  then show ?case by simp
next
  case (Cons x xs)
  obtain w ws where ws: "js_split c xs = w # ws"
    using js_split_nonempty by (metis list.exhaust)
  show ?case
    using Cons.IH by (cases ws) (simp_all add: ws)
qed

lemma js_lower_append [simp]: "js_lower (xs @ ys) = js_lower xs @ js_lower ys"
  by (simp add: js_lower_def)

lemma dropWhile_all_Nil: "dropWhile P xs = [] \<longleftrightarrow> list_all P xs"
  by (simp add: dropWhile_eq_Nil_conv list_all_iff)

lemma dropWhile_none: "list_all (\<lambda>c. \<not> P c) xs \<Longrightarrow> dropWhile P xs = xs"
  by (cases xs) simp_all

lemma set_js_join: "w \<in> set xs \<Longrightarrow> set w \<subseteq> set (js_join c xs)"
  by (induction c xs rule: js_join.induct) auto

lemma set_js_join_sub: "set (js_join c xs) \<subseteq> insert c (\<Union>w \<in> set xs. set w)"
  by (induction c xs rule: js_join.induct) auto

lemma js_split_set: "w \<in> set (js_split c s) \<Longrightarrow> set w \<subseteq> set s"
  using set_js_join[of w "js_split c s" c] by (simp add: js_join_split)

lemma length_js_split: "length (js_split c s) = Suc (count_list s c)"
  by (induction s) (auto split: list.split)

lemma count_js_join:
  "xs \<noteq> [] \<Longrightarrow> count_list (js_join c xs) c = sum_list (map (\<lambda>x. count_list x c) xs) + (length xs - 1)"
  by (induction c xs rule: js_join.induct) simp_all

lemma in_enumerate_snd: "(i, r) \<in> set (enumerate n xs) \<Longrightarrow> r \<in> set xs"
  by (simp add: enumerate_eq_zip set_zip_rightD)

end
