(* ===== verification/Lookup.thy ===== *)
theory Lookup
  imports Prelude
begin

text \<open>
  The two leaf components of \<^verbatim>\<open>src/backend/src/domainChecker.ts\<close>: the external
  availability provider (\<open>checkWithRapidAPI\<close>, a GET on the Domainr status endpoint)
  and the DNS fallback (\<open>checkWithDNS\<close>, a GET on Google's DNS-over-HTTPS resolver).
  The outside world is an explicit environment: the configured API key and two oracles
  that answer a request for a full domain name given the history of events so far,
  so answers may change over time.  Every request and every delay is appended to an
  event trace, which is how the sequencing and rate-limiting claims of the checker
  are stated.
\<close>

section \<open>Events and the environment\<close>

text \<open>
  A request records the full domain name it asks about and the timeout the code gives
  axios (milliseconds); \<open>Sleep\<close> is one \<open>await delay(ms)\<close>.
\<close>

datatype event =
    ProviderGet string nat
  | DnsGet string nat
  | Sleep nat

text \<open>
  What the Domainr response body can hold where the code looks:
  \<open>status[0]\<close> may be \<open>null\<close>, and its \<open>summary\<close> may be missing
  (\<open>undefined\<close>/\<open>null\<close>), a string, or some other JSON value, on which
  \<open>.toLowerCase()\<close> throws a \<open>TypeError\<close>.  \<open>ApiFail\<close> is every rejection
  of the axios promise: network error, timeout, a non-2xx status (axios's default
  \<open>validateStatus\<close>), bad credentials.  \<open>ApiOk None\<close> is a body without a
  usable \<open>status\<close> array.
\<close>

datatype summary_field = NoSummary | SummaryStr string | SummaryOther
datatype status_entry = NullEntry | Entry summary_field
datatype api_response = ApiFail | ApiOk "status_entry list option"

text \<open>
  The DNS request passes \<open>validateStatus: () => true\<close>, so every HTTP answer
  resolves the promise: \<open>DnsOk\<close> carries the \<open>Answer\<close> array (absent is
  \<open>None\<close>) whatever the HTTP or DNS status; only a network error or the 5 s timeout
  rejects (\<open>DnsFail\<close>).
\<close>

datatype dns_response = DnsFail | DnsOk "string list option"

record env =
  api_key :: "string option"
  provider :: "event list \<Rightarrow> string \<Rightarrow> api_response"
  dns :: "event list \<Rightarrow> string \<Rightarrow> dns_response"
  clock :: "event list \<Rightarrow> string"

text \<open>\<open>if (!apiKey)\<close>: an unset variable and the empty string are both falsy.\<close>

definition key_configured :: "string option \<Rightarrow> bool" where
  [model_defs]: "key_configured k = (case k of None \<Rightarrow> False | Some s \<Rightarrow> s \<noteq> [])"

definition full_domain :: "string \<Rightarrow> string \<Rightarrow> string" where
  [model_defs]: "full_domain d t = d @ ''.'' @ t"

section \<open>DNS fallback: checkWithDNS\<close>

fun dns_answer :: "dns_response \<Rightarrow> avail" where
  "dns_answer DnsFail = None"
| "dns_answer (DnsOk (Some (a # as))) = Some False"
| "dns_answer (DnsOk _) = Some True"

definition checkWithDNS :: "env \<Rightarrow> string \<Rightarrow> string \<Rightarrow> event list \<Rightarrow> avail \<times> event list" where
  "checkWithDNS E d t tr =
     (let f = full_domain d t in (dns_answer (dns E tr f), tr @ [DnsGet f 5000]))"

section \<open>Provider: checkWithRapidAPI\<close>

definition availableStates :: "string list" where
  [model_defs]: "availableStates = [''inactive'', ''undelegated'', ''unknown'']"

text \<open>
  \<open>summary?.toLowerCase()\<close> then \<open>availableStates.includes(summary)\<close>;
  \<open>None\<close> is the \<open>TypeError\<close> thrown inside the \<open>try\<close> block.
\<close>

fun status_available :: "status_entry \<Rightarrow> bool option" where
  "status_available NullEntry = None"
| "status_available (Entry NoSummary) = Some False"
| "status_available (Entry (SummaryStr s)) = Some (js_lower s \<in> set availableStates)"
| "status_available (Entry SummaryOther) = None"

definition checkWithRapidAPI :: "env \<Rightarrow> string \<Rightarrow> string \<Rightarrow> event list \<Rightarrow> avail \<times> event list" where
  "checkWithRapidAPI E d t tr =
     (if \<not> key_configured (api_key E) then checkWithDNS E d t tr
      else
        let f = full_domain d t; tr1 = tr @ [ProviderGet f 10000] in
        (case provider E tr f of
           ApiFail \<Rightarrow> checkWithDNS E d t tr1
         | ApiOk st \<Rightarrow>
             (case st of
                Some (e # _) \<Rightarrow>
                  (case status_available e of
                     None \<Rightarrow> checkWithDNS E d t tr1
                   | Some b \<Rightarrow> (Some b, tr1))
              | _ \<Rightarrow> (None, tr1))))"

text \<open>
  The requests one lookup may issue: the provider alone, the DNS resolver alone (no
  key), or the provider followed by the single DNS fallback, each with its fixed
  timeout.
\<close>

definition lookup_calls :: "string \<Rightarrow> event list \<Rightarrow> bool" where
  [model_defs]: "lookup_calls f c \<longleftrightarrow>
     c = [DnsGet f 5000] \<or> c = [ProviderGet f 10000] \<or> c = [ProviderGet f 10000, DnsGet f 5000]"

text \<open>
  An environment whose oracles give the same answer to every request, used by the
  witnesses below to run the lookups on concrete inputs.
\<close>

definition const_env :: "string option \<Rightarrow> api_response \<Rightarrow> dns_response \<Rightarrow> env" where
  "const_env k p r =
     \<lparr>api_key = k, provider = (\<lambda>tr f. p), dns = (\<lambda>tr f. r),
      clock = (\<lambda>tr. ''2025-01-01T00:00:00.000Z'')\<rparr>"

section \<open>Lemmas\<close>

lemma const_env_simps [simp]:
  "api_key (const_env k p r) = k" "provider (const_env k p r) tr f = p"
  "dns (const_env k p r) tr f = r" "clock (const_env k p r) tr = ''2025-01-01T00:00:00.000Z''"
  by (simp_all add: const_env_def)

lemma dns_answer_DnsOk: "dns_answer (DnsOk ans) = Some (ans = None \<or> ans = Some [])"
  by (cases ans; cases "the ans") simp_all

lemmas js_string_eval = js_lower_def lower_char_def char_of_def bit_simps availableStates_def

lemma checkWithDNS_trace: "snd (checkWithDNS E d t tr) = tr @ [DnsGet (full_domain d t) 5000]"
  by (simp add: checkWithDNS_def Let_def)

lemma checkWithDNS_result: "fst (checkWithDNS E d t tr) = dns_answer (dns E tr (full_domain d t))"
  by (simp add: checkWithDNS_def Let_def)

lemma checkWithRapidAPI_no_key:
  "\<not> key_configured (api_key E) \<Longrightarrow> checkWithRapidAPI E d t tr = checkWithDNS E d t tr"
  by (simp add: checkWithRapidAPI_def)

lemma lookup_calls_no_sleep: "lookup_calls f c \<Longrightarrow> Sleep n \<notin> set c"
  by (auto simp: lookup_calls_def)

lemma lookup_calls_nonempty: "lookup_calls f c \<Longrightarrow> c \<noteq> []"
  by (auto simp: lookup_calls_def)

lemma checkWithRapidAPI_trace:
  "\<exists>c. snd (checkWithRapidAPI E d t tr) = tr @ c \<and> lookup_calls (full_domain d t) c"
  by (auto simp: checkWithRapidAPI_def Let_def checkWithDNS_trace lookup_calls_def
           split: api_response.split option.split list.split)

text \<open>Answers that do not depend on the time of the request give time-independent verdicts.\<close>

lemma checkWithRapidAPI_stationary:
  assumes "\<forall>tr tr' f. provider E tr f = provider E tr' f \<and> dns E tr f = dns E tr' f"
  shows "fst (checkWithRapidAPI E d t tr) = fst (checkWithRapidAPI E d t tr')"
proof -
  obtain P D where "provider E = (\<lambda>_. P)" "dns E = (\<lambda>_. D)"
    using assms by (metis ext)
  then show ?thesis
    by (simp add: checkWithRapidAPI_def checkWithDNS_def Let_def
             split: api_response.split option.split list.split)
qed

section \<open>Properties of the provider and the fallback\<close>

text \<open>
  C5. When the API key is configured and Domainr answers with a status whose first
  entry has a string summary, the lookup issues exactly one provider request (10 s
  timeout) and reports available exactly when the lower-cased summary is one of
  \<open>inactive\<close>, \<open>undelegated\<close>, \<open>unknown\<close>.
\<close>

theorem checkWithRapidAPI_summary:
  assumes "key_configured (api_key E)"
    and "provider E tr (full_domain d t) = ApiOk (Some (Entry (SummaryStr s) # es))"
  shows "checkWithRapidAPI E d t tr =
           (Some (js_lower s \<in> set availableStates), tr @ [ProviderGet (full_domain d t) 10000])"
  using assms by (simp add: checkWithRapidAPI_def Let_def)

theorem checkWithRapidAPI_summary_witness:
  "key_configured (api_key (const_env (Some ''k'') (ApiOk (Some [Entry (SummaryStr ''Inactive'')])) DnsFail))
   \<and> checkWithRapidAPI (const_env (Some ''k'') (ApiOk (Some [Entry (SummaryStr ''Inactive'')])) DnsFail)
        ''nordicai'' ''ai'' [] = (Some True, [ProviderGet ''nordicai.ai'' 10000])
   \<and> checkWithRapidAPI (const_env (Some ''k'') (ApiOk (Some [Entry (SummaryStr ''active'')])) DnsFail)
        ''nordicai'' ''com'' [] = (Some False, [ProviderGet ''nordicai.com'' 10000])"
  using checkWithRapidAPI_summary
    [of "const_env (Some ''k'') (ApiOk (Some [Entry (SummaryStr ''Inactive'')])) DnsFail"
        "[]" "''nordicai''" "''ai''" "''Inactive''" "[]"]
    checkWithRapidAPI_summary
    [of "const_env (Some ''k'') (ApiOk (Some [Entry (SummaryStr ''active'')])) DnsFail"
        "[]" "''nordicai''" "''com''" "''active''" "[]"]
  by (simp add: key_configured_def full_domain_def js_string_eval)

text \<open>
  C6. Without a configured key (unset or empty) every lookup goes to the DNS resolver:
  the result is unknown when the DNS request fails, taken when the answer holds at
  least one record, and available when there is no \<open>Answer\<close> or it is empty.
\<close>

theorem checkWithRapidAPI_dns_only:
  "\<not> key_configured (api_key E) \<Longrightarrow> fst (checkWithRapidAPI E d t tr) =
     (case dns E tr (full_domain d t) of
        DnsFail \<Rightarrow> None
      | DnsOk ans \<Rightarrow> Some (ans = None \<or> ans = Some []))"
  by (simp add: checkWithRapidAPI_no_key checkWithDNS_result dns_answer_DnsOk
           split: dns_response.split)

theorem checkWithRapidAPI_dns_only_witness:
  "\<not> key_configured (api_key (const_env (Some []) ApiFail (DnsOk (Some [''1.2.3.4'']))))
   \<and> fst (checkWithRapidAPI (const_env (Some []) ApiFail (DnsOk (Some [''1.2.3.4'']))) ''x'' ''se'' [])
       = Some False"
  using checkWithRapidAPI_dns_only
    [of "const_env (Some []) ApiFail (DnsOk (Some [''1.2.3.4'']))" "''x''" "''se''" "[]"]
  by (simp add: key_configured_def)

text \<open>
  C7. When the provider request fails (network error, timeout, non-2xx, bad key), the
  lookup falls back to the DNS resolver exactly once: the trace gains the provider
  request and then one DNS request (5 s timeout), and the result is the DNS verdict.
\<close>

theorem checkWithRapidAPI_provider_fails:
  "key_configured (api_key E) \<Longrightarrow> provider E tr (full_domain d t) = ApiFail \<Longrightarrow>
   checkWithRapidAPI E d t tr =
     (dns_answer (dns E (tr @ [ProviderGet (full_domain d t) 10000]) (full_domain d t)),
      tr @ [ProviderGet (full_domain d t) 10000, DnsGet (full_domain d t) 5000])"
  by (simp add: checkWithRapidAPI_def checkWithDNS_def Let_def)

theorem checkWithRapidAPI_provider_fails_witness:
  "key_configured (api_key (const_env (Some ''k'') ApiFail DnsFail))
   \<and> checkWithRapidAPI (const_env (Some ''k'') ApiFail DnsFail) ''x'' ''no'' []
       = (None, [ProviderGet ''x.no'' 10000, DnsGet ''x.no'' 5000])"
  using checkWithRapidAPI_provider_fails [of "const_env (Some ''k'') ApiFail DnsFail" "[]" "''x''" "''no''"]
  by (simp add: key_configured_def full_domain_def)

text \<open>
  C8. One lookup issues one or two requests and never sleeps: the provider alone, the
  DNS resolver alone, or the provider followed by one DNS fallback, always with the
  fixed 10 s and 5 s timeouts; without a key it is the DNS request alone.
\<close>

theorem checkWithRapidAPI_calls:
  "\<exists>c. snd (checkWithRapidAPI E d t tr) = tr @ c \<and> lookup_calls (full_domain d t) c
     \<and> (\<not> key_configured (api_key E) \<longrightarrow> c = [DnsGet (full_domain d t) 5000])"
  using checkWithRapidAPI_trace [of E d t tr]
  by (auto simp: checkWithRapidAPI_no_key checkWithDNS_trace)

theorem checkWithRapidAPI_calls_witness:
  "snd (checkWithRapidAPI (const_env None ApiFail DnsFail) ''x'' ''se'' []) = [DnsGet ''x.se'' 5000]"
proof -
  obtain c where "snd (checkWithRapidAPI (const_env None ApiFail DnsFail) ''x'' ''se'' []) = [] @ c"
      "\<not> key_configured (api_key (const_env None ApiFail DnsFail)) \<longrightarrow> c = [DnsGet (full_domain ''x'' ''se'') 5000]"
    using checkWithRapidAPI_calls [of "const_env None ApiFail DnsFail" "''x''" "''se''" "[]"] by blast
  then show ?thesis by (simp add: key_configured_def full_domain_def)
qed

text \<open>
  C18. A Domainr status entry without a summary is classified as taken, not unknown:
  \<open>undefined\<close> is simply not in the list of available states.
\<close>

theorem checkWithRapidAPI_missing_summary:
  "key_configured (api_key E) \<Longrightarrow> provider E tr (full_domain d t) = ApiOk (Some (Entry NoSummary # es)) \<Longrightarrow>
   fst (checkWithRapidAPI E d t tr) = Some False"
  by (simp add: checkWithRapidAPI_def Let_def)

theorem checkWithRapidAPI_missing_summary_witness:
  "key_configured (api_key (const_env (Some ''k'') (ApiOk (Some [Entry NoSummary])) DnsFail))
   \<and> fst (checkWithRapidAPI (const_env (Some ''k'') (ApiOk (Some [Entry NoSummary])) DnsFail) ''x'' ''ai'' [])
       = Some False"
  using checkWithRapidAPI_missing_summary
    [of "const_env (Some ''k'') (ApiOk (Some [Entry NoSummary])) DnsFail" "[]" "''x''" "''ai''" "[]"]
  by (simp add: key_configured_def)

end
