(* ===== verification/Checker.thy ===== *)
theory Checker
  imports Lookup
begin

text \<open>
  The domain checker of \<^verbatim>\<open>src/backend/src/domainChecker.ts\<close>:
  \<open>checkSingleDomain\<close> wraps one lookup, \<open>checkDomainAvailability\<close> checks the
  TLDs of one name one after the other with a 1.5 s delay between them, and
  \<open>checkBulkDomains\<close> (and \<open>reverifyDomains\<close>, which only forwards to it) checks
  the names one after the other with a 2 s delay between them.  Both \<open>for\<close> loops
  are modelled as the code writes them (an index \<open>i\<close>, the guard
  \<open>i < length - 1\<close> for the delay), with a termination measure; each is then shown
  equal to a structural recursion over the remaining list, which the proofs use.
  The \<open>await\<close>s are sequential, so the whole computation is a function of the
  environment and the event trace.
\<close>

section \<open>Data\<close>

record DomainAvailability =
  da_domain :: string
  da_tld :: string
  da_available :: avail
  da_error :: "string option"

record DomainResult =
  dr_domain :: string
  dr_availability :: avail_map
  dr_timestamp :: string

section \<open>Operations\<close>

text \<open>
  \<open>checkSingleDomain\<close>: its \<open>catch\<close> branch (availability \<open>null\<close> with an
  error message) is unreachable, because \<open>checkWithRapidAPI\<close> catches every
  exception of its provider request and \<open>checkWithDNS\<close> every exception of its own;
  the model therefore has no error branch, and \<open>da_error\<close> is always absent.
\<close>

definition checkSingleDomain ::
  "env \<Rightarrow> string \<Rightarrow> string \<Rightarrow> event list \<Rightarrow> DomainAvailability \<times> event list" where
  "checkSingleDomain E d t tr =
     (let (av, tr') = checkWithRapidAPI E d t tr
      in (\<lparr>da_domain = full_domain d t, da_tld = t, da_available = av, da_error = None\<rparr>, tr'))"

text \<open>The TLD loop of \<open>checkDomainAvailability\<close>, index by index.\<close>

function tld_loop ::
  "env \<Rightarrow> string \<Rightarrow> string list \<Rightarrow> nat \<Rightarrow> js_object \<Rightarrow> event list \<Rightarrow> js_object \<times> event list" where
  "tld_loop E d tlds i acc tr =
     (if i < length tlds then
        (let (r, tr1) = checkSingleDomain E d (tlds ! i) tr;
             acc1 = js_obj_set acc (tlds ! i) (da_available r);
             tr2 = (if i < length tlds - 1 then tr1 @ [Sleep 1500] else tr1)
         in tld_loop E d tlds (Suc i) acc1 tr2)
      else (acc, tr))"
  by pat_completeness auto
termination
  by (relation "measure (\<lambda>(E, d, tlds, i, acc, tr). length tlds - i)") auto

declare tld_loop.simps [simp del]

text \<open>The same loop as a recursion over the TLDs still to check.\<close>

fun check_tlds ::
  "env \<Rightarrow> string \<Rightarrow> string list \<Rightarrow> js_object \<Rightarrow> event list \<Rightarrow> js_object \<times> event list" where
  "check_tlds E d [] acc tr = (acc, tr)"
| "check_tlds E d (t # ts) acc tr =
     (let (r, tr1) = checkSingleDomain E d t tr;
          acc1 = js_obj_set acc t (da_available r);
          tr2 = (if ts \<noteq> [] then tr1 @ [Sleep 1500] else tr1)
      in check_tlds E d ts acc1 tr2)"

definition checkDomainAvailability ::
  "env \<Rightarrow> string \<Rightarrow> string list \<Rightarrow> event list \<Rightarrow> DomainResult \<times> event list" where
  "checkDomainAvailability E d tlds tr =
     (let (av, tr1) = tld_loop E d tlds 0 js_empty_obj tr
      in (\<lparr>dr_domain = d, dr_availability = obj_own av, dr_timestamp = clock E tr1\<rparr>, tr1))"

text \<open>The domain loop of \<open>checkBulkDomains\<close>, index by index.\<close>

function domain_loop ::
  "env \<Rightarrow> string list \<Rightarrow> string list \<Rightarrow> nat \<Rightarrow> DomainResult list \<Rightarrow> event list
   \<Rightarrow> DomainResult list \<times> event list" where
  "domain_loop E ds tlds i results tr =
     (if i < length ds then
        (let (r, tr1) = checkDomainAvailability E (ds ! i) tlds tr;
             tr2 = (if i < length ds - 1 then tr1 @ [Sleep 2000] else tr1)
         in domain_loop E ds tlds (Suc i) (results @ [r]) tr2)
      else (results, tr))"
  by pat_completeness auto
termination
  by (relation "measure (\<lambda>(E, ds, tlds, i, results, tr). length ds - i)") auto

declare domain_loop.simps [simp del]

fun check_domains ::
  "env \<Rightarrow> string list \<Rightarrow> string list \<Rightarrow> DomainResult list \<Rightarrow> event list
   \<Rightarrow> DomainResult list \<times> event list" where
  "check_domains E [] tlds rs tr = (rs, tr)"
| "check_domains E (d # ds) tlds rs tr =
     (let (r, tr1) = checkDomainAvailability E d tlds tr;
          tr2 = (if ds \<noteq> [] then tr1 @ [Sleep 2000] else tr1)
      in check_domains E ds tlds (rs @ [r]) tr2)"

definition checkBulkDomains ::
  "env \<Rightarrow> string list \<Rightarrow> string list \<Rightarrow> event list \<Rightarrow> DomainResult list \<times> event list" where
  "checkBulkDomains E ds tlds tr = domain_loop E ds tlds 0 [] tr"

definition reverifyDomains ::
  "env \<Rightarrow> string list \<Rightarrow> string list \<Rightarrow> event list \<Rightarrow> DomainResult list \<times> event list" where
  "reverifyDomains E ds tlds tr = checkBulkDomains E ds tlds tr"

section \<open>Traces\<close>

text \<open>
  \<open>paced n bs\<close>: the blocks of requests \<open>bs\<close>, one after the other, with one
  \<open>Sleep n\<close> between consecutive blocks and none after the last.
\<close>

fun paced :: "nat \<Rightarrow> event list list \<Rightarrow> event list" where
  "paced n [] = []"
| "paced n [c] = c"
| "paced n (c # b # bs) = c @ Sleep n # paced n (b # bs)"

fun sleep_time :: "event \<Rightarrow> nat" where
  "sleep_time (Sleep n) = n"
| "sleep_time _ = 0"

definition total_sleep :: "event list \<Rightarrow> nat" where
  [model_defs]: "total_sleep es = sum_list (map sleep_time es)"

section \<open>Loop lemmas\<close>

lemma tld_loop_check_tlds:
  "tld_loop E d tlds i acc tr = check_tlds E d (drop i tlds) acc tr"
proof (induction E d tlds i acc tr rule: tld_loop.induct)
  case (1 E d tlds i acc tr)
  show ?case
  proof (cases "i < length tlds")
    case True
    then have drop: "drop i tlds = tlds ! i # drop (Suc i) tlds"
      by (simp add: Cons_nth_drop_Suc)
    have guard: "(i < length tlds - 1) = (drop (Suc i) tlds \<noteq> [])"
      using True by auto
    obtain r tr1 where rt: "checkSingleDomain E d (tlds ! i) tr = (r, tr1)"
      by force
    let ?acc1 = "js_obj_set acc (tlds ! i) (da_available r)"
    let ?tr2 = "if drop (Suc i) tlds \<noteq> [] then tr1 @ [Sleep 1500] else tr1"
    have "tld_loop E d tlds i acc tr = tld_loop E d tlds (Suc i) ?acc1 ?tr2"
      using True rt guard by (simp add: tld_loop.simps [of E d tlds i])
    also have "\<dots> = check_tlds E d (drop (Suc i) tlds) ?acc1 ?tr2"
      using "1" True rt guard by simp
    also have "\<dots> = check_tlds E d (drop i tlds) acc tr"
      using drop rt by simp
    finally show ?thesis .
  next
    case False
    then show ?thesis by (simp add: tld_loop.simps [of E d tlds i])
  qed
qed

lemma domain_loop_check_domains:
  "domain_loop E ds tlds i rs tr = check_domains E (drop i ds) tlds rs tr"
proof (induction E ds tlds i rs tr rule: domain_loop.induct)
  case (1 E ds tlds i rs tr)
  show ?case
  proof (cases "i < length ds")
    case True
    then have drop: "drop i ds = ds ! i # drop (Suc i) ds"
      by (simp add: Cons_nth_drop_Suc)
    have guard: "(i < length ds - 1) = (drop (Suc i) ds \<noteq> [])"
      using True by auto
    obtain r tr1 where rt: "checkDomainAvailability E (ds ! i) tlds tr = (r, tr1)"
      by force
    let ?tr2 = "if drop (Suc i) ds \<noteq> [] then tr1 @ [Sleep 2000] else tr1"
    have "domain_loop E ds tlds i rs tr = domain_loop E ds tlds (Suc i) (rs @ [r]) ?tr2"
      using True rt guard by (simp add: domain_loop.simps [of E ds tlds i])
    also have "\<dots> = check_domains E (drop (Suc i) ds) tlds (rs @ [r]) ?tr2"
      using "1" True rt guard by simp
    also have "\<dots> = check_domains E (drop i ds) tlds rs tr"
      using drop rt by simp
    finally show ?thesis .
  next
    case False
    then show ?thesis by (simp add: domain_loop.simps [of E ds tlds i])
  qed
qed

lemma paced_Cons:
  "paced n (c # bs) = (if bs = [] then c else c @ Sleep n # paced n bs)"
  by (cases bs) simp_all

lemma total_sleep_append [simp]: "total_sleep (xs @ ys) = total_sleep xs + total_sleep ys"
  by (simp add: total_sleep_def)

lemma total_sleep_Cons [simp]: "total_sleep (e # es) = sleep_time e + total_sleep es"
  by (simp add: total_sleep_def)

lemma total_sleep_Nil [simp]: "total_sleep [] = 0"
  by (simp add: total_sleep_def)

lemma total_sleep_paced:
  "total_sleep (paced n bs) = n * (length bs - 1) + sum_list (map total_sleep bs)"
proof (induction bs)
  case Nil
  then show ?case by simp
next
  case (Cons c bs)
  then show ?case
    by (cases bs) (simp_all add: paced_Cons)
qed

lemma lookup_calls_total_sleep: "lookup_calls f c \<Longrightarrow> total_sleep c = 0"
  by (auto simp: lookup_calls_def)

lemma checkSingleDomain_simps:
  "fst (checkSingleDomain E d t tr) =
     \<lparr>da_domain = full_domain d t, da_tld = t, da_available = fst (checkWithRapidAPI E d t tr), da_error = None\<rparr>"
  "snd (checkSingleDomain E d t tr) = snd (checkWithRapidAPI E d t tr)"
  by (simp_all add: checkSingleDomain_def split: prod.split)

lemma bounds_step:
  "A \<union> ({t} - {p}) \<subseteq> X \<Longrightarrow> X \<subseteq> insert t A \<Longrightarrow> X \<union> (S - {p}) \<subseteq> R \<and> R \<subseteq> X \<union> S \<Longrightarrow>
     A \<union> (insert t S - {p}) \<subseteq> R \<and> R \<subseteq> A \<union> insert t S"
  by auto

lemma check_tlds_bounds:
  "dom (obj_own acc) \<union> (set ts - {''__proto__''}) \<subseteq> dom (obj_own (fst (check_tlds E d ts acc tr)))
   \<and> dom (obj_own (fst (check_tlds E d ts acc tr))) \<subseteq> dom (obj_own acc) \<union> set ts"
proof (induction ts arbitrary: acc tr)
  case Nil
  then show ?case by simp
next
  case (Cons t ts)
  obtain r tr1 where rt: "checkSingleDomain E d t tr = (r, tr1)" by force
  let ?acc1 = "js_obj_set acc t (da_available r)"
  let ?tr2 = "if ts \<noteq> [] then tr1 @ [Sleep 1500] else tr1"
  have eq: "check_tlds E d (t # ts) acc tr = check_tlds E d ts ?acc1 ?tr2"
    using rt by simp
  have "dom (obj_own acc) \<union> ({t} - {''__proto__''}) \<subseteq> dom (obj_own ?acc1)"
    "dom (obj_own ?acc1) \<subseteq> insert t (dom (obj_own acc))"
    by (rule dom_js_obj_set_bounds)+
  moreover have "dom (obj_own ?acc1) \<union> (set ts - {''__proto__''}) \<subseteq> dom (obj_own (fst (check_tlds E d ts ?acc1 ?tr2)))
     \<and> dom (obj_own (fst (check_tlds E d ts ?acc1 ?tr2))) \<subseteq> dom (obj_own ?acc1) \<union> set ts"
    by (rule Cons.IH)
  ultimately show ?case unfolding eq set_simps(2) by (rule bounds_step)
qed

text \<open>
  An own key \<open>__proto__\<close> appears in the result only when the accumulator had
  one, or its prototype was already \<open>null\<close> and \<open>__proto__\<close> is still to come,
  or \<open>__proto__\<close> comes at least twice.
\<close>

lemma check_tlds_proto:
  "''__proto__'' \<in> dom (obj_own (fst (check_tlds E d ts acc tr))) \<Longrightarrow>
     ''__proto__'' \<in> dom (obj_own acc) \<or> (obj_null_proto acc \<and> ''__proto__'' \<in> set ts)
     \<or> 2 \<le> count_list ts ''__proto__''"
proof (induction ts arbitrary: acc tr)
  case Nil
  then show ?case by simp
next
  case (Cons t ts)
  obtain r tr1 where rt: "checkSingleDomain E d t tr = (r, tr1)" by force
  let ?acc1 = "js_obj_set acc t (da_available r)"
  let ?tr2 = "if ts \<noteq> [] then tr1 @ [Sleep 1500] else tr1"
  have "''__proto__'' \<in> dom (obj_own (fst (check_tlds E d ts ?acc1 ?tr2)))"
    using Cons.prems rt by (simp add: Let_def)
  then have "''__proto__'' \<in> dom (obj_own ?acc1) \<or> (obj_null_proto ?acc1 \<and> ''__proto__'' \<in> set ts)
     \<or> 2 \<le> count_list ts ''__proto__''"
    by (rule Cons.IH)
  then show ?case
  proof (elim disjE conjE)
    assume "''__proto__'' \<in> dom (obj_own ?acc1)"
    then show ?thesis using js_obj_set_proto(1) by fastforce
  next
    assume "obj_null_proto ?acc1" "''__proto__'' \<in> set ts"
    moreover from this(1) have "obj_null_proto acc \<or> t = ''__proto__''"
      using js_obj_set_proto(2) by blast
    moreover have "count_list ts ''__proto__'' \<noteq> 0"
      using calculation(2) by (simp add: count_list_0_iff)
    ultimately show ?thesis by auto
  qed simp
qed

lemma check_tlds_paced:
  "\<exists>bs. snd (check_tlds E d ts acc tr) = tr @ paced 1500 bs
        \<and> list_all2 (\<lambda>c t. lookup_calls (full_domain d t) c) bs ts"
proof (induction ts arbitrary: acc tr)
  case Nil
  then show ?case by simp
next
  case (Cons t ts)
  obtain r tr1 where rt: "checkSingleDomain E d t tr = (r, tr1)" by force
  obtain c where c: "tr1 = tr @ c" "lookup_calls (full_domain d t) c"
    using checkWithRapidAPI_trace [of E d t tr] rt checkSingleDomain_simps(2) [of E d t tr] by auto
  let ?acc1 = "js_obj_set acc t (da_available r)"
  show ?case
  proof (cases "ts = []")
    case True
    then have "snd (check_tlds E d (t # ts) acc tr) = tr @ paced 1500 [c]"
      using rt c by simp
    with True c show ?thesis by blast
  next
    case False
    obtain bs where bs: "snd (check_tlds E d ts ?acc1 (tr1 @ [Sleep 1500])) = (tr1 @ [Sleep 1500]) @ paced 1500 bs"
        "list_all2 (\<lambda>c t. lookup_calls (full_domain d t) c) bs ts"
      using Cons.IH by blast
    have "bs \<noteq> []" using bs(2) False by (cases bs) auto
    then have "snd (check_tlds E d (t # ts) acc tr) = tr @ paced 1500 (c # bs)"
      using rt c bs(1) False by (simp add: paced_Cons)
    with bs(2) c(2) show ?thesis by blast
  qed
qed

lemma checkDomainAvailability_check_tlds:
  "checkDomainAvailability E d tlds tr =
     (let (av, tr1) = check_tlds E d tlds js_empty_obj tr
      in (\<lparr>dr_domain = d, dr_availability = obj_own av, dr_timestamp = clock E tr1\<rparr>, tr1))"
  by (simp add: checkDomainAvailability_def tld_loop_check_tlds)

lemma checkDomainAvailability_simps:
  "dr_domain (fst (checkDomainAvailability E d tlds tr)) = d"
  "dr_availability (fst (checkDomainAvailability E d tlds tr)) = obj_own (fst (check_tlds E d tlds js_empty_obj tr))"
  "snd (checkDomainAvailability E d tlds tr) = snd (check_tlds E d tlds js_empty_obj tr)"
  by (simp_all add: checkDomainAvailability_check_tlds split: prod.split)

lemma lookup_paced_total_sleep:
  "list_all2 (\<lambda>c t. lookup_calls (full_domain d t) c) bs tlds \<Longrightarrow>
   total_sleep (paced n bs) = n * (length tlds - 1)"
proof -
  assume all: "list_all2 (\<lambda>c t. lookup_calls (full_domain d t) c) bs tlds"
  then have "length bs = length tlds" by (rule list_all2_lengthD)
  moreover have "sum_list (map total_sleep bs) = 0"
    using all by (induction rule: list_all2_induct) (simp_all add: lookup_calls_total_sleep)
  ultimately show ?thesis by (simp add: total_sleep_paced)
qed

lemma sum_list_const_all2:
  "list_all2 (\<lambda>c d. f c = k) cs ds \<Longrightarrow> sum_list (map f cs) = length ds * k"
  by (induction rule: list_all2_induct) simp_all

lemma check_tlds_value:
  assumes stat: "\<forall>tr tr' f. provider E tr f = provider E tr' f \<and> dns E tr f = dns E tr' f"
    and t: "t \<noteq> ''__proto__''"
  shows "obj_own (fst (check_tlds E d ts acc tr)) t =
           (if t \<in> set ts then Some (fst (checkWithRapidAPI E d t [])) else obj_own acc t)"
proof (induction ts arbitrary: acc tr)
  case Nil
  then show ?case by simp
next
  case (Cons t0 ts)
  obtain r tr1 where rt: "checkSingleDomain E d t0 tr = (r, tr1)" by force
  have v: "da_available r = fst (checkWithRapidAPI E d t0 [])"
    using rt checkSingleDomain_simps(1) [of E d t0 tr] checkWithRapidAPI_stationary [OF stat, of d t0 tr "[]"]
    by simp
  let ?v = "fst (checkWithRapidAPI E d t0 [])"
  let ?tr2 = "if ts \<noteq> [] then tr1 @ [Sleep 1500] else tr1"
  have "obj_own (fst (check_tlds E d (t0 # ts) acc tr)) t
          = obj_own (fst (check_tlds E d ts (js_obj_set acc t0 ?v) ?tr2)) t"
    using rt v by simp
  also have "\<dots> = (if t \<in> set ts then Some (fst (checkWithRapidAPI E d t []))
                    else obj_own (js_obj_set acc t0 ?v) t)"
    by (rule Cons.IH)
  also have "\<dots> = (if t \<in> set (t0 # ts) then Some (fst (checkWithRapidAPI E d t [])) else obj_own acc t)"
    using t by (cases "t = t0") simp_all
  finally show ?case .
qed

lemma check_domains_results:
  "map dr_domain (fst (check_domains E ds tlds rs tr)) = map dr_domain rs @ ds"
proof (induction ds arbitrary: rs tr)
  case Nil
  then show ?case by simp
next
  case (Cons d ds)
  obtain r tr1 where "checkDomainAvailability E d tlds tr = (r, tr1)" by force
  moreover from this have "dr_domain r = d"
    using checkDomainAvailability_simps(1) [of E d tlds tr] by simp
  ultimately show ?case using Cons.IH by simp
qed

lemma check_domains_paced:
  "\<exists>dbs. snd (check_domains E ds tlds rs tr) = tr @ paced 2000 dbs
     \<and> list_all2 (\<lambda>c d. \<exists>bs. c = paced 1500 bs \<and> list_all2 (\<lambda>c' t. lookup_calls (full_domain d t) c') bs tlds) dbs ds"
proof (induction ds arbitrary: rs tr)
  case Nil
  then show ?case by simp
next
  case (Cons d ds)
  obtain r tr1 where rt: "checkDomainAvailability E d tlds tr = (r, tr1)" by force
  obtain bs where c: "tr1 = tr @ paced 1500 bs" "list_all2 (\<lambda>c' t. lookup_calls (full_domain d t) c') bs tlds"
    using check_tlds_paced [of E d tlds js_empty_obj tr] rt checkDomainAvailability_simps(3) [of E d tlds tr]
    by auto
  show ?case
  proof (cases "ds = []")
    case True
    then have "snd (check_domains E (d # ds) tlds rs tr) = tr @ paced 2000 [paced 1500 bs]"
      using rt c by simp
    moreover have "list_all2 (\<lambda>c d. \<exists>bs. c = paced 1500 bs \<and> list_all2 (\<lambda>c' t. lookup_calls (full_domain d t) c') bs tlds) [paced 1500 bs] (d # ds)"
      using True c(2) by auto
    ultimately show ?thesis by blast
  next
    case False
    obtain dbs where dbs: "snd (check_domains E ds tlds (rs @ [r]) (tr1 @ [Sleep 2000])) = (tr1 @ [Sleep 2000]) @ paced 2000 dbs"
        "list_all2 (\<lambda>c d. \<exists>bs. c = paced 1500 bs \<and> list_all2 (\<lambda>c' t. lookup_calls (full_domain d t) c') bs tlds) dbs ds"
      using Cons.IH by blast
    have "dbs \<noteq> []" using dbs(2) False by (cases dbs) auto
    then have "snd (check_domains E (d # ds) tlds rs tr) = tr @ paced 2000 (paced 1500 bs # dbs)"
      using rt c dbs(1) False by (simp add: paced_Cons)
    with dbs(2) c(2) show ?thesis by auto
  qed
qed

text \<open>Every result of the domain loop is a run of \<open>checkDomainAvailability\<close> on its name.\<close>

lemma check_domains_avail:
  "r \<in> set (fst (check_domains E ds tlds rs tr)) \<Longrightarrow>
     r \<in> set rs \<or> (\<exists>tr'. r = fst (checkDomainAvailability E (dr_domain r) tlds tr'))"
proof (induction ds arbitrary: rs tr)
  case Nil
  then show ?case by simp
next
  case (Cons d ds)
  obtain r' tr1 where rt: "checkDomainAvailability E d tlds tr = (r', tr1)" by force
  have r': "r' = fst (checkDomainAvailability E (dr_domain r') tlds tr)"
    using rt checkDomainAvailability_simps(1) [of E d tlds tr] by simp
  let ?tr2 = "if ds \<noteq> [] then tr1 @ [Sleep 2000] else tr1"
  have "r \<in> set (fst (check_domains E ds tlds (rs @ [r']) ?tr2))"
    using Cons.prems rt by simp
  then have "r \<in> set (rs @ [r']) \<or> (\<exists>tr'. r = fst (checkDomainAvailability E (dr_domain r) tlds tr'))"
    by (rule Cons.IH)
  with r' show ?case by auto
qed

lemma checkBulkDomains_domains: "map dr_domain (fst (checkBulkDomains E ds tlds tr)) = ds"
  using check_domains_results [of E ds tlds "[]" tr]
  by (simp add: checkBulkDomains_def domain_loop_check_domains)

lemma checkBulkDomains_avail:
  "r \<in> set (fst (checkBulkDomains E ds tlds tr)) \<Longrightarrow>
     \<exists>tr'. r = fst (checkDomainAvailability E (dr_domain r) tlds tr')"
  using check_domains_avail [of r E ds tlds "[]" tr]
  by (simp add: checkBulkDomains_def domain_loop_check_domains)

lemma checkDomainAvailability_bounds:
  "set tlds - {''__proto__''} \<subseteq> dom (dr_availability (fst (checkDomainAvailability E d tlds tr)))
   \<and> dom (dr_availability (fst (checkDomainAvailability E d tlds tr))) \<subseteq> set tlds"
  using check_tlds_bounds [of js_empty_obj tlds E d tr]
  by (simp add: checkDomainAvailability_simps js_empty_obj_def)

text \<open>Without a TLD named \<open>__proto__\<close> the keys are exactly the requested TLDs.\<close>

lemma checkBulkDomains_dom:
  assumes "''__proto__'' \<notin> set tlds" and "r \<in> set (fst (checkBulkDomains E ds tlds tr))"
  shows "dom (dr_availability r) = set tlds"
proof -
  obtain tr' where "r = fst (checkDomainAvailability E (dr_domain r) tlds tr')"
    using checkBulkDomains_avail [OF assms(2)] by blast
  then show ?thesis
    using checkDomainAvailability_bounds [of tlds E "dr_domain r" tr'] assms(1) by auto
qed

section \<open>Properties of the checker\<close>

text \<open>
  C1. The availability map of \<open>checkDomainAvailability\<close> has a key for every requested
  TLD other than \<open>__proto__\<close> (duplicates collapsing) and no key that was not
  requested; \<open>__proto__\<close> becomes an own key only when it is requested at least
  twice, since the first assignment goes to the inherited accessor (and, with a
  \<open>null\<close> verdict, removes it).
\<close>

theorem checkDomainAvailability_dom:
  "set tlds - {''__proto__''} \<subseteq> dom (dr_availability (fst (checkDomainAvailability E d tlds tr)))
   \<and> dom (dr_availability (fst (checkDomainAvailability E d tlds tr))) \<subseteq> set tlds
   \<and> (''__proto__'' \<in> dom (dr_availability (fst (checkDomainAvailability E d tlds tr)))
        \<longrightarrow> 2 \<le> count_list tlds ''__proto__'')"
  using checkDomainAvailability_bounds [of tlds E d tr] check_tlds_proto [of E d tlds js_empty_obj tr]
  by (simp add: checkDomainAvailability_simps js_empty_obj_def)

text \<open>
  When every lookup fails (no API key, no DNS answer), the verdict is \<open>null\<close>: the
  first \<open>__proto__\<close> nulls the prototype, and the second becomes an own key.
\<close>

theorem checkDomainAvailability_dom_witness:
  "dom (dr_availability (fst (checkDomainAvailability (const_env None ApiFail DnsFail) ''x''
                               [''__proto__'', ''__proto__''] []))) = {''__proto__''}
   \<and> 2 \<le> count_list [''__proto__'', ''__proto__''] ''__proto__''"
proof -
  have "dom (dr_availability (fst (checkDomainAvailability (const_env None ApiFail DnsFail) ''x''
                               [''__proto__'', ''__proto__''] []))) = {''__proto__''}"
    by (simp add: checkDomainAvailability_simps checkSingleDomain_def checkWithRapidAPI_no_key
        checkWithDNS_def const_env_def key_configured_def js_obj_set_def js_empty_obj_def)
  with checkDomainAvailability_dom [of "[''__proto__'', ''__proto__'']" "const_env None ApiFail DnsFail" "''x''" "[]"]
  show ?thesis by simp
qed

text \<open>
  C2. \<open>checkBulkDomains\<close> (and so \<open>reverifyDomains\<close>) returns one result per
  requested name, in the order of the request, each with a key for every requested TLD
  other than \<open>__proto__\<close> and no key that was not requested.
\<close>

theorem checkBulkDomains_results:
  "map dr_domain (fst (checkBulkDomains E ds tlds tr)) = ds
   \<and> (\<forall>r \<in> set (fst (checkBulkDomains E ds tlds tr)).
        set tlds - {''__proto__''} \<subseteq> dom (dr_availability r) \<and> dom (dr_availability r) \<subseteq> set tlds)"
proof
  show "map dr_domain (fst (checkBulkDomains E ds tlds tr)) = ds"
    by (rule checkBulkDomains_domains)
  show "\<forall>r \<in> set (fst (checkBulkDomains E ds tlds tr)).
          set tlds - {''__proto__''} \<subseteq> dom (dr_availability r) \<and> dom (dr_availability r) \<subseteq> set tlds"
  proof
    fix r assume "r \<in> set (fst (checkBulkDomains E ds tlds tr))"
    then obtain tr' where "r = fst (checkDomainAvailability E (dr_domain r) tlds tr')"
      using checkBulkDomains_avail by blast
    then show "set tlds - {''__proto__''} \<subseteq> dom (dr_availability r) \<and> dom (dr_availability r) \<subseteq> set tlds"
      using checkDomainAvailability_bounds [of tlds E "dr_domain r" tr'] by simp
  qed
qed

theorem checkBulkDomains_results_witness:
  "map dr_domain (fst (checkBulkDomains (const_env None ApiFail DnsFail) [''a'', ''b''] [''com''] [])) = [''a'', ''b'']
   \<and> dom (dr_availability (fst (checkBulkDomains (const_env None ApiFail DnsFail) [''a'', ''b''] [''com''] []) ! 1))
       = {''com''}"
proof -
  let ?rs = "fst (checkBulkDomains (const_env None ApiFail DnsFail) [''a'', ''b''] [''com''] [])"
  have r: "map dr_domain ?rs = [''a'', ''b'']"
    "\<forall>r \<in> set ?rs. set [''com''] - {''__proto__''} \<subseteq> dom (dr_availability r)
                   \<and> dom (dr_availability r) \<subseteq> set [''com'']"
    using checkBulkDomains_results [of "const_env None ApiFail DnsFail" "[''a'', ''b'']" "[''com'']" "[]"]
    by simp_all
  have "length ?rs = 2" using arg_cong [OF r(1), of length] by simp
  then have "?rs ! 1 \<in> set ?rs" by simp
  with r(2) have "{''com''} \<subseteq> dom (dr_availability (?rs ! 1)) \<and> dom (dr_availability (?rs ! 1)) \<subseteq> {''com''}"
    by simp
  with r(1) show ?thesis by blast
qed

text \<open>
  C3. The requests of \<open>checkDomainAvailability\<close> are issued strictly one TLD after
  the other, in the order of the list: the trace grows by one block of lookup requests
  per TLD (provider, DNS, or provider then DNS, for that TLD only), with exactly one
  1.5 s delay between consecutive blocks and none after the last.
\<close>

theorem checkDomainAvailability_paced:
  "\<exists>bs. snd (checkDomainAvailability E d tlds tr) = tr @ paced 1500 bs
        \<and> list_all2 (\<lambda>c t. lookup_calls (full_domain d t) c) bs tlds"
  by (simp add: checkDomainAvailability_simps check_tlds_paced)

text \<open>
  C4. \<open>checkBulkDomains\<close> checks the names strictly one after the other, in input
  order: one block per name, each block the paced TLD checks of that name, and exactly
  one 2 s delay between consecutive names and none after the last.
\<close>

theorem checkBulkDomains_paced:
  "\<exists>dbs. snd (checkBulkDomains E ds tlds tr) = tr @ paced 2000 dbs
     \<and> list_all2 (\<lambda>c d. \<exists>bs. c = paced 1500 bs
                            \<and> list_all2 (\<lambda>c' t. lookup_calls (full_domain d t) c') bs tlds) dbs ds"
  by (simp add: checkBulkDomains_def domain_loop_check_domains check_domains_paced)

text \<open>
  C15. The throttle of a bulk check of \<open>n\<close> names over \<open>k\<close> TLDs waits exactly
  \<open>2000 (n - 1) + n \<cdot> 1500 (k - 1)\<close> ms in total.
\<close>

theorem checkBulkDomains_total_delay:
  "\<exists>new. snd (checkBulkDomains E ds tlds tr) = tr @ new
     \<and> total_sleep new = 2000 * (length ds - 1) + length ds * (1500 * (length tlds - 1))"
proof -
  obtain dbs where dbs: "snd (checkBulkDomains E ds tlds tr) = tr @ paced 2000 dbs"
    "list_all2 (\<lambda>c d. \<exists>bs. c = paced 1500 bs
                  \<and> list_all2 (\<lambda>c' t. lookup_calls (full_domain d t) c') bs tlds) dbs ds"
    using check_domains_paced [of E ds tlds "[]" tr]
    by (auto simp: checkBulkDomains_def domain_loop_check_domains)
  have "list_all2 (\<lambda>c d. total_sleep c = 1500 * (length tlds - 1)) dbs ds"
    using dbs(2) by (rule list_all2_mono) (auto dest: lookup_paced_total_sleep)
  then have "sum_list (map total_sleep dbs) = length ds * (1500 * (length tlds - 1))"
    by (rule sum_list_const_all2)
  moreover have "length dbs = length ds"
    using dbs(2) by (rule list_all2_lengthD)
  ultimately show ?thesis
    using dbs(1) by (simp add: total_sleep_paced)
qed

text \<open>
  C16. When the provider and the resolver give time-independent answers, the entry of
  each requested TLD is exactly the verdict of one lookup of that TLD.
\<close>

theorem checkDomainAvailability_value:
  assumes "\<forall>tr tr' f. provider E tr f = provider E tr' f \<and> dns E tr f = dns E tr' f"
    and "t \<in> set tlds" and "t \<noteq> ''__proto__''"
  shows "dr_availability (fst (checkDomainAvailability E d tlds tr)) t
           = Some (fst (checkWithRapidAPI E d t []))"
  using check_tlds_value [OF assms(1,3), of d tlds js_empty_obj tr] assms(2)
  by (simp add: checkDomainAvailability_simps)

theorem checkDomainAvailability_value_witness:
  "(\<forall>tr tr' f. provider (const_env None ApiFail DnsFail) tr f = provider (const_env None ApiFail DnsFail) tr' f
      \<and> dns (const_env None ApiFail DnsFail) tr f = dns (const_env None ApiFail DnsFail) tr' f)
   \<and> ''se'' \<in> set [''com'', ''se''] \<and> ''se'' \<noteq> ''__proto__''
   \<and> dr_availability (fst (checkDomainAvailability (const_env None ApiFail DnsFail) ''x'' [''com'', ''se''] []))
       ''se'' = Some None"
  using checkDomainAvailability_value [of "const_env None ApiFail DnsFail" "''se''" "[''com'', ''se'']" "''x''" "[]"]
  by (simp add: checkWithRapidAPI_no_key checkWithDNS_result key_configured_def)

end
