(* ===== verification/Storage.thy ===== *)
theory Storage
  imports Prelude
begin

text \<open>
  The persisted list store of \<^verbatim>\<open>src/backend/src/storage.ts\<close>.  The file system
  is an explicit value: whether the data directory exists, what the data file holds
  (absent, a JSON array of suggestions, or text \<open>JSON.parse\<close> rejects), and how
  writes behave: they succeed, they are refused before anything changes (a read-only
  file system, missing permissions), or the file is opened and truncated and the write
  of its content then fails (disk full, I/O error), leaving a proper prefix of the JSON
  text, which \<open>JSON.parse\<close> rejects.  Each exported function takes the disk and returns its result with
  the disk afterwards; a thrown \<open>fs\<close> error is an \<open>Inl\<close> value and the
  \<open>try\<close>/\<open>catch\<close> blocks of the code are the case splits that absorb it.
  The JSON text of the file is identified with the list it encodes
  (\<open>JSON.stringify\<close> followed by \<open>JSON.parse\<close> gives back every field of a
  suggestion).
\<close>

section \<open>Data\<close>

record DomainSuggestion =
  ds_id :: string
  ds_domain :: string
  ds_availability :: avail_map
  ds_timestamp :: string
  ds_isFavorite :: bool
  ds_lastChecked :: "string option"

text \<open>
  \<open>Partial<DomainSuggestion>\<close>: a key may be absent (\<open>None\<close>); for the optional
  field \<open>lastChecked\<close> a present key may also hold \<open>undefined\<close>
  (\<open>Some None\<close>), which the object spread copies as well.
\<close>

record SuggestionUpdate =
  upd_id :: "string option"
  upd_domain :: "string option"
  upd_availability :: "avail_map option"
  upd_timestamp :: "string option"
  upd_isFavorite :: "bool option"
  upd_lastChecked :: "string option option"

datatype file_content = Json "DomainSuggestion list" | Garbage

datatype write_mode = WriteOk | WriteRefused | WriteTorn

record disk =
  data_dir :: bool
  data_file :: "file_content option"
  disk_mode :: write_mode

definition disk_writable :: "disk \<Rightarrow> bool" where
  [model_defs]: "disk_writable D \<longleftrightarrow> disk_mode D = WriteOk"

datatype io_error = IoError | ParseError

section \<open>File-system primitives\<close>

text \<open>\<open>{ ...domain, ...updates }\<close>: each key present in the update overrides the field.\<close>

definition spread_field :: "'a option \<Rightarrow> 'a \<Rightarrow> 'a" where
  [model_defs]: "spread_field u v = (case u of None \<Rightarrow> v | Some x \<Rightarrow> x)"

definition apply_update :: "SuggestionUpdate \<Rightarrow> DomainSuggestion \<Rightarrow> DomainSuggestion" where
  "apply_update u d =
     \<lparr>ds_id = spread_field (upd_id u) (ds_id d),
      ds_domain = spread_field (upd_domain u) (ds_domain d),
      ds_availability = spread_field (upd_availability u) (ds_availability d),
      ds_timestamp = spread_field (upd_timestamp u) (ds_timestamp d),
      ds_isFavorite = spread_field (upd_isFavorite u) (ds_isFavorite d),
      ds_lastChecked = spread_field (upd_lastChecked u) (ds_lastChecked d)\<rparr>"

text \<open>
  \<open>ensureDataDir\<close>: \<open>mkdirSync\<close> when the directory is missing; only a disk that
  refuses writes refuses it (creating a directory writes no file content).
\<close>

definition ensureDataDir :: "disk \<Rightarrow> (io_error + unit) \<times> disk" where
  "ensureDataDir D =
     (if data_dir D then (Inr (), D)
      else if disk_mode D \<noteq> WriteRefused then (Inr (), D\<lparr>data_dir := True\<rparr>)
      else (Inl IoError, D))"

text \<open>
  \<open>writeFileSync(DATA_FILE, ...)\<close> opens the file with flag \<open>'w'\<close>, which creates or
  truncates it, and then writes the text.  It fails without effect when the directory
  is missing or the disk refuses; on a disk whose writes fail after the open, it fails
  leaving the truncated, partly written file.
\<close>

definition write_file :: "file_content \<Rightarrow> disk \<Rightarrow> (io_error + unit) \<times> disk" where
  "write_file c D =
     (if \<not> data_dir D then (Inl IoError, D)
      else (case disk_mode D of
              WriteOk \<Rightarrow> (Inr (), D\<lparr>data_file := Some c\<rparr>)
            | WriteRefused \<Rightarrow> (Inl IoError, D)
            | WriteTorn \<Rightarrow> (Inl IoError, D\<lparr>data_file := Some Garbage\<rparr>)))"

text \<open>\<open>JSON.parse(readFileSync(DATA_FILE))\<close>.\<close>

definition read_file :: "disk \<Rightarrow> io_error + DomainSuggestion list" where
  "read_file D =
     (case data_file D of
        None \<Rightarrow> Inl IoError
      | Some Garbage \<Rightarrow> Inl ParseError
      | Some (Json l) \<Rightarrow> Inr l)"

definition initializeStorage :: "disk \<Rightarrow> (io_error + unit) \<times> disk" where
  "initializeStorage D =
     (case ensureDataDir D of
        (Inl e, D1) \<Rightarrow> (Inl e, D1)
      | (Inr _, D1) \<Rightarrow> (if data_file D1 = None then write_file (Json []) D1 else (Inr (), D1)))"

section \<open>Store operations\<close>

definition getAllDomains :: "disk \<Rightarrow> DomainSuggestion list \<times> disk" where
  "getAllDomains D =
     (case initializeStorage D of
        (Inl _, D1) \<Rightarrow> ([], D1)
      | (Inr _, D1) \<Rightarrow> (case read_file D1 of Inl _ \<Rightarrow> [] | Inr l \<Rightarrow> l, D1))"

definition saveAllDomains :: "DomainSuggestion list \<Rightarrow> disk \<Rightarrow> bool \<times> disk" where
  "saveAllDomains l D =
     (case ensureDataDir D of
        (Inl _, D1) \<Rightarrow> (False, D1)
      | (Inr _, D1) \<Rightarrow> (case write_file (Json l) D1 of (Inl _, D2) \<Rightarrow> (False, D2) | (Inr _, D2) \<Rightarrow> (True, D2)))"

text \<open>
  Every mutating operation reads the whole list, computes the new list in memory,
  saves it, and returns the new list whether or not the save succeeded.
\<close>

definition addDomains :: "DomainSuggestion list \<Rightarrow> disk \<Rightarrow> DomainSuggestion list \<times> disk" where
  "addDomains newDomains D =
     (let (existing, D1) = getAllDomains D;
          updated = newDomains @ existing;
          (_, D2) = saveAllDomains updated D1
      in (updated, D2))"

definition updateDomain :: "string \<Rightarrow> SuggestionUpdate \<Rightarrow> disk \<Rightarrow> DomainSuggestion list \<times> disk" where
  "updateDomain i u D =
     (let (domains, D1) = getAllDomains D;
          updated = map (\<lambda>d. if ds_id d = i then apply_update u d else d) domains;
          (_, D2) = saveAllDomains updated D1
      in (updated, D2))"

definition toggleFavorite :: "string \<Rightarrow> disk \<Rightarrow> DomainSuggestion list \<times> disk" where
  "toggleFavorite i D =
     (let (domains, D1) = getAllDomains D;
          updated = map (\<lambda>d. if ds_id d = i then d\<lparr>ds_isFavorite := \<not> ds_isFavorite d\<rparr> else d) domains;
          (_, D2) = saveAllDomains updated D1
      in (updated, D2))"

definition removeDomain :: "string \<Rightarrow> disk \<Rightarrow> DomainSuggestion list \<times> disk" where
  "removeDomain i D =
     (let (domains, D1) = getAllDomains D;
          updated = filter (\<lambda>d. ds_id d \<noteq> i) domains;
          (_, D2) = saveAllDomains updated D1
      in (updated, D2))"

text \<open>\<open>updates.has(domain.domain)\<close> and \<open>updates.get(domain.domain)\<close> on a \<open>Map\<close>.\<close>

definition updateMultipleDomains ::
  "(string \<rightharpoonup> SuggestionUpdate) \<Rightarrow> disk \<Rightarrow> DomainSuggestion list \<times> disk" where
  "updateMultipleDomains updates D =
     (let (domains, D1) = getAllDomains D;
          updated = map (\<lambda>d. case updates (ds_domain d) of None \<Rightarrow> d | Some u \<Rightarrow> apply_update u d) domains;
          (_, D2) = saveAllDomains updated D1
      in (updated, D2))"

definition clearAllDomains :: "disk \<Rightarrow> bool \<times> disk" where
  "clearAllDomains D = saveAllDomains [] D"

section \<open>Abstract specification\<close>

text \<open>
  The store as the spec describes it: one list of suggestions, newest first.  The disk
  holds it when the data file parses; a missing or corrupt file reads as the empty
  list.  A well-formed disk has no data file without its directory.
\<close>

definition stored_list :: "disk \<Rightarrow> DomainSuggestion list" where
  "stored_list D = (case data_file D of Some (Json l) \<Rightarrow> l | _ \<Rightarrow> [])"

definition disk_wf :: "disk \<Rightarrow> bool" where
  "disk_wf D \<longleftrightarrow> (data_file D \<noteq> None \<longrightarrow> data_dir D)"

datatype store_op =
    OpAdd "DomainSuggestion list"
  | OpUpdate string SuggestionUpdate
  | OpToggle string
  | OpRemove string
  | OpUpdateMany "string \<rightharpoonup> SuggestionUpdate"
  | OpClear

text \<open>What each operation promises to do to the list (spec, section 4.2).\<close>

fun list_op :: "store_op \<Rightarrow> DomainSuggestion list \<Rightarrow> DomainSuggestion list" where
  "list_op (OpAdd new) l = new @ l"
| "list_op (OpUpdate i u) l = map (\<lambda>d. if ds_id d = i then apply_update u d else d) l"
| "list_op (OpToggle i) l = map (\<lambda>d. if ds_id d = i then d\<lparr>ds_isFavorite := \<not> ds_isFavorite d\<rparr> else d) l"
| "list_op (OpRemove i) l = [d \<leftarrow> l. ds_id d \<noteq> i]"
| "list_op (OpUpdateMany ups) l =
     map (\<lambda>d. if ds_domain d \<in> dom ups then apply_update (the (ups (ds_domain d))) d else d) l"
| "list_op OpClear l = []"

text \<open>The operations of \<^verbatim>\<open>storage.ts\<close>, dispatched on the operation, as a step on the disk.\<close>

fun store_step :: "store_op \<Rightarrow> disk \<Rightarrow> disk" where
  "store_step (OpAdd new) D = snd (addDomains new D)"
| "store_step (OpUpdate i u) D = snd (updateDomain i u D)"
| "store_step (OpToggle i) D = snd (toggleFavorite i D)"
| "store_step (OpRemove i) D = snd (removeDomain i D)"
| "store_step (OpUpdateMany ups) D = snd (updateMultipleDomains ups D)"
| "store_step OpClear D = snd (clearAllDomains D)"

text \<open>The shape every mutating operation shares: read all, transform, save all.\<close>

definition read_modify_write ::
  "(DomainSuggestion list \<Rightarrow> DomainSuggestion list) \<Rightarrow> disk \<Rightarrow> DomainSuggestion list \<times> disk" where
  "read_modify_write f D =
     (let (l, D1) = getAllDomains D; l' = f l; (_, D2) = saveAllDomains l' D1 in (l', D2))"

text \<open>
  Operations that cannot create a duplicate \<open>id\<close>: added records bring fresh, distinct
  ids, and no update rewrites the \<open>id\<close> of a record it applies to.
\<close>

fun ids_fresh :: "store_op \<Rightarrow> DomainSuggestion list \<Rightarrow> bool" where
  "ids_fresh (OpAdd new) l \<longleftrightarrow> distinct (map ds_id new) \<and> (\<forall>d \<in> set new. ds_id d \<notin> ds_id ` set l)"
| "ids_fresh (OpUpdate i u) l \<longleftrightarrow> upd_id u = None"
| "ids_fresh (OpUpdateMany ups) l \<longleftrightarrow>
     (\<forall>d \<in> set l. ds_domain d \<in> dom ups \<longrightarrow> upd_id (the (ups (ds_domain d))) = None)"
| "ids_fresh _ l \<longleftrightarrow> True"

text \<open>Concrete records and disks for the witnesses.\<close>

definition sample_suggestion :: "string \<Rightarrow> string \<Rightarrow> bool \<Rightarrow> DomainSuggestion" where
  "sample_suggestion i d fav =
     \<lparr>ds_id = i, ds_domain = d, ds_availability = Map.empty, ds_timestamp = ''2025-01-01T00:00:00.000Z'',
      ds_isFavorite = fav, ds_lastChecked = Some ''2025-01-01T00:00:00.000Z''\<rparr>"

definition sample_disk :: "bool \<Rightarrow> DomainSuggestion list \<Rightarrow> disk" where
  "sample_disk w l = \<lparr>data_dir = True, data_file = Some (Json l), disk_mode = (if w then WriteOk else WriteRefused)\<rparr>"

section \<open>Lemmas on the file-system layer\<close>

lemma disk_writable_upd [simp]:
  "disk_writable (D\<lparr>data_dir := b\<rparr>) = disk_writable D"
  "disk_writable (D\<lparr>data_file := c\<rparr>) = disk_writable D"
  by (simp_all add: disk_writable_def)

lemma disk_writable_literal [simp]:
  "disk_writable \<lparr>data_dir = b, data_file = f, disk_mode = m\<rparr> \<longleftrightarrow> m = WriteOk"
  by (simp add: disk_writable_def)

lemma getAllDomains_writable:
  "disk_writable D \<Longrightarrow> getAllDomains D =
     (stored_list D,
      D\<lparr>data_dir := True, data_file := Some (case data_file D of None \<Rightarrow> Json [] | Some c \<Rightarrow> c)\<rparr>)"
  by (auto simp: getAllDomains_def initializeStorage_def ensureDataDir_def write_file_def disk_writable_def
                 read_file_def stored_list_def split: option.split file_content.split)

lemma getAllDomains_readonly:
  "disk_wf D \<Longrightarrow> disk_mode D = WriteRefused \<Longrightarrow> getAllDomains D = (stored_list D, D)"
  by (auto simp: getAllDomains_def initializeStorage_def ensureDataDir_def write_file_def
                 read_file_def stored_list_def disk_wf_def split: option.split file_content.split)

text \<open>On a disk whose writes are torn, creating the missing file leaves it unparsable.\<close>

lemma getAllDomains_torn:
  "disk_mode D = WriteTorn \<Longrightarrow> getAllDomains D =
     (stored_list D,
      D\<lparr>data_dir := True, data_file := Some (case data_file D of None \<Rightarrow> Garbage | Some c \<Rightarrow> c)\<rparr>)"
  by (auto simp: getAllDomains_def initializeStorage_def ensureDataDir_def write_file_def
                 read_file_def stored_list_def split: option.split file_content.split)

lemma saveAllDomains_writable:
  "disk_writable D \<Longrightarrow> saveAllDomains l D = (True, D\<lparr>data_dir := True, data_file := Some (Json l)\<rparr>)"
  by (simp add: saveAllDomains_def ensureDataDir_def write_file_def disk_writable_def)

lemma saveAllDomains_readonly:
  "disk_mode D = WriteRefused \<Longrightarrow> saveAllDomains l D = (False, D)"
  by (simp add: saveAllDomains_def ensureDataDir_def write_file_def)

lemma saveAllDomains_torn:
  "disk_mode D = WriteTorn \<Longrightarrow> saveAllDomains l D = (False, D\<lparr>data_dir := True, data_file := Some Garbage\<rparr>)"
  by (simp add: saveAllDomains_def ensureDataDir_def write_file_def)

lemma read_modify_write_writable:
  "disk_writable D \<Longrightarrow>
   read_modify_write f D = (f (stored_list D), D\<lparr>data_dir := True, data_file := Some (Json (f (stored_list D)))\<rparr>)"
  by (simp add: read_modify_write_def getAllDomains_writable saveAllDomains_writable Let_def)

lemma read_modify_write_readonly:
  "disk_wf D \<Longrightarrow> disk_mode D = WriteRefused \<Longrightarrow> read_modify_write f D = (f (stored_list D), D)"
  by (simp add: read_modify_write_def getAllDomains_readonly saveAllDomains_readonly Let_def)

lemma read_modify_write_torn:
  "disk_mode D = WriteTorn \<Longrightarrow>
   read_modify_write f D = (f (stored_list D), D\<lparr>data_dir := True, data_file := Some Garbage\<rparr>)"
  by (simp add: read_modify_write_def getAllDomains_torn saveAllDomains_torn Let_def)

lemmas read_modify_write_modes =
  read_modify_write_writable [unfolded disk_writable_def] read_modify_write_readonly read_modify_write_torn

lemma update_many_fun:
  "(\<lambda>d. case ups (ds_domain d) of None \<Rightarrow> d | Some u \<Rightarrow> apply_update u d) =
   (\<lambda>d. if ds_domain d \<in> dom ups then apply_update (the (ups (ds_domain d))) d else d)"
  by (auto simp: fun_eq_iff split: option.split)

lemma store_ops_read_modify_write:
  "addDomains new D = read_modify_write (\<lambda>l. new @ l) D"
  "updateDomain i u D = read_modify_write (list_op (OpUpdate i u)) D"
  "toggleFavorite i D = read_modify_write (list_op (OpToggle i)) D"
  "removeDomain i D = read_modify_write (list_op (OpRemove i)) D"
  "updateMultipleDomains ups D = read_modify_write (list_op (OpUpdateMany ups)) D"
  by (simp_all add: addDomains_def updateDomain_def toggleFavorite_def removeDomain_def
        updateMultipleDomains_def read_modify_write_def update_many_fun)

lemma getAllDomains_result: "disk_wf D \<Longrightarrow> fst (getAllDomains D) = stored_list D"
  by (cases "disk_mode D")
     (simp_all add: getAllDomains_writable disk_writable_def getAllDomains_readonly getAllDomains_torn)

lemma store_step_writable:
  "disk_writable D \<Longrightarrow>
   store_step op D = D\<lparr>data_dir := True, data_file := Some (Json (list_op op (stored_list D)))\<rparr>"
  by (cases op) (simp_all add: store_ops_read_modify_write read_modify_write_writable
                               clearAllDomains_def saveAllDomains_writable)

lemma store_step_readonly:
  "disk_wf D \<Longrightarrow> disk_mode D = WriteRefused \<Longrightarrow> store_step op D = D"
  by (cases op) (simp_all add: store_ops_read_modify_write read_modify_write_readonly
                               clearAllDomains_def saveAllDomains_readonly)

lemma store_step_torn:
  "disk_mode D = WriteTorn \<Longrightarrow> store_step op D = D\<lparr>data_dir := True, data_file := Some Garbage\<rparr>"
  by (cases op) (simp_all add: store_ops_read_modify_write read_modify_write_torn
                               clearAllDomains_def saveAllDomains_torn)

lemma stored_list_Json [simp]: "data_file D = Some (Json l) \<Longrightarrow> stored_list D = l"
  by (simp add: stored_list_def)

lemma stored_list_update [simp]:
  "stored_list (D\<lparr>data_dir := b, data_file := Some (Json l)\<rparr>) = l"
  by (simp add: stored_list_def)

lemma sample_disk_simps [simp]:
  "disk_wf (sample_disk w l)" "disk_writable (sample_disk w l) = w"
  "disk_mode (sample_disk w l) = (if w then WriteOk else WriteRefused)"
  "stored_list (sample_disk w l) = l" "data_dir (sample_disk w l)"
  "data_file (sample_disk w l) = Some (Json l)"
  by (simp_all add: sample_disk_def disk_wf_def stored_list_def disk_writable_def)

lemma getAllDomains_disk:
  "disk_wf D \<Longrightarrow> disk_wf (snd (getAllDomains D)) \<and> stored_list (snd (getAllDomains D)) = stored_list D
                 \<and> disk_mode (snd (getAllDomains D)) = disk_mode D
                 \<and> disk_writable (snd (getAllDomains D)) = disk_writable D"
  by (cases "disk_mode D")
     (auto simp: getAllDomains_writable disk_writable_def getAllDomains_readonly getAllDomains_torn
                 disk_wf_def stored_list_def split: option.split)

lemma read_modify_write_result: "disk_wf D \<Longrightarrow> fst (read_modify_write f D) = f (stored_list D)"
  by (cases "disk_mode D") (simp_all add: read_modify_write_modes)

text \<open>A run of store operations on a writable disk refines the run of the abstract operations.\<close>

lemma fold_store_step_writable:
  "disk_wf D \<Longrightarrow> disk_writable D \<Longrightarrow>
   stored_list (fold store_step ops D) = fold list_op ops (stored_list D)
   \<and> disk_wf (fold store_step ops D) \<and> disk_writable (fold store_step ops D)"
proof (induction ops arbitrary: D)
  case Nil
  then show ?case by simp
next
  case (Cons op ops)
  have "disk_wf (store_step op D)" "disk_writable (store_step op D)"
    using Cons.prems by (simp_all add: store_step_writable disk_wf_def)
  moreover have "stored_list (store_step op D) = list_op op (stored_list D)"
    using Cons.prems by (simp add: store_step_writable)
  ultimately show ?case
    using Cons.IH [of "store_step op D"] by simp
qed

section \<open>Properties of the store\<close>

text \<open>
  C9. Refinement: on a well-formed, writable disk every operation of the store leaves
  exactly the list that the abstract operation computes from the stored list.
\<close>

theorem store_step_refines:
  "disk_wf D \<Longrightarrow> disk_writable D \<Longrightarrow> stored_list (store_step op D) = list_op op (stored_list D)"
  by (simp add: store_step_writable)

theorem store_step_refines_witness:
  "disk_wf (sample_disk True [sample_suggestion ''a-1'' ''a'' False])
   \<and> disk_writable (sample_disk True [sample_suggestion ''a-1'' ''a'' False])
   \<and> stored_list (store_step (OpToggle ''a-1'') (sample_disk True [sample_suggestion ''a-1'' ''a'' False]))
       = [sample_suggestion ''a-1'' ''a'' True]"
  using store_step_refines [of "sample_disk True [sample_suggestion ''a-1'' ''a'' False]" "OpToggle ''a-1''"]
  by (simp add: sample_suggestion_def)

text \<open>
  C10. A failed write destroys the store: on a disk whose writes fail after the data
  file is opened (disk full, I/O error), every operation leaves a data file that does
  not parse, and once the disk accepts writes again the next operation starts from
  the empty list, so every record stored before is lost for good.
\<close>

theorem store_step_torn_write:
  "disk_mode D = WriteTorn \<Longrightarrow>
   data_file (store_step op D) = Some Garbage
   \<and> stored_list (store_step op' ((store_step op D)\<lparr>disk_mode := WriteOk\<rparr>)) = list_op op' []"
  by (simp add: store_step_torn store_step_writable disk_writable_def stored_list_def)

theorem store_step_torn_write_witness:
  "disk_mode \<lparr>data_dir = True, data_file = Some (Json [sample_suggestion ''a-1'' ''a'' False]), disk_mode = WriteTorn\<rparr> = WriteTorn
   \<and> data_file (store_step (OpToggle ''b-2'')
        \<lparr>data_dir = True, data_file = Some (Json [sample_suggestion ''a-1'' ''a'' False]), disk_mode = WriteTorn\<rparr>)
       = Some Garbage
   \<and> stored_list (store_step (OpAdd [sample_suggestion ''b-2'' ''b'' False])
        ((store_step (OpToggle ''b-2'')
          \<lparr>data_dir = True, data_file = Some (Json [sample_suggestion ''a-1'' ''a'' False]), disk_mode = WriteTorn\<rparr>)
          \<lparr>disk_mode := WriteOk\<rparr>))
       = [sample_suggestion ''b-2'' ''b'' False]"
  using store_step_torn_write [of "\<lparr>data_dir = True, data_file = Some (Json [sample_suggestion ''a-1'' ''a'' False]),
                                    disk_mode = WriteTorn\<rparr>" "OpToggle ''b-2''" "OpAdd [sample_suggestion ''b-2'' ''b'' False]"]
  by simp

text \<open>
  C11. \<open>addDomains\<close> followed by \<open>getAllDomains\<close> returns the new records first,
  in their order, followed by everything stored before.
\<close>

theorem addDomains_prepends:
  "disk_wf D \<Longrightarrow> disk_writable D \<Longrightarrow>
   fst (getAllDomains (snd (addDomains new D))) = new @ fst (getAllDomains D)
   \<and> fst (addDomains new D) = new @ fst (getAllDomains D)"
  by (simp add: store_ops_read_modify_write read_modify_write_writable getAllDomains_writable)

theorem addDomains_prepends_witness:
  "disk_wf (sample_disk True [sample_suggestion ''a-1'' ''a'' False])
   \<and> disk_writable (sample_disk True [sample_suggestion ''a-1'' ''a'' False])
   \<and> fst (getAllDomains (snd (addDomains [sample_suggestion ''b-2'' ''b'' False]
                                (sample_disk True [sample_suggestion ''a-1'' ''a'' False]))))
       = [sample_suggestion ''b-2'' ''b'' False, sample_suggestion ''a-1'' ''a'' False]"
  using addDomains_prepends [of "sample_disk True [sample_suggestion ''a-1'' ''a'' False]"
                                "[sample_suggestion ''b-2'' ''b'' False]"]
  by (simp add: getAllDomains_writable)

text \<open>
  C12. One \<open>toggleFavorite i\<close> flips the favorite flag of exactly the stored records
  with id \<open>i\<close> and changes nothing else, in place; toggling the same id again
  restores the stored list, and the second call returns the list as it was before the
  first.
\<close>

theorem toggleFavorite_twice:
  assumes "disk_wf D" and "disk_writable D"
  shows "list_all2 (\<lambda>a b. ds_isFavorite b = (if ds_id a = i then \<not> ds_isFavorite a else ds_isFavorite a)
                          \<and> b\<lparr>ds_isFavorite := ds_isFavorite a\<rparr> = a)
           (stored_list D) (stored_list (snd (toggleFavorite i D)))
         \<and> fst (toggleFavorite i (snd (toggleFavorite i D))) = fst (getAllDomains D)
         \<and> stored_list (snd (toggleFavorite i (snd (toggleFavorite i D)))) = stored_list D"
proof -
  have inv: "list_op (OpToggle i) (list_op (OpToggle i) l) = l" for l
    by (induction l) auto
  have once: "stored_list (snd (toggleFavorite i D)) = list_op (OpToggle i) (stored_list D)"
    using assms by (simp add: store_ops_read_modify_write read_modify_write_writable)
  show ?thesis
    unfolding once using assms inv
    by (simp add: list_all2_conv_all_nth store_ops_read_modify_write read_modify_write_writable
                  getAllDomains_result)
qed

theorem toggleFavorite_twice_witness:
  "disk_wf (sample_disk True [sample_suggestion ''a-1'' ''a'' False])
   \<and> disk_writable (sample_disk True [sample_suggestion ''a-1'' ''a'' False])
   \<and> list_all2 (\<lambda>a b. ds_isFavorite b = (if ds_id a = ''a-1'' then \<not> ds_isFavorite a else ds_isFavorite a)
                      \<and> b\<lparr>ds_isFavorite := ds_isFavorite a\<rparr> = a)
       [sample_suggestion ''a-1'' ''a'' False]
       (stored_list (snd (toggleFavorite ''a-1'' (sample_disk True [sample_suggestion ''a-1'' ''a'' False]))))
   \<and> fst (toggleFavorite ''a-1'' (snd (toggleFavorite ''a-1'' (sample_disk True [sample_suggestion ''a-1'' ''a'' False]))))
       = [sample_suggestion ''a-1'' ''a'' False]"
  using toggleFavorite_twice [of "sample_disk True [sample_suggestion ''a-1'' ''a'' False]" "''a-1''"]
  by (simp add: getAllDomains_writable)

text \<open>
  After \<open>removeDomain i\<close> no stored record has id \<open>i\<close>; removing an id that
  is not stored leaves the stored list unchanged.
\<close>

theorem removeDomain_absent:
  "disk_wf D \<Longrightarrow> disk_writable D \<Longrightarrow>
   i \<notin> ds_id ` set (fst (getAllDomains (snd (removeDomain i D))))
   \<and> (i \<notin> ds_id ` set (fst (getAllDomains D)) \<longrightarrow>
        fst (getAllDomains (snd (removeDomain i D))) = fst (getAllDomains D))"
  by (auto simp: store_ops_read_modify_write read_modify_write_writable getAllDomains_writable
                 filter_id_conv)

theorem removeDomain_absent_witness:
  "disk_wf (sample_disk True [sample_suggestion ''a-1'' ''a'' False])
   \<and> disk_writable (sample_disk True [sample_suggestion ''a-1'' ''a'' False])
   \<and> fst (getAllDomains (snd (removeDomain ''z-9'' (sample_disk True [sample_suggestion ''a-1'' ''a'' False]))))
       = [sample_suggestion ''a-1'' ''a'' False]"
  using removeDomain_absent [of "sample_disk True [sample_suggestion ''a-1'' ''a'' False]" "''z-9''"]
  by (simp add: getAllDomains_writable sample_suggestion_def)

text \<open>
  C14. \<open>updateMultipleDomains\<close> changes only the records whose name is a key of the
  update map, each by exactly its update; every other record is returned unchanged,
  and the order is kept.
\<close>

theorem updateMultipleDomains_frame:
  "disk_wf D \<Longrightarrow>
   list_all2 (\<lambda>a b. if ds_domain a \<in> dom ups then b = apply_update (the (ups (ds_domain a))) a else b = a)
     (fst (getAllDomains D)) (fst (updateMultipleDomains ups D))"
proof -
  assume wf: "disk_wf D"
  have "fst (updateMultipleDomains ups D) = list_op (OpUpdateMany ups) (fst (getAllDomains D))"
    using wf by (simp add: store_ops_read_modify_write read_modify_write_result getAllDomains_result)
  then show ?thesis
    by (simp add: list_all2_conv_all_nth)
qed

theorem updateMultipleDomains_frame_witness:
  "disk_wf (sample_disk True [sample_suggestion ''a-1'' ''a'' False, sample_suggestion ''b-2'' ''b'' True])
   \<and> list_all2 (\<lambda>a b. if ds_domain a \<in> dom [''b'' \<mapsto> \<lparr>upd_id = None, upd_domain = None,
           upd_availability = Some [''com'' \<mapsto> Some True], upd_timestamp = None, upd_isFavorite = None,
           upd_lastChecked = Some (Some ''t2'')\<rparr>]
         then b = apply_update (the ([''b'' \<mapsto> \<lparr>upd_id = None, upd_domain = None,
           upd_availability = Some [''com'' \<mapsto> Some True], upd_timestamp = None, upd_isFavorite = None,
           upd_lastChecked = Some (Some ''t2'')\<rparr>] (ds_domain a))) a else b = a)
       (fst (getAllDomains (sample_disk True [sample_suggestion ''a-1'' ''a'' False, sample_suggestion ''b-2'' ''b'' True])))
       (fst (updateMultipleDomains [''b'' \<mapsto> \<lparr>upd_id = None, upd_domain = None,
           upd_availability = Some [''com'' \<mapsto> Some True], upd_timestamp = None, upd_isFavorite = None,
           upd_lastChecked = Some (Some ''t2'')\<rparr>]
         (sample_disk True [sample_suggestion ''a-1'' ''a'' False, sample_suggestion ''b-2'' ''b'' True])))"
  by (intro conjI updateMultipleDomains_frame) simp_all

text \<open>
  \<open>clearAllDomains\<close> on a writable disk reports success and leaves a store that
  reads as empty.
\<close>

theorem clearAllDomains_empty:
  "disk_writable D \<Longrightarrow> fst (clearAllDomains D) \<and> fst (getAllDomains (snd (clearAllDomains D))) = []"
  by (simp add: clearAllDomains_def saveAllDomains_writable getAllDomains_writable)

theorem clearAllDomains_empty_witness:
  "disk_writable (sample_disk True [sample_suggestion ''a-1'' ''a'' False])
   \<and> fst (clearAllDomains (sample_disk True [sample_suggestion ''a-1'' ''a'' False]))
   \<and> fst (getAllDomains (snd (clearAllDomains (sample_disk True [sample_suggestion ''a-1'' ''a'' False])))) = []"
  using clearAllDomains_empty [of "sample_disk True [sample_suggestion ''a-1'' ''a'' False]"]
  by simp

text \<open>
  C19. When the disk refuses writes, \<open>addDomains\<close> still returns the list with the
  new records prepended although nothing was persisted: the HTTP client receives
  records that a later read does not return.
\<close>

theorem addDomains_write_failure:
  "disk_wf D \<Longrightarrow> disk_mode D = WriteRefused \<Longrightarrow> addDomains new D = (new @ stored_list D, D)"
  by (simp add: store_ops_read_modify_write read_modify_write_readonly)

theorem addDomains_write_failure_witness:
  "disk_wf (sample_disk False []) \<and> disk_mode (sample_disk False []) = WriteRefused
   \<and> addDomains [sample_suggestion ''b-2'' ''b'' False] (sample_disk False [])
       = ([sample_suggestion ''b-2'' ''b'' False], sample_disk False [])"
  using addDomains_write_failure [of "sample_disk False []" "[sample_suggestion ''b-2'' ''b'' False]"]
  by simp

text \<open>
  C20. A missing data file is created holding the empty list on first read; a corrupt
  one reads as the empty list and is left as it is until the next write, which
  replaces it, silently dropping whatever it held.
\<close>

theorem getAllDomains_self_heal:
  assumes "data_dir D" and "disk_writable D"
  shows "(data_file D = None \<longrightarrow> getAllDomains D = ([], D\<lparr>data_file := Some (Json [])\<rparr>))
         \<and> (data_file D = Some Garbage \<longrightarrow>
              getAllDomains D = ([], D) \<and> stored_list (snd (addDomains new D)) = new)"
  using assms
  by (auto simp: getAllDomains_writable store_ops_read_modify_write read_modify_write_writable
                 stored_list_def)

theorem getAllDomains_self_heal_witness:
  "data_dir \<lparr>data_dir = True, data_file = Some Garbage, disk_mode = WriteOk\<rparr>
   \<and> disk_writable \<lparr>data_dir = True, data_file = Some Garbage, disk_mode = WriteOk\<rparr>
   \<and> stored_list (snd (addDomains [sample_suggestion ''b-2'' ''b'' False]
                        \<lparr>data_dir = True, data_file = Some Garbage, disk_mode = WriteOk\<rparr>))
       = [sample_suggestion ''b-2'' ''b'' False]"
  using getAllDomains_self_heal [of "\<lparr>data_dir = True, data_file = Some Garbage, disk_mode = WriteOk\<rparr>"
                                    "[sample_suggestion ''b-2'' ''b'' False]"]
  by (simp add: disk_writable_def)

end
