(* ===== verification/Handlers.thy ===== *)
theory Handlers
  imports Checker Storage
begin

text \<open>
  The Express routes of \<^verbatim>\<open>src/backend/src/index.ts\<close>, as functions from a request
  and the server state (the disk of the store and the event trace of the checker) to a
  response and the new state.  Request bodies are JSON values; a field the body lacks
  is \<open>None\<close> (\<open>undefined\<close>).  The checker is called on the JavaScript string
  conversion of the values it receives (the code only uses them inside template
  literals and as object keys).  No route of the model reaches its \<open>catch\<close> block:
  the checker and the store absorb their own errors, so the 500 responses are
  unreachable here.  \<open>POST /domains/reverify\<close> awaits the bulk check between
  reading the favorites and writing the updates; it is modelled as two phases so that
  other requests can be interleaved at that point.
\<close>

section \<open>JSON request values\<close>

datatype jval = JNull | JBool bool | JNum int | JStr string | JArr "jval list" | JObj

fun js_truthy :: "jval option \<Rightarrow> bool" where
  "js_truthy None = False"
| "js_truthy (Some JNull) = False"
| "js_truthy (Some (JBool b)) = b"
| "js_truthy (Some (JNum n)) = (n \<noteq> 0)"
| "js_truthy (Some (JStr s)) = (s \<noteq> [])"
| "js_truthy (Some (JArr xs)) = True"
| "js_truthy (Some JObj) = True"

fun is_array :: "jval option \<Rightarrow> bool" where
  "is_array (Some (JArr xs)) = True"
| "is_array _ = False"

fun array_elems :: "jval option \<Rightarrow> jval list" where
  "array_elems (Some (JArr xs)) = xs"
| "array_elems _ = []"

fun dec_nat :: "nat \<Rightarrow> string" where
  "dec_nat n = (if n < 10 then [char_of (48 + n)] else dec_nat (n div 10) @ [char_of (48 + n mod 10)])"

declare dec_nat.simps [simp del]

text \<open>\<open>String(v)\<close> as a template literal computes it; an array joins its elements
  with commas, \<open>null\<close> elements becoming empty.\<close>

fun js_str :: "jval \<Rightarrow> string" where
  "js_str JNull = ''null''"
| "js_str (JBool b) = (if b then ''true'' else ''false'')"
| "js_str (JNum n) = (if n < 0 then ''-'' @ dec_nat (nat (- n)) else dec_nat (nat n))"
| "js_str (JStr s) = s"
| "js_str (JArr xs) = js_join CHR '','' (map (\<lambda>x. if x = JNull then [] else js_str x) xs)"
| "js_str JObj = ''[object Object]''"

section \<open>Server state and responses\<close>

record server =
  srv_disk :: disk
  srv_trace :: "event list"

text \<open>\<open>Date.now()\<close> and \<open>Math.random()\<close> as the text the template literal
  makes of them, for the record at each position of a batch.\<close>

record id_source =
  now_ms :: "nat \<Rightarrow> string"
  random_str :: "nat \<Rightarrow> string"

datatype 'a response = BadRequest string | Ok 'a

section \<open>Routes\<close>

definition check_domain_route ::
  "env \<Rightarrow> jval option \<Rightarrow> jval option \<Rightarrow> server \<Rightarrow> DomainResult response \<times> server" where
  "check_domain_route E domain tlds S =
     (if \<not> js_truthy domain \<or> \<not> js_truthy tlds \<or> \<not> is_array tlds
      then (BadRequest ''Domain name and TLDs array required'', S)
      else
        let (r, tr) = checkDomainAvailability E (js_str (the domain)) (map js_str (array_elems tlds)) (srv_trace S)
        in (Ok r, S\<lparr>srv_trace := tr\<rparr>))"

definition check_bulk_route ::
  "env \<Rightarrow> jval option \<Rightarrow> jval option \<Rightarrow> server \<Rightarrow> DomainResult list response \<times> server" where
  "check_bulk_route E domains tlds S =
     (if \<not> js_truthy domains \<or> \<not> is_array domains \<or> \<not> js_truthy tlds \<or> \<not> is_array tlds
      then (BadRequest ''Domains array and TLDs array required'', S)
      else
        let (rs, tr) = checkBulkDomains E (map js_str (array_elems domains)) (map js_str (array_elems tlds))
                         (srv_trace S)
        in (Ok rs, S\<lparr>srv_trace := tr\<rparr>))"

definition get_domains_route :: "server \<Rightarrow> DomainSuggestion list response \<times> server" where
  "get_domains_route S = (let (l, D) = getAllDomains (srv_disk S) in (Ok l, S\<lparr>srv_disk := D\<rparr>))"

text \<open>\<open>GET /api/health\<close>: \<open>{status: 'ok'}\<close>, nothing else changes.\<close>

definition health_route :: "server \<Rightarrow> string response \<times> server" where
  "health_route S = (Ok ''ok'', S)"

definition make_id :: "string \<Rightarrow> string \<Rightarrow> string \<Rightarrow> string" where
  "make_id d t r = d @ ''-'' @ t @ ''-'' @ r"

text \<open>\<open>results.map(...)\<close> in \<open>POST /domains\<close>: one new record per result.\<close>

definition to_suggestions :: "id_source \<Rightarrow> DomainResult list \<Rightarrow> DomainSuggestion list" where
  "to_suggestions G results =
     map (\<lambda>(i, r). \<lparr>ds_id = make_id (dr_domain r) (now_ms G i) (random_str G i),
                    ds_domain = dr_domain r, ds_availability = dr_availability r,
                    ds_timestamp = dr_timestamp r, ds_isFavorite = False,
                    ds_lastChecked = Some (dr_timestamp r)\<rparr>)
       (enumerate 0 results)"

definition add_domains_route ::
  "env \<Rightarrow> id_source \<Rightarrow> jval option \<Rightarrow> jval option \<Rightarrow> server \<Rightarrow> DomainSuggestion list response \<times> server" where
  "add_domains_route E G domains tlds S =
     (if \<not> js_truthy domains \<or> \<not> is_array domains \<or> \<not> js_truthy tlds \<or> \<not> is_array tlds
      then (BadRequest ''Domains array and TLDs array required'', S)
      else
        let (results, tr) = checkBulkDomains E (map js_str (array_elems domains)) (map js_str (array_elems tlds))
                              (srv_trace S);
            newDomains = to_suggestions G results;
            (allDomains, D) = addDomains newDomains (srv_disk S)
        in (Ok allDomains, \<lparr>srv_disk = D, srv_trace = tr\<rparr>))"

definition toggle_favorite_route :: "string \<Rightarrow> server \<Rightarrow> DomainSuggestion list response \<times> server" where
  "toggle_favorite_route i S = (let (l, D) = toggleFavorite i (srv_disk S) in (Ok l, S\<lparr>srv_disk := D\<rparr>))"

definition remove_domain_route :: "string \<Rightarrow> server \<Rightarrow> DomainSuggestion list response \<times> server" where
  "remove_domain_route i S = (let (l, D) = removeDomain i (srv_disk S) in (Ok l, S\<lparr>srv_disk := D\<rparr>))"

definition clear_route :: "server \<Rightarrow> string response \<times> server" where
  "clear_route S = (let (_, D) = clearAllDomains (srv_disk S) in (Ok ''All domains cleared'', S\<lparr>srv_disk := D\<rparr>))"

text \<open>
  \<open>POST /domains/reverify\<close>, phase one: validate, read the list, pick the favorites;
  either an immediate response or the names to re-check.
\<close>

definition reverify_start ::
  "jval option \<Rightarrow> server \<Rightarrow> (DomainSuggestion list response + string list) \<times> server" where
  "reverify_start tlds S =
     (if \<not> js_truthy tlds \<or> \<not> is_array tlds then (Inl (BadRequest ''TLDs array required''), S)
      else
        let (allDomains, D) = getAllDomains (srv_disk S);
            favorites = filter ds_isFavorite allDomains
        in if favorites = [] then (Inl (Ok allDomains), S\<lparr>srv_disk := D\<rparr>)
           else (Inr (map ds_domain favorites), S\<lparr>srv_disk := D\<rparr>))"

text \<open>The update map: \<open>updates.set(result.domain, ...)\<close> for each result in order,
  so a later result for the same name wins.\<close>

definition reverify_updates :: "DomainResult list \<Rightarrow> (string \<rightharpoonup> SuggestionUpdate)" where
  "reverify_updates results =
     fold (\<lambda>r m. m(dr_domain r \<mapsto>
             \<lparr>upd_id = None, upd_domain = None, upd_availability = Some (dr_availability r),
              upd_timestamp = None, upd_isFavorite = None, upd_lastChecked = Some (Some (dr_timestamp r))\<rparr>))
       results Map.empty"

text \<open>Phase two, after the awaited bulk check: write the updates into the list as it is now.\<close>

definition reverify_finish ::
  "DomainResult list \<Rightarrow> server \<Rightarrow> DomainSuggestion list response \<times> server" where
  "reverify_finish results S =
     (let (l, D) = updateMultipleDomains (reverify_updates results) (srv_disk S) in (Ok l, S\<lparr>srv_disk := D\<rparr>))"

definition reverify_route ::
  "env \<Rightarrow> jval option \<Rightarrow> server \<Rightarrow> DomainSuggestion list response \<times> server" where
  "reverify_route E tlds S =
     (case reverify_start tlds S of
        (Inl resp, S1) \<Rightarrow> (resp, S1)
      | (Inr names, S1) \<Rightarrow>
          let (results, tr) = checkBulkDomains E names (map js_str (array_elems tlds)) (srv_trace S1)
          in reverify_finish results (S1\<lparr>srv_trace := tr\<rparr>))"

text \<open>Reading back the parts of a generated id, splitting at its last two hyphens.\<close>

definition split_last :: "char \<Rightarrow> string \<Rightarrow> (string \<times> string) option" where
  "split_last c s =
     (if c \<notin> set s then None
      else Some (rev (drop 1 (dropWhile (\<lambda>x. x \<noteq> c) (rev s))), rev (takeWhile (\<lambda>x. x \<noteq> c) (rev s))))"

definition parse_id :: "string \<Rightarrow> (string \<times> string \<times> string) option" where
  "parse_id s =
     (case split_last CHR ''-'' s of
        None \<Rightarrow> None
      | Some (p, r) \<Rightarrow> (case split_last CHR ''-'' p of None \<Rightarrow> None | Some (d, t) \<Rightarrow> Some (d, t, r)))"

section \<open>Lemmas\<close>

lemma split_last_append:
  "c \<notin> set r \<Longrightarrow> split_last c (p @ c # r) = Some (p, r)"
proof -
  assume r: "c \<notin> set r"
  have tw: "takeWhile (\<lambda>x. x \<noteq> c) (rev r @ c # rev p) = rev r"
    using r by (subst takeWhile_append2) auto
  have dw: "dropWhile (\<lambda>x. x \<noteq> c) (rev r @ c # rev p) = c # rev p"
    using r by (subst dropWhile_append2) auto
  show ?thesis
    using tw dw by (simp add: split_last_def)
qed

lemma parse_id_make_id:
  "CHR ''-'' \<notin> set t \<Longrightarrow> CHR ''-'' \<notin> set r \<Longrightarrow> parse_id (make_id d t r) = Some (d, t, r)"
proof -
  assume t: "CHR ''-'' \<notin> set t" and r: "CHR ''-'' \<notin> set r"
  have "make_id d t r = (d @ ''-'' @ t) @ CHR ''-'' # r" by (simp add: make_id_def)
  then have "split_last CHR ''-'' (make_id d t r) = Some (d @ ''-'' @ t, r)"
    using r by (simp add: split_last_append del: append_assoc)
  moreover have "split_last CHR ''-'' (d @ ''-'' @ t) = Some (d, t)"
    using t split_last_append [of "CHR ''-''" t d] by simp
  ultimately show ?thesis by (simp add: parse_id_def)
qed

lemma enumerate_nth_fst: "i < length xs \<Longrightarrow> enumerate n xs ! i = (n + i, xs ! i)"
  by (simp add: nth_enumerate_eq)

lemma is_array_truthy: "is_array v \<Longrightarrow> js_truthy v"
  by (cases v rule: is_array.cases) simp_all

lemma dom_fold_updates:
  "dom (fold (\<lambda>r m. m(dr_domain r \<mapsto> f r)) rs m) = dom m \<union> set (map dr_domain rs)"
  by (induction rs arbitrary: m) auto

lemma dom_reverify_updates: "dom (reverify_updates rs) = set (map dr_domain rs)"
  by (simp add: reverify_updates_def dom_fold_updates)

lemma reverify_start_names:
  assumes "reverify_start tlds S = (Inr names, S1)" "disk_wf (srv_disk S)"
  shows "names = map ds_domain (filter ds_isFavorite (stored_list (srv_disk S)))
         \<and> srv_disk S1 = snd (getAllDomains (srv_disk S)) \<and> srv_trace S1 = srv_trace S"
  using assms
  by (auto simp: reverify_start_def getAllDomains_result Let_def prod.case_eq_if split: if_splits)

lemma reverify_start_Inr:
  assumes "is_array tlds" "disk_wf (srv_disk S)" "filter ds_isFavorite (stored_list (srv_disk S)) \<noteq> []"
  shows "reverify_start tlds S =
           (Inr (map ds_domain (filter ds_isFavorite (stored_list (srv_disk S)))),
            S\<lparr>srv_disk := snd (getAllDomains (srv_disk S))\<rparr>)"
  using assms
  by (simp add: reverify_start_def is_array_truthy getAllDomains_result Let_def prod.case_eq_if)

lemma reverify_finish_result:
  "disk_wf (srv_disk S) \<Longrightarrow>
   fst (reverify_finish results S) = Ok (list_op (OpUpdateMany (reverify_updates results)) (stored_list (srv_disk S)))"
  by (simp add: reverify_finish_def store_ops_read_modify_write read_modify_write_result prod.case_eq_if)

lemma js_str_comp_JStr [simp]: "js_str \<circ> JStr = id"
  by (simp add: fun_eq_iff)

section \<open>Properties of the routes\<close>

text \<open>
  C17. The re-verification route selects the records it rewrites by name, not by the
  favorite flag: the update map has exactly the names of the favorites as keys, and
  every stored record whose name is one of them, favorite or not, receives the new
  availability map (replacing the old one whole) and the new \<open>lastChecked\<close>.
\<close>

theorem reverify_route_by_name:
  assumes "disk_wf (srv_disk S)" "is_array tlds" "filter ds_isFavorite (stored_list (srv_disk S)) \<noteq> []"
  shows "fst (reverify_route E tlds S) =
           Ok (list_op (OpUpdateMany (reverify_updates (fst (checkBulkDomains E
                  (map ds_domain (filter ds_isFavorite (stored_list (srv_disk S))))
                  (map js_str (array_elems tlds)) (srv_trace S))))) (stored_list (srv_disk S)))
         \<and> dom (reverify_updates (fst (checkBulkDomains E
                  (map ds_domain (filter ds_isFavorite (stored_list (srv_disk S))))
                  (map js_str (array_elems tlds)) (srv_trace S))))
           = set (map ds_domain (filter ds_isFavorite (stored_list (srv_disk S))))"
proof -
  let ?names = "map ds_domain (filter ds_isFavorite (stored_list (srv_disk S)))"
  let ?S1 = "S\<lparr>srv_disk := snd (getAllDomains (srv_disk S))\<rparr>"
  have d: "disk_wf (srv_disk ?S1)" "stored_list (srv_disk ?S1) = stored_list (srv_disk S)"
    using getAllDomains_disk [OF assms(1)] by simp_all
  obtain rs tr where rs: "checkBulkDomains E ?names (map js_str (array_elems tlds)) (srv_trace S) = (rs, tr)"
    by force
  have "fst (reverify_route E tlds S) = fst (reverify_finish rs (?S1\<lparr>srv_trace := tr\<rparr>))"
    using reverify_start_Inr [OF assms(2,1,3)] rs by (simp add: reverify_route_def)
  also have "\<dots> = Ok (list_op (OpUpdateMany (reverify_updates rs)) (stored_list (srv_disk S)))"
    using reverify_finish_result [of "?S1\<lparr>srv_trace := tr\<rparr>" rs] d by simp
  finally have res: "fst (reverify_route E tlds S) =
                      Ok (list_op (OpUpdateMany (reverify_updates rs)) (stored_list (srv_disk S)))" .
  have "map dr_domain rs = ?names"
    using rs checkBulkDomains_domains [of E ?names "map js_str (array_elems tlds)" "srv_trace S"] by simp
  then have "dom (reverify_updates rs) = set ?names"
    by (simp add: dom_reverify_updates)
  with res rs show ?thesis by simp
qed

theorem reverify_route_by_name_witness:
  "disk_wf (srv_disk \<lparr>srv_disk = sample_disk True [sample_suggestion ''a-1'' ''a'' True, sample_suggestion ''a-2'' ''a'' False],
                        srv_trace = []\<rparr>)
   \<and> is_array (Some (JArr [JStr ''com'']))
   \<and> filter ds_isFavorite (stored_list (srv_disk \<lparr>srv_disk = sample_disk True [sample_suggestion ''a-1'' ''a'' True,
                        sample_suggestion ''a-2'' ''a'' False], srv_trace = []\<rparr>)) \<noteq> []
   \<and> dom (reverify_updates (fst (checkBulkDomains (const_env None ApiFail DnsFail) [''a''] [''com''] [])))
       = {''a''}"
  using reverify_route_by_name
    [of "\<lparr>srv_disk = sample_disk True [sample_suggestion ''a-1'' ''a'' True, sample_suggestion ''a-2'' ''a'' False],
         srv_trace = []\<rparr>" "Some (JArr [JStr ''com''])" "const_env None ApiFail DnsFail"]
  by (simp add: sample_suggestion_def)

text \<open>
  C21. On a request with two arrays and a writable store, \<open>POST /domains\<close> stores and
  returns one new record per requested name, in request order, ahead of the records
  already stored; every new record is not a favorite and has \<open>lastChecked\<close> equal
  to its \<open>timestamp\<close>.
\<close>

theorem add_domains_route_ok:
  assumes "is_array domains" "is_array tlds" "disk_wf (srv_disk S)" "disk_writable (srv_disk S)"
  shows "\<exists>new. fst (add_domains_route E G domains tlds S) = Ok (new @ stored_list (srv_disk S))
           \<and> stored_list (srv_disk (snd (add_domains_route E G domains tlds S))) = new @ stored_list (srv_disk S)
           \<and> map ds_domain new = map js_str (array_elems domains)
           \<and> (\<forall>d \<in> set new. \<not> ds_isFavorite d \<and> ds_lastChecked d = Some (ds_timestamp d))"
proof -
  obtain rs tr where rs: "checkBulkDomains E (map js_str (array_elems domains)) (map js_str (array_elems tlds)) (srv_trace S) = (rs, tr)"
    by force
  let ?new = "to_suggestions G rs"
  have r: "add_domains_route E G domains tlds S =
             (Ok (?new @ stored_list (srv_disk S)),
              \<lparr>srv_disk = snd (addDomains ?new (srv_disk S)), srv_trace = tr\<rparr>)"
    using assms rs
    by (simp add: add_domains_route_def is_array_truthy store_ops_read_modify_write
                  read_modify_write_writable Let_def)
  have "map ds_domain ?new = map dr_domain rs"
    by (rule nth_equalityI) (simp_all add: to_suggestions_def nth_enumerate_eq)
  moreover have "map dr_domain rs = map js_str (array_elems domains)"
    using rs checkBulkDomains_domains [of E "map js_str (array_elems domains)"] by (metis fst_conv)
  moreover have "\<forall>d \<in> set ?new. \<not> ds_isFavorite d \<and> ds_lastChecked d = Some (ds_timestamp d)"
    by (auto simp: to_suggestions_def)
  ultimately show ?thesis
    using r assms(4) by (simp add: store_ops_read_modify_write read_modify_write_writable)
qed

theorem add_domains_route_ok_witness:
  "is_array (Some (JArr [JStr ''x''])) \<and> is_array (Some (JArr [JStr ''com'']))
   \<and> disk_wf (srv_disk \<lparr>srv_disk = sample_disk True [], srv_trace = []\<rparr>)
   \<and> disk_writable (srv_disk \<lparr>srv_disk = sample_disk True [], srv_trace = []\<rparr>)
   \<and> (\<exists>new. fst (add_domains_route (const_env None ApiFail DnsFail)
                  \<lparr>now_ms = (\<lambda>i. ''1''), random_str = (\<lambda>i. ''0.5'')\<rparr>
                  (Some (JArr [JStr ''x''])) (Some (JArr [JStr ''com'']))
                  \<lparr>srv_disk = sample_disk True [], srv_trace = []\<rparr>) = Ok new
              \<and> map ds_domain new = [''x''])"
  using add_domains_route_ok
    [of "Some (JArr [JStr ''x''])" "Some (JArr [JStr ''com''])" "\<lparr>srv_disk = sample_disk True [], srv_trace = []\<rparr>"
        "const_env None ApiFail DnsFail" "\<lparr>now_ms = (\<lambda>i. ''1''), random_str = (\<lambda>i. ''0.5'')\<rparr>"]
  by auto

text \<open>
  \<open>POST /domains\<close> answers 400 and touches neither the store nor the checker
  when \<open>domains\<close> or \<open>tlds\<close> is missing, falsy, or not an array.
\<close>

theorem add_domains_route_rejects:
  "\<not> (is_array domains \<and> is_array tlds) \<Longrightarrow>
   add_domains_route E G domains tlds S = (BadRequest ''Domains array and TLDs array required'', S)"
  by (auto simp: add_domains_route_def is_array_truthy)

theorem add_domains_route_rejects_witness:
  "\<not> (is_array (Some (JStr ''nordicai'')) \<and> is_array (Some (JArr [JStr ''com''])))
   \<and> add_domains_route (const_env None ApiFail DnsFail) \<lparr>now_ms = (\<lambda>i. ''1''), random_str = (\<lambda>i. ''0.5'')\<rparr>
        (Some (JStr ''nordicai'')) (Some (JArr [JStr ''com''])) \<lparr>srv_disk = sample_disk True [], srv_trace = []\<rparr>
       = (BadRequest ''Domains array and TLDs array required'', \<lparr>srv_disk = sample_disk True [], srv_trace = []\<rparr>)"
  using add_domains_route_rejects
    [of "Some (JStr ''nordicai'')" "Some (JArr [JStr ''com''])" "const_env None ApiFail DnsFail"
        "\<lparr>now_ms = (\<lambda>i. ''1''), random_str = (\<lambda>i. ''0.5'')\<rparr>" "\<lparr>srv_disk = sample_disk True [], srv_trace = []\<rparr>"]
  by simp

text \<open>
  C23. Generated ids \<open>name-now-random\<close> determine their parts when the timestamp
  and the random text contain no hyphen: two ids are equal exactly when name, time and
  random text are, even for names that contain hyphens.
\<close>

theorem make_id_injective:
  assumes "CHR ''-'' \<notin> set t" "CHR ''-'' \<notin> set r" "CHR ''-'' \<notin> set t'" "CHR ''-'' \<notin> set r'"
  shows "make_id d t r = make_id d' t' r' \<longleftrightarrow> d = d' \<and> t = t' \<and> r = r'"
proof
  assume "make_id d t r = make_id d' t' r'"
  then have "parse_id (make_id d t r) = parse_id (make_id d' t' r')" by simp
  then show "d = d' \<and> t = t' \<and> r = r'"
    by (simp add: parse_id_make_id [OF assms(1,2)] parse_id_make_id [OF assms(3,4)])
qed simp

theorem make_id_injective_witness:
  "CHR ''-'' \<notin> set ''1700000000000'' \<and> CHR ''-'' \<notin> set ''0.25''
   \<and> make_id ''a-b'' ''1700000000000'' ''0.25'' \<noteq> make_id ''a'' ''1700000000000'' ''0.25''"
  using make_id_injective [of "''1700000000000''" "''0.25''" "''1700000000000''" "''0.25''" "''a-b''" "''a''"]
  by simp

text \<open>
  C24. Interleaving at the \<open>await\<close> of re-verification loses no update: the names to
  re-check are the favorites when the request started, and whatever store operations
  other requests complete while the check runs are all kept; the re-verification
  updates are then applied to the list as those operations left it.
\<close>

theorem reverify_interleaving:
  assumes "reverify_start tlds S = (Inr names, S1)" "disk_wf (srv_disk S)" "disk_writable (srv_disk S)"
  shows "names = map ds_domain (filter ds_isFavorite (stored_list (srv_disk S)))
         \<and> stored_list (srv_disk (snd (reverify_finish results (S1\<lparr>srv_disk := fold store_step ops (srv_disk S1)\<rparr>))))
           = list_op (OpUpdateMany (reverify_updates results)) (fold list_op ops (stored_list (srv_disk S)))"
proof -
  have n: "names = map ds_domain (filter ds_isFavorite (stored_list (srv_disk S)))"
    and s1: "srv_disk S1 = snd (getAllDomains (srv_disk S))"
    using reverify_start_names [OF assms(1,2)] by simp_all
  have d1: "disk_wf (srv_disk S1)" "disk_writable (srv_disk S1)" "stored_list (srv_disk S1) = stored_list (srv_disk S)"
    using getAllDomains_disk [OF assms(2)] assms(3) s1 by simp_all
  let ?D2 = "fold store_step ops (srv_disk S1)"
  have d2: "stored_list ?D2 = fold list_op ops (stored_list (srv_disk S))" "disk_writable ?D2"
    using fold_store_step_writable [OF d1(1,2), of ops] d1(3) by simp_all
  have "srv_disk (snd (reverify_finish results (S1\<lparr>srv_disk := ?D2\<rparr>)))
        = snd (updateMultipleDomains (reverify_updates results) ?D2)"
    by (simp add: reverify_finish_def split: prod.split)
  then show ?thesis
    using n d2 by (simp add: store_ops_read_modify_write read_modify_write_writable)
qed

theorem reverify_interleaving_witness:
  "reverify_start (Some (JArr [JStr ''com'']))
      \<lparr>srv_disk = sample_disk True [sample_suggestion ''a-1'' ''a'' True], srv_trace = []\<rparr>
     = (Inr [''a''], \<lparr>srv_disk = sample_disk True [sample_suggestion ''a-1'' ''a'' True], srv_trace = []\<rparr>)
   \<and> disk_wf (sample_disk True [sample_suggestion ''a-1'' ''a'' True])
   \<and> disk_writable (sample_disk True [sample_suggestion ''a-1'' ''a'' True])
   \<and> stored_list (srv_disk (snd (reverify_finish []
        (\<lparr>srv_disk = sample_disk True [sample_suggestion ''a-1'' ''a'' True], srv_trace = []\<rparr>
          \<lparr>srv_disk := fold store_step [OpRemove ''a-1''] (sample_disk True [sample_suggestion ''a-1'' ''a'' True])\<rparr>))))
     = []"
proof -
  have start: "reverify_start (Some (JArr [JStr ''com'']))
      \<lparr>srv_disk = sample_disk True [sample_suggestion ''a-1'' ''a'' True], srv_trace = []\<rparr>
     = (Inr [''a''], \<lparr>srv_disk = sample_disk True [sample_suggestion ''a-1'' ''a'' True], srv_trace = []\<rparr>)"
    by (simp add: reverify_start_def getAllDomains_writable sample_suggestion_def sample_disk_def Let_def
                  disk_writable_def)
  have "stored_list (srv_disk (snd (reverify_finish []
        (\<lparr>srv_disk = sample_disk True [sample_suggestion ''a-1'' ''a'' True], srv_trace = []\<rparr>
          \<lparr>srv_disk := fold store_step [OpRemove ''a-1''] (sample_disk True [sample_suggestion ''a-1'' ''a'' True])\<rparr>))))
     = list_op (OpUpdateMany (reverify_updates [])) (fold list_op [OpRemove ''a-1''] [sample_suggestion ''a-1'' ''a'' True])"
    using reverify_interleaving [OF start, of "[]" "[OpRemove ''a-1'']"] by simp
  then show ?thesis
    using start by (simp add: sample_suggestion_def)
qed

text \<open>
  C25. Within one \<open>POST /domains\<close> batch the new records have distinct ids whenever
  the triples (name, \<open>Date.now()\<close> text, \<open>Math.random()\<close> text) are distinct and
  the two numbers print without a hyphen.
\<close>

theorem to_suggestions_distinct_ids:
  assumes "\<forall>i < length rs. CHR ''-'' \<notin> set (now_ms G i) \<and> CHR ''-'' \<notin> set (random_str G i)"
    and "distinct (map (\<lambda>i. (dr_domain (rs ! i), now_ms G i, random_str G i)) [0..<length rs])"
  shows "distinct (map ds_id (to_suggestions G rs))"
proof -
  have "map ds_id (to_suggestions G rs) =
        map (\<lambda>i. make_id (dr_domain (rs ! i)) (now_ms G i) (random_str G i)) [0..<length rs]"
    by (rule nth_equalityI) (simp_all add: to_suggestions_def nth_enumerate_eq)
  moreover have "inj_on (\<lambda>i. make_id (dr_domain (rs ! i)) (now_ms G i) (random_str G i)) {0..<length rs}"
  proof (rule inj_onI)
    fix i j assume i: "i \<in> {0..<length rs}" and j: "j \<in> {0..<length rs}"
      and eq: "make_id (dr_domain (rs ! i)) (now_ms G i) (random_str G i) =
               make_id (dr_domain (rs ! j)) (now_ms G j) (random_str G j)"
    have "parse_id (make_id (dr_domain (rs ! i)) (now_ms G i) (random_str G i)) =
          parse_id (make_id (dr_domain (rs ! j)) (now_ms G j) (random_str G j))"
      using eq by simp
    then have "(dr_domain (rs ! i), now_ms G i, random_str G i) = (dr_domain (rs ! j), now_ms G j, random_str G j)"
      using assms(1) i j by (simp add: parse_id_make_id)
    then show "i = j"
      using assms(2) i j by (simp add: distinct_map inj_on_def)
  qed
  ultimately show ?thesis by (simp add: distinct_map)
qed

theorem to_suggestions_distinct_ids_witness:
  "distinct (map ds_id (to_suggestions \<lparr>now_ms = (\<lambda>i. ''17''), random_str = (\<lambda>i. if i = 0 then ''0.1'' else ''0.2'')\<rparr>
        [\<lparr>dr_domain = ''a'', dr_availability = Map.empty, dr_timestamp = ''t''\<rparr>,
         \<lparr>dr_domain = ''a'', dr_availability = Map.empty, dr_timestamp = ''t''\<rparr>]))"
proof -
  have h1: "\<forall>i < length [\<lparr>dr_domain = ''a'', dr_availability = Map.empty, dr_timestamp = ''t''\<rparr>,
                  \<lparr>dr_domain = ''a'', dr_availability = Map.empty, dr_timestamp = ''t''\<rparr>].
       CHR ''-'' \<notin> set (now_ms \<lparr>now_ms = (\<lambda>i. ''17''), random_str = (\<lambda>i. if i = 0 then ''0.1'' else ''0.2'')\<rparr> i)
       \<and> CHR ''-'' \<notin> set (random_str \<lparr>now_ms = (\<lambda>i. ''17''), random_str = (\<lambda>i. if i = 0 then ''0.1'' else ''0.2'')\<rparr> i)"
    by simp
  have h2: "distinct (map (\<lambda>i. (dr_domain ([\<lparr>dr_domain = ''a'', dr_availability = Map.empty, dr_timestamp = ''t''\<rparr>,
                  \<lparr>dr_domain = ''a'', dr_availability = Map.empty, dr_timestamp = ''t''\<rparr>] ! i),
        now_ms \<lparr>now_ms = (\<lambda>i. ''17''), random_str = (\<lambda>i. if i = 0 then ''0.1'' else ''0.2'')\<rparr> i,
        random_str \<lparr>now_ms = (\<lambda>i. ''17''), random_str = (\<lambda>i. if i = 0 then ''0.1'' else ''0.2'')\<rparr> i)) [0..<2])"
    by (simp add: upt_rec)
  show ?thesis
    using to_suggestions_distinct_ids [OF h1] h2 by simp
qed

end
