(* ===== verification/Server.thy ===== *)
theory Server
  imports Handlers "HOL-Library.Sublist"
begin

text \<open>
  The backend as a transition system.  A state is the server (disk and trace) together
  with the re-verifications that have passed their \<open>await\<close>-point: the names and
  TLDs of each \<open>POST /domains/reverify\<close> whose bulk check is still running.  Every
  other route of \<^verbatim>\<open>src/backend/src/index.ts\<close> runs without suspending the store
  (every function of \<^verbatim>\<open>storage.ts\<close> is synchronous), so it is one step; a
  re-verification is two steps, \<open>reverify_start\<close> and, at any later point,
  \<open>reverify_finish\<close> with the results of its bulk check, so that any other request
  may run in between.  Each step of \<open>POST /domains\<close> may draw its own
  \<open>Date.now()\<close>/\<open>Math.random()\<close> values.  The invariant proved by rule induction:
  the disk stays well formed and every stored record keeps an \<open>id\<close> that begins
  with its name and a hyphen and has a \<open>lastChecked\<close> date.
\<close>

section \<open>Reachable server states\<close>

text \<open>What every stored record satisfies: its \<open>id\<close> was made by \<open>make_id\<close>
  from its name, and it has been checked at least once.\<close>

definition record_ok :: "DomainSuggestion \<Rightarrow> bool" where
  "record_ok d \<longleftrightarrow> prefix (ds_domain d @ ''-'') (ds_id d) \<and> ds_lastChecked d \<noteq> None"

text \<open>A property of every stored record, on a well-formed disk.\<close>

definition store_inv :: "(DomainSuggestion \<Rightarrow> bool) \<Rightarrow> disk \<Rightarrow> bool" where
  "store_inv Q D \<longleftrightarrow> disk_wf D \<and> list_all Q (stored_list D)"

text \<open>The states reachable from a server started without a data file.\<close>

inductive server_reach :: "env \<Rightarrow> server \<Rightarrow> (string list \<times> string list) list \<Rightarrow> bool" for E where
  init: "data_file D = None \<Longrightarrow> server_reach E \<lparr>srv_disk = D, srv_trace = []\<rparr> []"
| check_domain: "server_reach E S P \<Longrightarrow> check_domain_route E d t S = (r, S') \<Longrightarrow> server_reach E S' P"
| check_bulk: "server_reach E S P \<Longrightarrow> check_bulk_route E ds t S = (rs, S') \<Longrightarrow> server_reach E S' P"
| get_domains: "server_reach E S P \<Longrightarrow> get_domains_route S = (l, S') \<Longrightarrow> server_reach E S' P"
| add_domains: "server_reach E S P \<Longrightarrow> add_domains_route E G ds t S = (l, S') \<Longrightarrow> server_reach E S' P"
| toggle_favorite: "server_reach E S P \<Longrightarrow> toggle_favorite_route i S = (l, S') \<Longrightarrow> server_reach E S' P"
| remove_domain: "server_reach E S P \<Longrightarrow> remove_domain_route i S = (l, S') \<Longrightarrow> server_reach E S' P"
| clear: "server_reach E S P \<Longrightarrow> clear_route S = (m, S') \<Longrightarrow> server_reach E S' P"
| reverify_done: "server_reach E S P \<Longrightarrow> reverify_start t S = (Inl r, S') \<Longrightarrow> server_reach E S' P"
| reverify_start: "server_reach E S P \<Longrightarrow> reverify_start t S = (Inr names, S') \<Longrightarrow>
     server_reach E S' (P @ [(names, map js_str (array_elems t))])"
| reverify_finish: "server_reach E S (P1 @ (names, tlds) # P2) \<Longrightarrow>
     checkBulkDomains E names tlds (srv_trace S) = (results, tr) \<Longrightarrow>
     reverify_finish results (S\<lparr>srv_trace := tr\<rparr>) = (l, S') \<Longrightarrow> server_reach E S' (P1 @ P2)"

text \<open>A disk with no data directory yet, for the witness.\<close>

definition fresh_disk :: disk where
  "fresh_disk = \<lparr>data_dir = False, data_file = None, disk_mode = WriteOk\<rparr>"

section \<open>Lemmas\<close>

lemma store_inv_rmw:
  "store_inv Q D \<Longrightarrow> list_all Q (f (stored_list D)) \<Longrightarrow> store_inv Q (snd (read_modify_write f D))"
  by (cases "disk_mode D") (simp_all add: store_inv_def read_modify_write_modes disk_wf_def stored_list_def)

lemma store_inv_rmw_pres:
  assumes "store_inv Q D" "\<And>l. list_all Q l \<Longrightarrow> list_all Q (f l)"
  shows "store_inv Q (snd (read_modify_write f D))"
  using assms store_inv_rmw [of Q D f] by (simp add: store_inv_def)

lemma store_inv_get: "store_inv Q D \<Longrightarrow> store_inv Q (snd (getAllDomains D))"
  using getAllDomains_disk by (simp add: store_inv_def)

lemma store_inv_clear: "store_inv Q D \<Longrightarrow> store_inv Q (snd (clearAllDomains D))"
  by (cases "disk_mode D")
     (simp_all add: store_inv_def clearAllDomains_def saveAllDomains_writable disk_writable_def
                    saveAllDomains_readonly saveAllDomains_torn disk_wf_def stored_list_def)

lemma fold_updates_Some:
  "fold (\<lambda>r m. m(dr_domain r \<mapsto> f r)) rs m k = Some u \<Longrightarrow> m k = Some u \<or> (\<exists>r \<in> set rs. u = f r)"
proof (induction rs arbitrary: m)
  case (Cons a rs)
  have "fold (\<lambda>r m. m(dr_domain r \<mapsto> f r)) rs (m(dr_domain a \<mapsto> f a)) k = Some u"
    using Cons.prems by (simp only: fold_Cons comp_def)
  from Cons.IH [OF this] show ?case by (auto split: if_splits)
qed simp

lemma reverify_updates_Some:
  "reverify_updates rs k = Some u \<Longrightarrow>
   upd_id u = None \<and> upd_domain u = None \<and>
   (\<exists>r \<in> set rs. upd_availability u = Some (dr_availability r) \<and> upd_lastChecked u = Some (Some (dr_timestamp r)))"
  unfolding reverify_updates_def by (drule fold_updates_Some) auto

lemma record_ok_apply_update:
  "record_ok d \<Longrightarrow> reverify_updates rs k = Some u \<Longrightarrow> record_ok (apply_update u d)"
  by (auto simp: record_ok_def apply_update_def spread_field_def dest!: reverify_updates_Some)

lemma record_ok_update_many:
  "list_all record_ok l \<Longrightarrow> list_all record_ok (list_op (OpUpdateMany (reverify_updates rs)) l)"
  by (auto simp: list_all_iff intro: record_ok_apply_update)

lemma record_ok_to_suggestions: "list_all record_ok (to_suggestions G rs)"
  by (auto simp: to_suggestions_def record_ok_def make_id_def list_all_iff)

lemma route_disk:
  "check_domain_route E d t S = (r, S') \<Longrightarrow> srv_disk S' = srv_disk S"
  "check_bulk_route E ds t S = (rs, S') \<Longrightarrow> srv_disk S' = srv_disk S"
  "get_domains_route S = (l, S') \<Longrightarrow> srv_disk S' = snd (getAllDomains (srv_disk S))"
  "toggle_favorite_route i S = (l, S') \<Longrightarrow> srv_disk S' = snd (read_modify_write (list_op (OpToggle i)) (srv_disk S))"
  "remove_domain_route i S = (l, S') \<Longrightarrow> srv_disk S' = snd (read_modify_write (list_op (OpRemove i)) (srv_disk S))"
  "clear_route S = (m, S') \<Longrightarrow> srv_disk S' = snd (clearAllDomains (srv_disk S))"
  "reverify_finish results S = (l, S') \<Longrightarrow>
     srv_disk S' = snd (read_modify_write (list_op (OpUpdateMany (reverify_updates results))) (srv_disk S))"
  by (auto simp: check_domain_route_def check_bulk_route_def get_domains_route_def toggle_favorite_route_def
        remove_domain_route_def clear_route_def reverify_finish_def store_ops_read_modify_write
        Let_def prod.case_eq_if split: if_splits)

lemma add_domains_route_disk:
  "add_domains_route E G ds t S = (l, S') \<Longrightarrow>
   srv_disk S' = srv_disk S \<or> (\<exists>rs. srv_disk S' = snd (read_modify_write (\<lambda>l. to_suggestions G rs @ l) (srv_disk S)))"
  by (auto simp: add_domains_route_def store_ops_read_modify_write Let_def prod.case_eq_if split: if_splits)

lemma reverify_start_disk:
  "reverify_start t S = (v, S') \<Longrightarrow> srv_disk S' = srv_disk S \<or> srv_disk S' = snd (getAllDomains (srv_disk S))"
  by (auto simp: reverify_start_def Let_def prod.case_eq_if split: if_splits)

lemma record_ok_toggle: "list_all record_ok l \<Longrightarrow> list_all record_ok (list_op (OpToggle i) l)"
  by (auto simp: list_all_iff record_ok_def)

lemma record_ok_remove: "list_all record_ok l \<Longrightarrow> list_all record_ok (list_op (OpRemove i) l)"
  by (simp add: list_all_iff)

lemma record_ok_add: "list_all record_ok l \<Longrightarrow> list_all record_ok (to_suggestions G rs @ l)"
  by (simp add: record_ok_to_suggestions)

lemmas record_ok_list_ops = record_ok_toggle record_ok_remove record_ok_add

section \<open>The store invariant\<close>

text \<open>
  C34. In every reachable state of the server, whatever requests arrive and however the
  two phases of re-verifications interleave with them, the disk is well formed and every
  stored record has an \<open>id\<close> beginning with its name and a hyphen and a
  \<open>lastChecked\<close> date.
\<close>

theorem server_reach_inv:
  "server_reach E S P \<Longrightarrow> disk_wf (srv_disk S) \<and> list_all record_ok (stored_list (srv_disk S))"
proof -
  assume "server_reach E S P"
  then have "store_inv record_ok (srv_disk S)"
  proof (induction rule: server_reach.induct)
    case (init D)
    then show ?case by (simp add: store_inv_def disk_wf_def stored_list_def)
  next
    case (check_domain S P d t r S')
    then show ?case by (simp add: route_disk(1))
  next
    case (check_bulk S P ds t rs S')
    then show ?case by (simp add: route_disk(2))
  next
    case (get_domains S P l S')
    then show ?case by (simp add: route_disk(3) store_inv_get)
  next
    case (add_domains S P G ds t l S')
    have "store_inv record_ok (snd (read_modify_write (\<lambda>l. to_suggestions G rs @ l) (srv_disk S)))" for rs
      by (rule store_inv_rmw_pres [OF add_domains.IH record_ok_add])
    with add_domains_route_disk [OF add_domains.hyps(2)] show ?case
      using add_domains.IH by auto
  next
    case (toggle_favorite S P i l S')
    show ?case unfolding route_disk(4) [OF toggle_favorite.hyps(2)]
      by (rule store_inv_rmw_pres [OF toggle_favorite.IH record_ok_toggle])
  next
    case (remove_domain S P i l S')
    show ?case unfolding route_disk(5) [OF remove_domain.hyps(2)]
      by (rule store_inv_rmw_pres [OF remove_domain.IH record_ok_remove])
  next
    case (clear S P m S')
    then show ?case by (simp add: route_disk(6) store_inv_clear)
  next
    case (reverify_done S P t r S')
    then show ?case using reverify_start_disk [OF reverify_done.hyps(2)] store_inv_get by auto
  next
    case (reverify_start S P t names S')
    then show ?case using reverify_start_disk [OF reverify_start.hyps(2)] store_inv_get by auto
  next
    case (reverify_finish S P1 names tlds P2 results tr l S')
    have "store_inv record_ok
            (snd (read_modify_write (list_op (OpUpdateMany (reverify_updates results))) (srv_disk S)))"
      by (rule store_inv_rmw_pres [OF reverify_finish.IH record_ok_update_many])
    then show ?case using route_disk(7) [OF reverify_finish.hyps(3)] by simp
  qed
  then show ?thesis by (simp add: store_inv_def)
qed

theorem server_reach_inv_witness:
  "server_reach (const_env None ApiFail DnsFail) (snd (clear_route \<lparr>srv_disk = fresh_disk, srv_trace = []\<rparr>)) []
   \<and> disk_wf (srv_disk (snd (clear_route \<lparr>srv_disk = fresh_disk, srv_trace = []\<rparr>)))
   \<and> list_all record_ok (stored_list (srv_disk (snd (clear_route \<lparr>srv_disk = fresh_disk, srv_trace = []\<rparr>))))"
proof -
  let ?S = "\<lparr>srv_disk = fresh_disk, srv_trace = []\<rparr>"
  have r0: "server_reach (const_env None ApiFail DnsFail) ?S []"
    by (rule server_reach.init) (simp add: fresh_disk_def)
  have r: "server_reach (const_env None ApiFail DnsFail) (snd (clear_route ?S)) []"
    by (rule server_reach.clear [OF r0, of "fst (clear_route ?S)"]) simp
  show ?thesis using server_reach_inv [OF r] r by simp
qed

end
