(* ===== verification/Input.thy ===== *)
theory Input
  imports Prelude "HOL-Library.Sublist"
begin

text \<open>
  The input parser of \<^verbatim>\<open>src/frontend/src/components/DomainInput.tsx\<close>: the
  text of the textarea is split into lines, each line is trimmed, empty lines are
  dropped, one trailing extension \<open>.com\<close>, \<open>.ai\<close>, \<open>.se\<close> or \<open>.no\<close> is
  removed (in any letter case), the rest is lowercased and stripped of every character
  outside \<open>[a-z0-9-]\<close>, and names left empty are dropped.  \<open>handleSubmit\<close>
  sends the names and clears the textarea, or does nothing; the counter under the
  textarea shows the number of non-blank lines.  Strings are lists of 8-bit
  characters, so JavaScript's white space is the characters 9-13, 32 and 160, and
  \<open>toLowerCase\<close> followed by the filter is exactly \<open>filter valid_char
  \<circ> js_lower\<close> (no character of this range lowercases onto an ASCII letter
  except the ASCII capitals).
\<close>

section \<open>String primitives\<close>

definition js_space :: "char \<Rightarrow> bool" where
  [model_defs]: "js_space c \<longleftrightarrow> of_char c \<in> {9, 10, 11, 12, 13, 32, 160 :: nat}"

text \<open>\<open>s.trim()\<close>.\<close>

definition js_trim :: "string \<Rightarrow> string" where
  "js_trim s = rev (dropWhile js_space (rev (dropWhile js_space s)))"

text \<open>\<open>/\.(com|ai|se|no)$/i\<close>: the extensions the regular expression names.\<close>

definition known_tlds :: "string list" where
  "known_tlds = [''com'', ''ai'', ''se'', ''no'']"

text \<open>\<open>domain.replace(/\.(com|ai|se|no)$/i, '')\<close>: without the \<open>g\<close> and
  \<open>m\<close> flags the pattern matches at most once, at the end of the string; the
  \<open>i\<close> flag compares ASCII letters without case.\<close>

definition strip_tld :: "string \<Rightarrow> string" where
  "strip_tld s =
     (case find (\<lambda>t. suffix (CHR ''.'' # t) (js_lower s)) known_tlds of
        None \<Rightarrow> s
      | Some t \<Rightarrow> take (length s - Suc (length t)) s)"

text \<open>\<open>[a-z0-9-]\<close>.\<close>

definition valid_char :: "char \<Rightarrow> bool" where
  [model_defs]: "valid_char c \<longleftrightarrow>
     (let n = (of_char c :: nat) in (97 \<le> n \<and> n \<le> 122) \<or> (48 \<le> n \<and> n \<le> 57) \<or> n = 45)"

text \<open>\<open>domain.toLowerCase().replace(/[^a-z0-9-]/g, '')\<close>.\<close>

definition keep_valid :: "string \<Rightarrow> string" where
  "keep_valid s = filter valid_char (js_lower s)"

section \<open>The parser and the submit handler\<close>

definition parse_domains :: "string \<Rightarrow> string list" where
  "parse_domains inputText =
     filter (\<lambda>d. length d > 0)
       (map (\<lambda>d. keep_valid (strip_tld d))
         (filter (\<lambda>l. length l > 0) (map js_trim (js_split CHR ''\<newline>'' inputText))))"

text \<open>\<open>handleSubmit\<close>: the names sent to \<open>onAddDomains\<close>, if any, and the new
  content of the textarea.\<close>

definition handleSubmit :: "string \<Rightarrow> string list option \<times> string" where
  "handleSubmit inputText =
     (if js_trim inputText = [] then (None, inputText)
      else let domains = parse_domains inputText
           in if length domains > 0 then (Some domains, []) else (None, inputText))"

text \<open>The \<open>Domains to check\<close> counter.\<close>

definition domains_to_check :: "string \<Rightarrow> nat" where
  "domains_to_check inputText =
     length (filter (\<lambda>l. length (js_trim l) > 0) (js_split CHR ''\<newline>'' inputText))"

text \<open>What the parser promises of a name: non-empty and over \<open>[a-z0-9-]\<close>.\<close>

definition valid_name :: "string \<Rightarrow> bool" where
  "valid_name d \<longleftrightarrow> d \<noteq> [] \<and> list_all valid_char d"

section \<open>Lemmas\<close>

lemma valid_char_not_space: "valid_char c \<Longrightarrow> \<not> js_space c"
  by (auto simp: valid_char_def js_space_def Let_def)

lemma valid_char_lower: "valid_char c \<Longrightarrow> lower_char c = c"
  by (auto simp: valid_char_def lower_char_def Let_def)

lemma js_lower_valid: "list_all valid_char d \<Longrightarrow> js_lower d = d"
  by (induction d) (simp_all add: js_lower_def valid_char_lower)

lemma js_trim_Nil_iff: "js_trim s = [] \<longleftrightarrow> list_all js_space s"
proof -
  have "js_trim s = [] \<longleftrightarrow> list_all js_space (dropWhile js_space s)"
    by (simp add: js_trim_def dropWhile_all_Nil list_all_iff)
  also have "\<dots> \<longleftrightarrow> dropWhile js_space s = []"
  proof
    assume all: "list_all js_space (dropWhile js_space s)"
    show "dropWhile js_space s = []"
    proof (rule ccontr)
      assume ne: "dropWhile js_space s \<noteq> []"
      then have "\<not> js_space (hd (dropWhile js_space s))" by (rule hd_dropWhile)
      with all ne show False by (simp add: list_all_iff)
    qed
  qed (simp del: dropWhile_eq_Nil_conv)
  finally show ?thesis
    by (simp only: dropWhile_all_Nil)
qed

lemma js_trim_id: "list_all (\<lambda>c. \<not> js_space c) s \<Longrightarrow> js_trim s = s"
  by (simp add: js_trim_def dropWhile_none)

lemma valid_char_not_nl: "valid_char c \<Longrightarrow> c \<noteq> CHR ''\<newline>''"
  by (auto simp: valid_char_def)

lemma keep_valid_charD: "c \<in> set (keep_valid s) \<Longrightarrow> valid_char c"
  by (simp add: keep_valid_def)

lemma strip_tld_valid: "list_all valid_char d \<Longrightarrow> strip_tld d = d"
proof -
  assume d: "list_all valid_char d"
  have "CHR ''.'' \<notin> set d"
    using d by (auto simp: list_all_iff valid_char_def)
  then have "\<not> suffix (CHR ''.'' # t) d" for t
    by (auto simp: suffix_def)
  then show ?thesis
    using d by (simp add: strip_tld_def js_lower_valid known_tlds_def)
qed

lemma keep_valid_valid: "list_all valid_char d \<Longrightarrow> keep_valid d = d"
  by (simp add: keep_valid_def js_lower_valid list_all_iff)

lemma valid_name_fixed:
  "valid_name d \<Longrightarrow> js_trim d = d \<and> keep_valid (strip_tld d) = d"
  by (simp add: valid_name_def js_trim_id strip_tld_valid keep_valid_valid
      list_all_iff valid_char_not_space)

lemma parse_domains_join:
  assumes "list_all valid_name ds"
  shows "parse_domains (js_join CHR ''\<newline>'' ds) = ds"
proof (cases "ds = []")
  case True
  then show ?thesis by (simp add: parse_domains_def js_trim_def)
next
  case False
  have nl: "list_all (\<lambda>x. CHR ''\<newline>'' \<notin> set x) ds"
    using assms by (auto simp: list_all_iff valid_name_def dest: valid_char_not_nl)
  have "map js_trim ds = ds" "map (\<lambda>d. keep_valid (strip_tld d)) ds = ds"
    using assms by (simp_all add: list_all_iff valid_name_fixed map_idI)
  moreover have "filter (\<lambda>d. length d > 0) ds = ds"
    using assms by (auto simp: list_all_iff valid_name_def)
  ultimately show ?thesis
    using js_split_join[OF False nl] by (simp add: parse_domains_def)
qed

lemma parse_domains_blank: "js_trim s = [] \<Longrightarrow> parse_domains s = []"
proof -
  assume "js_trim s = []"
  then have sp: "list_all js_space s" by (simp add: js_trim_Nil_iff)
  have "js_trim l = []" if "l \<in> set (js_split CHR ''\<newline>'' s)" for l
    using js_split_set[OF that] sp by (auto simp: js_trim_Nil_iff list_all_iff)
  then show ?thesis
    by (simp add: parse_domains_def filter_empty_conv)
qed

lemma js_lower_dot: "js_lower (w @ CHR ''.'' # e) = js_lower w @ CHR ''.'' # js_lower e"
  by (simp add: js_lower_def lower_char_def)

lemma strip_tld_known:
  assumes "js_lower e \<in> set known_tlds"
  shows "strip_tld (w @ CHR ''.'' # e) = w"
proof -
  obtain t where t: "js_lower e = t" "t \<in> set known_tlds" "length e = length t"
    using assms by simp
  show ?thesis
    unfolding strip_tld_def js_lower_dot t(1) using t(2,3)
    by (auto simp: known_tlds_def suffix_to_prefix)
qed

lemma lower_char_fixed: "js_space c \<or> c = CHR ''\<newline>'' \<Longrightarrow> lower_char c = c"
  by (auto simp: lower_char_def js_space_def)

lemma known_tld_chars:
  assumes "js_lower e \<in> set known_tlds"
  shows "list_all (\<lambda>c. \<not> js_space c \<and> c \<noteq> CHR ''\<newline>'') e"
proof -
  have "list_all (\<lambda>c. \<not> js_space c \<and> c \<noteq> CHR ''\<newline>'') (js_lower e)"
    using assms by (auto simp: known_tlds_def js_space_def)
  then show ?thesis
    by (auto simp: js_lower_def list_all_iff) (metis lower_char_fixed)+
qed

section \<open>Properties of the parser\<close>

text \<open>
  C26. Every name the input parser emits is non-empty and consists only of the characters
  \<open>[a-z0-9-]\<close>, whatever the text of the textarea.
\<close>

theorem parse_domains_valid: "list_all valid_name (parse_domains s)"
  by (auto simp: parse_domains_def list_all_iff valid_name_def dest: keep_valid_charD)

text \<open>
  C27. Parsing is idempotent: the names parsed from any text, written one per line and
  parsed again, give back the same list.
\<close>

theorem parse_domains_roundtrip:
  "parse_domains (js_join CHR ''\<newline>'' (parse_domains s)) = parse_domains s"
  by (rule parse_domains_join) (auto simp: parse_domains_def list_all_iff valid_name_def
       dest: keep_valid_charD)

text \<open>
  C28. A line holding a valid name followed by one of the extensions \<open>.com\<close>,
  \<open>.ai\<close>, \<open>.se\<close>, \<open>.no\<close>, in any letter case, parses to the name alone.
\<close>

theorem parse_domains_extension:
  assumes "valid_name w" and "js_lower e \<in> set known_tlds"
  shows "parse_domains (w @ CHR ''.'' # e) = [w]"
proof -
  let ?l = "w @ CHR ''.'' # e"
  have w: "list_all valid_char w" "w \<noteq> []"
    using assms(1) by (simp_all add: valid_name_def)
  have dot: "\<not> js_space CHR ''.''" "CHR ''.'' \<noteq> CHR ''\<newline>''"
    by (simp_all add: js_space_def)
  have "list_all (\<lambda>c. \<not> js_space c \<and> c \<noteq> CHR ''\<newline>'') w"
    using w(1) by (simp add: list_all_iff valid_char_not_space valid_char_not_nl)
  then have ok: "list_all (\<lambda>c. \<not> js_space c \<and> c \<noteq> CHR ''\<newline>'') ?l"
    using known_tld_chars[OF assms(2)] dot by simp
  then have nl: "CHR ''\<newline>'' \<notin> set ?l" and sp: "list_all (\<lambda>c. \<not> js_space c) ?l"
    unfolding list_all_iff by blast+
  have "js_split CHR ''\<newline>'' ?l = [?l]" "js_trim ?l = ?l"
    using js_split_no_sep[OF nl] js_trim_id[OF sp] .
  then show ?thesis
    using w by (simp add: parse_domains_def strip_tld_known[OF assms(2)] keep_valid_valid)
qed

theorem parse_domains_extension_witness:
  "valid_name ''nordicai'' \<and> js_lower ''COM'' \<in> set known_tlds \<and> parse_domains ''nordicai.COM'' = [''nordicai'']"
proof -
  have v: "valid_name ''nordicai''" by (simp add: valid_name_def valid_char_def)
  have k: "js_lower ''COM'' \<in> set known_tlds"
    by (simp add: js_lower_def lower_char_def known_tlds_def char_of_def bit_simps)
  show ?thesis using parse_domains_extension[OF v k] v k by simp
qed

text \<open>
  C29. The counter under the textarea never shows fewer names than a submit sends:
  the number of parsed names is at most the number of non-blank lines.
\<close>

theorem parse_domains_count: "length (parse_domains s) \<le> domains_to_check s"
proof -
  let ?L = "js_split CHR ''\<newline>'' s"
  have "length (parse_domains s) \<le> length (filter (\<lambda>l. length l > 0) (map js_trim ?L))"
    unfolding parse_domains_def by (metis length_filter_le length_map)
  also have "\<dots> = domains_to_check s"
    by (simp add: domains_to_check_def filter_map comp_def)
  finally show ?thesis .
qed

text \<open>
  C30. The submit handler sends exactly the parsed names and clears the textarea when
  there is at least one; otherwise (blank text, or only lines with no valid
  character) it sends nothing and keeps the text.
\<close>

theorem handleSubmit_result:
  "handleSubmit s = (if parse_domains s = [] then (None, s) else (Some (parse_domains s), []))"
  by (auto simp: handleSubmit_def parse_domains_blank Let_def)

end
