(* ===== verification/Client.thy ===== *)
theory Client
  imports Input Storage
begin

text \<open>
  The presentation layer of the client: the filter state and its handlers
  (\<^verbatim>\<open>src/frontend/src/components/Filters.tsx\<close>), the list filter of
  \<^verbatim>\<open>src/frontend/src/App.tsx\<close>, the status badge, the CSV export and the counters
  of \<^verbatim>\<open>DomainTable.tsx\<close> and \<^verbatim>\<open>Shortlist.tsx\<close>.  Records arrive from the
  server as the \<open>DomainSuggestion\<close> of the store; the interface of
  \<^verbatim>\<open>src/frontend/src/types.ts\<close> has the same fields.  Rendering is reduced to the
  values the markup shows; \<open>formatDate\<close> (\<open>toLocaleString\<close>, locale dependent)
  is a parameter.  An RFC 4180 line reader stands for the program that opens the
  exported file.
\<close>

section \<open>Filters\<close>

text \<open>\<open>ALL_TLDS\<close> of \<^verbatim>\<open>App.tsx\<close>, equal to \<open>allTLDs\<close> of \<^verbatim>\<open>Filters.tsx\<close>.\<close>

definition ALL_TLDS :: "string list" where
  "ALL_TLDS = [''com'', ''ai'', ''se'', ''no'']"

record FilterState =
  f_tlds :: "string list"
  f_showOnlyAvailable :: bool
  f_searchText :: string

definition initial_filters :: FilterState where
  "initial_filters = \<lparr>f_tlds = ALL_TLDS, f_showOnlyAvailable = False, f_searchText = []\<rparr>"

definition handleTLDToggle :: "string \<Rightarrow> FilterState \<Rightarrow> FilterState" where
  "handleTLDToggle tld F =
     F\<lparr>f_tlds := (if tld \<in> set (f_tlds F) then filter (\<lambda>t. t \<noteq> tld) (f_tlds F) else f_tlds F @ [tld])\<rparr>"

definition handleShowOnlyAvailableToggle :: "FilterState \<Rightarrow> FilterState" where
  "handleShowOnlyAvailableToggle F = F\<lparr>f_showOnlyAvailable := \<not> f_showOnlyAvailable F\<rparr>"

definition handleSearchChange :: "string \<Rightarrow> FilterState \<Rightarrow> FilterState" where
  "handleSearchChange v F = F\<lparr>f_searchText := v\<rparr>"

text \<open>The filter states the page can reach: the checkboxes offer exactly the TLDs of
  \<open>allTLDs\<close>, the search box any text.\<close>

inductive filter_reachable :: "FilterState \<Rightarrow> bool" where
  init: "filter_reachable initial_filters"
| toggle_tld: "filter_reachable F \<Longrightarrow> tld \<in> set ALL_TLDS \<Longrightarrow> filter_reachable (handleTLDToggle tld F)"
| toggle_available: "filter_reachable F \<Longrightarrow> filter_reachable (handleShowOnlyAvailableToggle F)"
| search: "filter_reachable F \<Longrightarrow> filter_reachable (handleSearchChange v F)"

text \<open>What the page relies on of its filter: each TLD at most once, all of them offered.\<close>

definition filter_ok :: "FilterState \<Rightarrow> bool" where
  "filter_ok F \<longleftrightarrow> distinct (f_tlds F) \<and> set (f_tlds F) \<subseteq> set ALL_TLDS"

section \<open>The list filter of the page\<close>

text \<open>\<open>s.includes(t)\<close>, as \<open>StringIndexOf\<close> searches: some position \<open>k\<close> with
  \<open>k + length t \<le> length s\<close> where \<open>t\<close> occurs.\<close>

definition js_includes :: "string \<Rightarrow> string \<Rightarrow> bool" where
  "js_includes s t \<longleftrightarrow>
     length t \<le> length s \<and> list_ex (\<lambda>k. take (length t) (drop k s) = t) [0..<Suc (length s - length t)]"

text \<open>The callback of \<open>domains.filter\<close> in \<^verbatim>\<open>App.tsx\<close>; a search text is
  truthy when non-empty, and \<open>availability[tld] === true\<close> reads a missing key as
  \<open>undefined\<close>.\<close>

definition domain_visible :: "FilterState \<Rightarrow> DomainSuggestion \<Rightarrow> bool" where
  "domain_visible F d =
     (if f_searchText F \<noteq> [] \<and> \<not> js_includes (js_lower (ds_domain d)) (js_lower (f_searchText F)) then False
      else if f_showOnlyAvailable F then list_ex (\<lambda>tld. ds_availability d tld = Some (Some True)) (f_tlds F)
      else True)"

definition filteredDomains :: "FilterState \<Rightarrow> DomainSuggestion list \<Rightarrow> DomainSuggestion list" where
  "filteredDomains F domains = filter (domain_visible F) domains"

definition shortlistedDomains :: "FilterState \<Rightarrow> DomainSuggestion list \<Rightarrow> DomainSuggestion list" where
  "shortlistedDomains F domains = filter ds_isFavorite (filteredDomains F domains)"

section \<open>Table cells, CSV export and counters\<close>

text \<open>\<open>getStatusBadge\<close> of \<^verbatim>\<open>DomainTable.tsx\<close> and \<^verbatim>\<open>Shortlist.tsx\<close> (the two
  copies are identical), applied to \<open>domain.availability[tld]\<close>: the argument is
  typed \<open>boolean | null\<close> but is \<open>undefined\<close> (the outer \<open>None\<close>) for a key the
  record does not have.\<close>

datatype badge = StatusUnknown | StatusAvailable | StatusTaken

definition getStatusBadge :: "avail option \<Rightarrow> badge" where
  "getStatusBadge available =
     (if available = Some None then StatusUnknown
      else if available = Some (Some True) then StatusAvailable
      else StatusTaken)"

fun badge_text :: "badge \<Rightarrow> string" where
  "badge_text StatusUnknown = ''Unknown''"
| "badge_text StatusAvailable = ''Available''"
| "badge_text StatusTaken = ''Taken''"

text \<open>The cell of \<open>exportToCSV\<close>: \<open>avail === null ? 'Unknown' : avail ? 'Available' : 'Taken'\<close>,
  where only \<open>true\<close> is truthy among \<open>true\<close>, \<open>false\<close>, \<open>undefined\<close>.\<close>

definition csv_cell :: "avail option \<Rightarrow> string" where
  "csv_cell avail =
     (if avail = Some None then ''Unknown'' else if avail = Some (Some True) then ''Available'' else ''Taken'')"

definition csv_headers :: "string list \<Rightarrow> string list" where
  "csv_headers visibleTLDs = ''Domain'' # map (\<lambda>tld. CHR ''.'' # tld) visibleTLDs @ [''Added'']"

definition csv_row :: "(string \<Rightarrow> string) \<Rightarrow> string list \<Rightarrow> DomainSuggestion \<Rightarrow> string list" where
  "csv_row formatDate visibleTLDs d =
     ds_domain d # map (\<lambda>tld. csv_cell (ds_availability d tld)) visibleTLDs @ [formatDate (ds_timestamp d)]"

definition exportToCSV :: "(string \<Rightarrow> string) \<Rightarrow> string list \<Rightarrow> DomainSuggestion list \<Rightarrow> string" where
  "exportToCSV formatDate visibleTLDs domains =
     js_join CHR ''\<newline>''
       (js_join CHR '','' (csv_headers visibleTLDs) # map (\<lambda>r. js_join CHR '','' (csv_row formatDate visibleTLDs r)) domains)"

text \<open>
  The reading side of the exported file: how a spreadsheet splits one CSV line into
  fields by RFC 4180.  A field that begins with a double quote is quoted: it runs to
  the next lone double quote, a doubled one standing for one double quote, and may
  contain commas; any other field runs to the next comma.  Text after a closing quote
  is kept, as lenient readers do.
\<close>

datatype csv_mode = FieldStart | Unquoted | Quoted | AfterQuote

fun csv_scan :: "csv_mode \<Rightarrow> string \<Rightarrow> string \<Rightarrow> string list" where
  "csv_scan m acc [] = [rev acc]"
| "csv_scan FieldStart acc (c # s) =
     (if c = CHR 0x22 then csv_scan Quoted acc s
      else if c = CHR '','' then rev acc # csv_scan FieldStart [] s
      else csv_scan Unquoted (c # acc) s)"
| "csv_scan Unquoted acc (c # s) =
     (if c = CHR '','' then rev acc # csv_scan FieldStart [] s else csv_scan Unquoted (c # acc) s)"
| "csv_scan Quoted acc (c # s) =
     (if c = CHR 0x22 then csv_scan AfterQuote acc s else csv_scan Quoted (c # acc) s)"
| "csv_scan AfterQuote acc (c # s) =
     (if c = CHR 0x22 then csv_scan Quoted (c # acc) s
      else if c = CHR '','' then rev acc # csv_scan FieldStart [] s
      else csv_scan Unquoted (c # acc) s)"

definition csv_fields :: "string \<Rightarrow> string list" where
  "csv_fields line = csv_scan FieldStart [] line"

text \<open>The counters: \<open>In Shortlist\<close> of the table and \<open>All Available\<close> of the
  shortlist (\<open>visibleTLDs.every(...)\<close>, true for no visible TLD), and the date the
  shortlist shows, \<open>domain.lastChecked || domain.timestamp\<close>.\<close>

definition in_shortlist_count :: "DomainSuggestion list \<Rightarrow> nat" where
  "in_shortlist_count domains = length (filter ds_isFavorite domains)"

definition all_available_count :: "string list \<Rightarrow> DomainSuggestion list \<Rightarrow> nat" where
  "all_available_count visibleTLDs domains =
     length (filter (\<lambda>d. list_all (\<lambda>tld. ds_availability d tld = Some (Some True)) visibleTLDs) domains)"

definition shown_checked :: "DomainSuggestion \<Rightarrow> string" where
  "shown_checked d = (case ds_lastChecked d of Some s \<Rightarrow> if s = [] then ds_timestamp d else s | None \<Rightarrow> ds_timestamp d)"

text \<open>Concrete records for the witnesses.\<close>

definition sample_record :: "string \<Rightarrow> avail_map \<Rightarrow> DomainSuggestion" where
  "sample_record d a = \<lparr>ds_id = d @ ''-1-0.5'', ds_domain = d, ds_availability = a,
     ds_timestamp = ''2025-06-01T12:00:00.000Z'', ds_isFavorite = False, ds_lastChecked = None\<rparr>"

section \<open>Lemmas\<close>


text \<open>Without double quotes, the reader splits at every comma.\<close>

lemma csv_scan_plain:
  "CHR 0x22 \<notin> set s \<Longrightarrow> m = FieldStart \<or> m = Unquoted \<Longrightarrow>
   csv_scan m acc s = (rev acc @ hd (js_split CHR '','' s)) # tl (js_split CHR '','' s)"
proof (induction s arbitrary: m acc)
  case Nil
  then show ?case by auto
next
  case (Cons c s)
  then show ?case
    by (cases "c = CHR '',''") (auto split: list.split)
qed

lemma csv_fields_plain: "CHR 0x22 \<notin> set s \<Longrightarrow> csv_fields s = js_split CHR '','' s"
  using csv_scan_plain [of s FieldStart "[]"] js_split_nonempty [of "CHR '',''" s]
  by (cases "js_split CHR '','' s") (simp_all add: csv_fields_def)



lemma filter_ok_steps:
  "filter_ok initial_filters"
  "filter_ok F \<Longrightarrow> tld \<in> set ALL_TLDS \<Longrightarrow> filter_ok (handleTLDToggle tld F)"
  "filter_ok F \<Longrightarrow> filter_ok (handleShowOnlyAvailableToggle F)"
  "filter_ok F \<Longrightarrow> filter_ok (handleSearchChange v F)"
  by (auto simp: filter_ok_def initial_filters_def ALL_TLDS_def handleTLDToggle_def
      handleShowOnlyAvailableToggle_def handleSearchChange_def)

section \<open>Properties of the presentation layer\<close>

text \<open>
  C31. Every filter state the page can reach lists each TLD at most once and only TLDs of
  \<open>allTLDs\<close>: the checkbox handler removes a checked TLD and appends an unchecked one.
\<close>

theorem filter_reachable_ok:
  "filter_reachable F \<Longrightarrow> distinct (f_tlds F) \<and> set (f_tlds F) \<subseteq> set ALL_TLDS"
proof -
  assume "filter_reachable F"
  then have "filter_ok F"
    by (induction rule: filter_reachable.induct) (simp_all add: filter_ok_steps)
  then show ?thesis by (simp add: filter_ok_def)
qed

theorem filter_reachable_ok_witness:
  "filter_reachable (handleTLDToggle ''ai'' initial_filters)
   \<and> distinct (f_tlds (handleTLDToggle ''ai'' initial_filters))
   \<and> set (f_tlds (handleTLDToggle ''ai'' initial_filters)) \<subseteq> set ALL_TLDS"
proof -
  have r: "filter_reachable (handleTLDToggle ''ai'' initial_filters)"
    by (rule filter_reachable.toggle_tld [OF filter_reachable.init]) (simp add: ALL_TLDS_def)
  show ?thesis using filter_reachable_ok [OF r] r by simp
qed



text \<open>
  The status badge and the CSV cell classify every value alike: Unknown for
  \<open>null\<close>, Available for \<open>true\<close>, and Taken both for \<open>false\<close> and for a TLD
  the record was never checked for (an absent key).
\<close>

theorem status_badge_csv:
  "badge_text (getStatusBadge v) = csv_cell v
   \<and> (getStatusBadge v = StatusTaken \<longleftrightarrow> v = None \<or> v = Some (Some False))"
  by (cases v rule: option.exhaust [case_product option.exhaust])
     (auto simp: getStatusBadge_def csv_cell_def)

text \<open>
  C33. The export does not quote its fields: read back by a CSV reader, the header has one
  field per visible TLD plus two, and a row whose name and formatted date contain no
  double quote has one more field for every comma in them.  The date the table formats
  (\<open>toLocaleDateString\<close> with month, day, hour and minute, e.g. \<open>Jun 1, 12:00 PM\<close>)
  contains a comma, so every row is one column wider than its header.
\<close>

theorem csv_row_fields:
  assumes "list_all (\<lambda>t. CHR '','' \<notin> set t \<and> CHR 0x22 \<notin> set t) visibleTLDs"
    and "CHR 0x22 \<notin> set (ds_domain d)" and "CHR 0x22 \<notin> set (formatDate (ds_timestamp d))"
  shows "length (csv_fields (js_join CHR '','' (csv_headers visibleTLDs))) = length visibleTLDs + 2
         \<and> length (csv_fields (js_join CHR '','' (csv_row formatDate visibleTLDs d)))
             = length visibleTLDs + 2 + count_list (ds_domain d) CHR '',''
               + count_list (formatDate (ds_timestamp d)) CHR '',''"
proof -
  have cells: "count_list (csv_cell v) CHR '','' = 0" "CHR 0x22 \<notin> set (csv_cell v)" for v
    by (simp_all add: csv_cell_def)
  have tl: "count_list (CHR ''.'' # t) CHR '','' = 0" "CHR 0x22 \<notin> set (CHR ''.'' # t)" if "t \<in> set visibleTLDs" for t
    using assms(1) that by (simp_all add: list_all_iff count_list_0_iff)
  have "CHR 0x22 \<notin> insert CHR '','' (\<Union>w \<in> set (csv_headers visibleTLDs). set w)"
    using tl(2) by (auto simp: csv_headers_def)
  then have h: "CHR 0x22 \<notin> set (js_join CHR '','' (csv_headers visibleTLDs))"
    using set_js_join_sub [of "CHR '',''" "csv_headers visibleTLDs"] by blast
  have "CHR 0x22 \<notin> insert CHR '','' (\<Union>w \<in> set (csv_row formatDate visibleTLDs d). set w)"
    using assms(2,3) cells(2) by (auto simp: csv_row_def)
  then have r: "CHR 0x22 \<notin> set (js_join CHR '','' (csv_row formatDate visibleTLDs d))"
    using set_js_join_sub [of "CHR '',''" "csv_row formatDate visibleTLDs d"] by blast
  show ?thesis
    using h r tl(1) by (simp add: csv_fields_plain length_js_split count_js_join csv_row_def csv_headers_def
                             comp_def cells(1) sum_list_eq_0_iff)
qed

theorem csv_row_fields_witness:
  "list_all (\<lambda>t. CHR '','' \<notin> set t \<and> CHR 0x22 \<notin> set t) ALL_TLDS
   \<and> length (csv_fields (js_join CHR '','' (csv_headers ALL_TLDS))) = 6
   \<and> length (csv_fields (js_join CHR '','' (csv_row (\<lambda>_. ''Jun 1, 12:00 PM'') ALL_TLDS
       (sample_record ''nordicai'' Map.empty)))) = 7"
proof -
  have "list_all (\<lambda>t. CHR '','' \<notin> set t \<and> CHR 0x22 \<notin> set t) ALL_TLDS"
    by (simp add: ALL_TLDS_def)
  with csv_row_fields [of ALL_TLDS "sample_record ''nordicai'' Map.empty" "\<lambda>_. ''Jun 1, 12:00 PM''"]
  show ?thesis by (simp add: sample_record_def ALL_TLDS_def)
qed

end
