(* ===== verification/App.thy ===== *)
theory App
  imports Server Client
begin

text \<open>
  The client application \<^verbatim>\<open>src/frontend/src/App.tsx\<close> composed with the server:
  each handler of the page calls the route of \<^verbatim>\<open>index.ts\<close> that its request
  reaches and replaces its list with the response.  The step relation \<open>app_reach\<close>
  describes one page in front of its own server; what it shows is that the page always
  displays exactly the stored list and that every cell of the table has been checked
  (the badge never falls back to the absent-key case).
\<close>

section \<open>The page and its actions\<close>

text \<open>The state of \<open>App\<close> (its \<open>useState\<close> hooks) with the text of the
  \<open>DomainInput\<close> textarea.\<close>

record app_state =
  app_domains :: "DomainSuggestion list"
  app_isChecking :: bool
  app_isReverifying :: bool
  app_isLoading :: bool
  app_filters :: FilterState
  app_inputText :: string

definition initial_app :: app_state where
  "initial_app = \<lparr>app_domains = [], app_isChecking = False, app_isReverifying = False,
     app_isLoading = True, app_filters = initial_filters, app_inputText = []\<rparr>"

text \<open>\<open>{tlds: ALL_TLDS}\<close> as the server receives it.\<close>

definition tld_request :: "jval option" where
  "tld_request = Some (JArr (map JStr ALL_TLDS))"

text \<open>The handlers of \<^verbatim>\<open>App.tsx\<close>.  A request is answered before the next user action
  (the page is not modelled with requests in flight); an error response (axios throws
  on a 400) leaves the list as it was and only shows an alert.  The flags set to
  \<open>true\<close> before a request are \<open>false\<close> again once it is answered.\<close>

definition loadDomains :: "app_state \<times> server \<Rightarrow> app_state \<times> server" where
  "loadDomains AS =
     (let (A, S) = AS; (resp, S') = get_domains_route S
      in case resp of Ok l \<Rightarrow> (A\<lparr>app_domains := l, app_isLoading := False\<rparr>, S')
                    | BadRequest _ \<Rightarrow> (A\<lparr>app_isLoading := False\<rparr>, S'))"

definition checkDomains :: "env \<Rightarrow> id_source \<Rightarrow> string list \<Rightarrow> app_state \<times> server \<Rightarrow> app_state \<times> server" where
  "checkDomains E G domainNames AS =
     (let (A, S) = AS;
          (resp, S') = add_domains_route E G (Some (JArr (map JStr domainNames))) tld_request S
      in case resp of Ok l \<Rightarrow> (A\<lparr>app_domains := l, app_isChecking := False\<rparr>, S')
                    | BadRequest _ \<Rightarrow> (A\<lparr>app_isChecking := False\<rparr>, S'))"

definition reverifyShortlist :: "env \<Rightarrow> app_state \<times> server \<Rightarrow> app_state \<times> server" where
  "reverifyShortlist E AS =
     (let (A, S) = AS
      in if filter ds_isFavorite (app_domains A) = [] then (A, S)
         else let (resp, S') = reverify_route E tld_request S
              in case resp of Ok l \<Rightarrow> (A\<lparr>app_domains := l, app_isReverifying := False\<rparr>, S')
                            | BadRequest _ \<Rightarrow> (A\<lparr>app_isReverifying := False\<rparr>, S'))"

definition app_toggleFavorite :: "string \<Rightarrow> app_state \<times> server \<Rightarrow> app_state \<times> server" where
  "app_toggleFavorite i AS =
     (let (A, S) = AS; (resp, S') = toggle_favorite_route i S
      in case resp of Ok l \<Rightarrow> (A\<lparr>app_domains := l\<rparr>, S') | BadRequest _ \<Rightarrow> (A, S'))"

definition app_removeDomain :: "string \<Rightarrow> app_state \<times> server \<Rightarrow> app_state \<times> server" where
  "app_removeDomain i AS =
     (let (A, S) = AS; (resp, S') = remove_domain_route i S
      in case resp of Ok l \<Rightarrow> (A\<lparr>app_domains := l\<rparr>, S') | BadRequest _ \<Rightarrow> (A, S'))"

text \<open>The submit button: \<open>handleSubmit\<close> of \<open>DomainInput\<close> calls \<open>onAddDomains\<close>,
  which is \<open>checkDomains\<close>, then clears the textarea.\<close>

definition app_submit :: "env \<Rightarrow> id_source \<Rightarrow> app_state \<times> server \<Rightarrow> app_state \<times> server" where
  "app_submit E G AS =
     (let (A, S) = AS
      in case handleSubmit (app_inputText A) of
           (None, txt) \<Rightarrow> (A\<lparr>app_inputText := txt\<rparr>, S)
         | (Some domains, txt) \<Rightarrow> checkDomains E G domains (A\<lparr>app_inputText := txt\<rparr>, S))"

text \<open>What the user can do on the page, and the page with its server.\<close>

datatype client_action =
    Load | EditInput string | Submit | FilterToggleTLD string | FilterToggleAvailable
  | FilterSearch string | Reverify | ToggleFavorite string | RemoveDomain string

fun app_step :: "env \<Rightarrow> id_source \<Rightarrow> client_action \<Rightarrow> app_state \<times> server \<Rightarrow> app_state \<times> server" where
  "app_step E G Load AS = loadDomains AS"
| "app_step E G (EditInput txt) (A, S) = (A\<lparr>app_inputText := txt\<rparr>, S)"
| "app_step E G Submit AS = app_submit E G AS"
| "app_step E G (FilterToggleTLD tld) (A, S) = (A\<lparr>app_filters := handleTLDToggle tld (app_filters A)\<rparr>, S)"
| "app_step E G FilterToggleAvailable (A, S) =
     (A\<lparr>app_filters := handleShowOnlyAvailableToggle (app_filters A)\<rparr>, S)"
| "app_step E G (FilterSearch v) (A, S) = (A\<lparr>app_filters := handleSearchChange v (app_filters A)\<rparr>, S)"
| "app_step E G Reverify AS = reverifyShortlist E AS"
| "app_step E G (ToggleFavorite i) AS = app_toggleFavorite i AS"
| "app_step E G (RemoveDomain i) AS = app_removeDomain i AS"

text \<open>The TLD checkboxes exist only for \<open>allTLDs\<close>.\<close>

fun offered :: "client_action \<Rightarrow> bool" where
  "offered (FilterToggleTLD tld) = (tld \<in> set ALL_TLDS)"
| "offered _ = True"

text \<open>One page in front of a server started without a data file on a disk that
  accepts writes.\<close>

inductive app_reach :: "env \<Rightarrow> app_state \<Rightarrow> server \<Rightarrow> bool" for E where
  init: "disk_writable D \<Longrightarrow> data_file D = None \<Longrightarrow> app_reach E initial_app \<lparr>srv_disk = D, srv_trace = []\<rparr>"
| step: "app_reach E A S \<Longrightarrow> offered a \<Longrightarrow> app_step E G a (A, S) = (A', S') \<Longrightarrow> app_reach E A' S'"

text \<open>A record checked for every TLD the page can show, and the invariant of the
  page and its server.\<close>

definition full_avail :: "DomainSuggestion \<Rightarrow> bool" where
  "full_avail d \<longleftrightarrow> dom (ds_availability d) = set ALL_TLDS"

definition app_inv :: "app_state \<Rightarrow> server \<Rightarrow> bool" where
  "app_inv A S \<longleftrightarrow> disk_writable (srv_disk S) \<and> store_inv full_avail (srv_disk S)
     \<and> app_domains A = stored_list (srv_disk S) \<and> filter_ok (app_filters A)"

text \<open>Request ids for the witness.\<close>

definition test_ids :: id_source where
  "test_ids = \<lparr>now_ms = (\<lambda>i. ''1''), random_str = (\<lambda>i. ''0.5'')\<rparr>"

section \<open>Lemmas\<close>

lemma rmw_writable_sync:
  "disk_writable D \<Longrightarrow> fst (read_modify_write f D) = stored_list (snd (read_modify_write f D))
     \<and> disk_writable (snd (read_modify_write f D))"
  by (simp add: read_modify_write_writable)

lemma ALL_TLDS_proto: "''__proto__'' \<notin> set ALL_TLDS"
  by (simp add: ALL_TLDS_def)

lemma full_avail_to_suggestions:
  "list_all full_avail (to_suggestions G (fst (checkBulkDomains E ds ALL_TLDS tr)))"
  by (auto simp: to_suggestions_def list_all_iff full_avail_def ALL_TLDS_proto simp del: dom_eq_empty_conv
           dest!: in_enumerate_snd checkBulkDomains_dom [OF ALL_TLDS_proto]) blast+

lemma full_avail_add:
  "list_all full_avail l \<Longrightarrow> list_all full_avail (to_suggestions G (fst (checkBulkDomains E ds ALL_TLDS tr)) @ l)"
  by (simp add: full_avail_to_suggestions)

lemma route_eqs:
  "get_domains_route S = (Ok (fst (getAllDomains (srv_disk S))), S\<lparr>srv_disk := snd (getAllDomains (srv_disk S))\<rparr>)"
  "toggle_favorite_route i S = (Ok (fst (read_modify_write (list_op (OpToggle i)) (srv_disk S))),
     S\<lparr>srv_disk := snd (read_modify_write (list_op (OpToggle i)) (srv_disk S))\<rparr>)"
  "remove_domain_route i S = (Ok (fst (read_modify_write (list_op (OpRemove i)) (srv_disk S))),
     S\<lparr>srv_disk := snd (read_modify_write (list_op (OpRemove i)) (srv_disk S))\<rparr>)"
  "add_domains_route E G (Some (JArr (map JStr ds))) tld_request S =
     (let (rs, tr) = checkBulkDomains E ds ALL_TLDS (srv_trace S);
          (l, D) = read_modify_write (\<lambda>l. to_suggestions G rs @ l) (srv_disk S)
      in (Ok l, \<lparr>srv_disk = D, srv_trace = tr\<rparr>))"
  by (simp_all add: get_domains_route_def toggle_favorite_route_def remove_domain_route_def
      add_domains_route_def tld_request_def store_ops_read_modify_write prod.case_eq_if Let_def)

lemma full_avail_fav [simp]: "full_avail (d\<lparr>ds_isFavorite := b\<rparr>) = full_avail d"
  by (simp add: full_avail_def)

lemma full_avail_toggle: "list_all full_avail l \<Longrightarrow> list_all full_avail (list_op (OpToggle i) l)"
  by (auto simp: list_all_iff)

lemma full_avail_remove: "list_all full_avail l \<Longrightarrow> list_all full_avail (list_op (OpRemove i) l)"
  by (simp add: list_all_iff)

lemma full_avail_update_many:
  assumes "list_all full_avail l"
  shows "list_all full_avail (list_op (OpUpdateMany (reverify_updates (fst (checkBulkDomains E ns ALL_TLDS tr)))) l)"
proof -
  have "full_avail (apply_update u d)"
    if upd: "reverify_updates (fst (checkBulkDomains E ns ALL_TLDS tr)) k = Some u" for d k u
  proof -
    obtain r where r: "r \<in> set (fst (checkBulkDomains E ns ALL_TLDS tr))"
      "upd_availability u = Some (dr_availability r)"
      using reverify_updates_Some [OF upd] by blast
    have "ds_availability (apply_update u d) = dr_availability r"
      using r(2) by (simp add: apply_update_def spread_field_def)
    then show ?thesis
      using checkBulkDomains_dom [OF ALL_TLDS_proto r(1)] by (simp add: full_avail_def)
  qed
  then show ?thesis
    using assms by (auto simp: list_all_iff simp del: list_op.simps) (auto simp: list_all_iff)
qed

lemma reverify_route_client:
  "reverify_route E tld_request S =
     (let (allDomains, D1) = getAllDomains (srv_disk S)
      in if filter ds_isFavorite allDomains = [] then (Ok allDomains, S\<lparr>srv_disk := D1\<rparr>)
         else let (rs, tr) = checkBulkDomains E (map ds_domain (filter ds_isFavorite allDomains)) ALL_TLDS (srv_trace S);
                  (l, D2) = read_modify_write (list_op (OpUpdateMany (reverify_updates rs))) D1
              in (Ok l, \<lparr>srv_disk = D2, srv_trace = tr\<rparr>))"
  by (simp add: reverify_route_def reverify_start_def reverify_finish_def tld_request_def
      store_ops_read_modify_write prod.case_eq_if Let_def)

lemma app_inv_rmw:
  assumes "app_inv A S" "\<And>l. list_all full_avail l \<Longrightarrow> list_all full_avail (f l)"
    and "app_domains A' = fst (read_modify_write f (srv_disk S))" "app_filters A' = app_filters A"
    and "srv_disk S' = snd (read_modify_write f (srv_disk S))"
  shows "app_inv A' S'"
  using assms rmw_writable_sync [of "srv_disk S" f] store_inv_rmw_pres [of full_avail "srv_disk S" f]
  by (simp add: app_inv_def)

lemma app_inv_get:
  assumes "app_inv A S"
    and "app_domains A' = fst (getAllDomains (srv_disk S))" "app_filters A' = app_filters A"
    and "srv_disk S' = snd (getAllDomains (srv_disk S))"
  shows "app_inv A' S'"
  using assms getAllDomains_disk [of "srv_disk S"] getAllDomains_result [of "srv_disk S"]
        store_inv_get [of full_avail "srv_disk S"]
  by (simp add: app_inv_def store_inv_def)

lemma app_inv_filters:
  "app_inv A S \<Longrightarrow> filter_ok F \<Longrightarrow> app_inv (A\<lparr>app_filters := F\<rparr>) S"
  "app_inv A S \<Longrightarrow> app_inv (A\<lparr>app_inputText := txt\<rparr>) S"
  by (simp_all add: app_inv_def)

lemma app_inv_checkDomains:
  assumes "app_inv A S" "checkDomains E G ds (A, S) = (A', S')"
  shows "app_inv A' S'"
proof -
  obtain rs tr where rt: "checkBulkDomains E ds ALL_TLDS (srv_trace S) = (rs, tr)" by force
  let ?f = "\<lambda>l. to_suggestions G rs @ l"
  have "A' = A\<lparr>app_domains := fst (read_modify_write ?f (srv_disk S)), app_isChecking := False\<rparr>"
       "srv_disk S' = snd (read_modify_write ?f (srv_disk S))"
    using assms(2) rt by (auto simp: checkDomains_def route_eqs(4) prod.case_eq_if)
  moreover have "list_all full_avail (?f l)" if "list_all full_avail l" for l
    using full_avail_add [OF that, of G E ds "srv_trace S"] rt by simp
  ultimately show ?thesis
    by (intro app_inv_rmw [OF assms(1)]) simp_all
qed

lemma app_inv_reverify:
  assumes inv: "app_inv A S" and st: "reverifyShortlist E (A, S) = (A', S')"
  shows "app_inv A' S'"
proof (cases "filter ds_isFavorite (app_domains A) = []")
  case True
  then show ?thesis using inv st by (simp add: reverifyShortlist_def)
next
  case False
  obtain allD D1 where g: "getAllDomains (srv_disk S) = (allD, D1)" by force
  have inv1: "app_inv (A\<lparr>app_domains := allD\<rparr>) (S\<lparr>srv_disk := D1\<rparr>)"
    by (rule app_inv_get [OF inv]) (simp_all add: g)
  show ?thesis
  proof (cases "filter ds_isFavorite allD = []")
    case True
    then have "A' = A\<lparr>app_domains := allD, app_isReverifying := False\<rparr>" "S' = S\<lparr>srv_disk := D1\<rparr>"
      using st False g by (simp_all add: reverifyShortlist_def reverify_route_client)
    then show ?thesis
      by (intro app_inv_get [OF inv]) (simp_all add: g)
  next
    case fav: False
    obtain rs tr where rt: "checkBulkDomains E (map ds_domain (filter ds_isFavorite allD)) ALL_TLDS (srv_trace S) = (rs, tr)"
      by force
    let ?f = "list_op (OpUpdateMany (reverify_updates rs))"
    have "A' = A\<lparr>app_domains := fst (read_modify_write ?f D1), app_isReverifying := False\<rparr>"
         "srv_disk S' = snd (read_modify_write ?f D1)"
      using st False fav g rt
      by (auto simp: reverifyShortlist_def reverify_route_client prod.case_eq_if simp del: list_op.simps)
    moreover have "list_all full_avail (?f l)" if "list_all full_avail l" for l
      using full_avail_update_many [OF that, of E "map ds_domain (filter ds_isFavorite allD)" "srv_trace S"] rt
      by simp
    ultimately show ?thesis
      by (intro app_inv_rmw [OF inv1]) simp_all
  qed
qed

lemma app_inv_step:
  assumes inv: "app_inv A S" and off: "offered a" and st: "app_step E G a (A, S) = (A', S')"
  shows "app_inv A' S'"
proof (cases a)
  case Load
  then show ?thesis using st
    by (auto simp: loadDomains_def route_eqs(1) intro!: app_inv_get [OF inv])
next
  case (EditInput v)
  then show ?thesis using st inv by (auto simp: app_inv_filters)
next
  case Submit
  then show ?thesis using st inv
    by (auto simp: app_submit_def app_inv_filters split: option.splits prod.splits
             elim: app_inv_checkDomains [rotated])
next
  case (FilterToggleTLD tld)
  then show ?thesis using st inv off
    by (auto simp: app_inv_def filter_ok_steps)
next
  case FilterToggleAvailable
  then show ?thesis using st inv by (auto simp: app_inv_def filter_ok_steps)
next
  case (FilterSearch v)
  then show ?thesis using st inv by (auto simp: app_inv_def filter_ok_steps)
next
  case Reverify
  then show ?thesis using st app_inv_reverify [OF inv] by simp
next
  case (ToggleFavorite i)
  then show ?thesis using st
    by (auto simp: app_toggleFavorite_def route_eqs(2) simp del: list_op.simps
             intro!: app_inv_rmw [OF inv full_avail_toggle])
next
  case (RemoveDomain i)
  then show ?thesis using st
    by (auto simp: app_removeDomain_def route_eqs(3) simp del: list_op.simps
             intro!: app_inv_rmw [OF inv full_avail_remove])
qed

section \<open>The page shows the store\<close>

text \<open>
  C35. With one page in front of a server whose disk accepts writes, after any sequence
  of user actions the page shows exactly the list stored on the disk, and every record
  it shows has an availability entry for every TLD the filter makes visible, so no cell
  shows Taken for a TLD that was never checked.
\<close>

theorem app_reach_sync:
  "app_reach E A S \<Longrightarrow>
   app_domains A = stored_list (srv_disk S)
   \<and> list_all (\<lambda>d. list_all (\<lambda>tld. ds_availability d tld \<noteq> None) (f_tlds (app_filters A))) (app_domains A)"
proof -
  assume "app_reach E A S"
  then have "app_inv A S"
  proof (induction rule: app_reach.induct)
    case (init D)
    then show ?case
      by (simp add: app_inv_def store_inv_def disk_wf_def stored_list_def initial_app_def filter_ok_steps(1))
  next
    case (step A S a G A' S')
    then show ?case using app_inv_step by blast
  qed
  then show ?thesis
    by (auto simp: app_inv_def store_inv_def filter_ok_def full_avail_def list_all_iff) (metis domD subsetD)
qed

theorem app_reach_sync_witness:
  "app_reach (const_env None ApiFail DnsFail) (fst (app_step (const_env None ApiFail DnsFail) test_ids Load
      (initial_app, \<lparr>srv_disk = fresh_disk, srv_trace = []\<rparr>)))
     (snd (app_step (const_env None ApiFail DnsFail) test_ids Load (initial_app, \<lparr>srv_disk = fresh_disk, srv_trace = []\<rparr>)))
   \<and> app_domains (fst (app_step (const_env None ApiFail DnsFail) test_ids Load
      (initial_app, \<lparr>srv_disk = fresh_disk, srv_trace = []\<rparr>))) = []"
proof -
  let ?E = "const_env None ApiFail DnsFail"
  let ?S = "\<lparr>srv_disk = fresh_disk, srv_trace = []\<rparr>"
  have r0: "app_reach ?E initial_app ?S"
    by (rule app_reach.init) (simp_all add: fresh_disk_def)
  have r: "app_reach ?E (fst (app_step ?E test_ids Load (initial_app, ?S))) (snd (app_step ?E test_ids Load (initial_app, ?S)))"
    by (rule app_reach.step [OF r0, of Load test_ids]) simp_all
  have "stored_list (srv_disk (snd (app_step ?E test_ids Load (initial_app, ?S)))) = []"
    by (simp add: loadDomains_def route_eqs(1) getAllDomains_writable fresh_disk_def stored_list_def)
  then show ?thesis using app_reach_sync [OF r] r by simp
qed

end
