(* ===== verification/Page.thy ===== *)
theory Page
  imports App
begin

text \<open>
  The page of \<^verbatim>\<open>src/frontend/src/App.tsx\<close> with its requests in flight.  Each handler
  of the page is split at its \<open>await\<close>: the user action changes the page at once and
  sends a request (\<open>send\<close>); the server answers it with its route (\<open>serve\<close>) at
  any later point; the browser hands the response to the code after the \<open>await\<close>
  (\<open>receive\<close>) at any later point.  Run without interleaving this is the atomic
  model of \<open>App\<close> (lemma \<open>app_step_split\<close>).  The theory shows that the page shows the stored list whenever responses
  are delivered in the order the server produced them and none is pending, and that
  with responses delivered out of order the page can end showing a list the store no
  longer holds.
\<close>

section \<open>Requests, responses and the page\<close>

text \<open>What the page asks the server: one request per handler of \<^verbatim>\<open>App.tsx\<close>
  (the mount effect sends \<open>GET /api/domains\<close>).\<close>

datatype request = RLoad | RAdd "string list" | RReverify | RToggle string | RRemove string

text \<open>The server answers a request with the route it reaches.\<close>

fun serve :: "env \<Rightarrow> id_source \<Rightarrow> request \<Rightarrow> server \<Rightarrow> DomainSuggestion list response \<times> server" where
  "serve E G RLoad S = get_domains_route S"
| "serve E G (RAdd ds) S = add_domains_route E G (Some (JArr (map JStr ds))) tld_request S"
| "serve E G RReverify S = reverify_route E tld_request S"
| "serve E G (RToggle i) S = toggle_favorite_route i S"
| "serve E G (RRemove i) S = remove_domain_route i S"

text \<open>The code after each \<open>await axios\<close>: \<open>setDomains(response.data)\<close> on success, and
  the \<open>finally\<close> block that clears the flag of the request.\<close>

fun receive :: "request \<Rightarrow> DomainSuggestion list response \<Rightarrow> app_state \<Rightarrow> app_state" where
  "receive RLoad resp A =
     (case resp of Ok l \<Rightarrow> A\<lparr>app_domains := l, app_isLoading := False\<rparr> | BadRequest _ \<Rightarrow> A\<lparr>app_isLoading := False\<rparr>)"
| "receive (RAdd ds) resp A =
     (case resp of Ok l \<Rightarrow> A\<lparr>app_domains := l, app_isChecking := False\<rparr> | BadRequest _ \<Rightarrow> A\<lparr>app_isChecking := False\<rparr>)"
| "receive RReverify resp A =
     (case resp of Ok l \<Rightarrow> A\<lparr>app_domains := l, app_isReverifying := False\<rparr>
                 | BadRequest _ \<Rightarrow> A\<lparr>app_isReverifying := False\<rparr>)"
| "receive (RToggle i) resp A = (case resp of Ok l \<Rightarrow> A\<lparr>app_domains := l\<rparr> | BadRequest _ \<Rightarrow> A)"
| "receive (RRemove i) resp A = (case resp of Ok l \<Rightarrow> A\<lparr>app_domains := l\<rparr> | BadRequest _ \<Rightarrow> A)"

text \<open>The code before each \<open>await\<close>: the state change a user action makes at once, and
  the request it sends, if any.\<close>

fun send :: "client_action \<Rightarrow> app_state \<Rightarrow> app_state \<times> request option" where
  "send Load A = (A, Some RLoad)"
| "send (EditInput t) A = (A\<lparr>app_inputText := t\<rparr>, None)"
| "send Submit A =
     (case handleSubmit (app_inputText A) of
        (None, t) \<Rightarrow> (A\<lparr>app_inputText := t\<rparr>, None)
      | (Some ds, t) \<Rightarrow> (A\<lparr>app_isChecking := True, app_inputText := t\<rparr>, Some (RAdd ds)))"
| "send (FilterToggleTLD tld) A = (A\<lparr>app_filters := handleTLDToggle tld (app_filters A)\<rparr>, None)"
| "send FilterToggleAvailable A = (A\<lparr>app_filters := handleShowOnlyAvailableToggle (app_filters A)\<rparr>, None)"
| "send (FilterSearch v) A = (A\<lparr>app_filters := handleSearchChange v (app_filters A)\<rparr>, None)"
| "send Reverify A =
     (if filter ds_isFavorite (app_domains A) = [] then (A, None)
      else (A\<lparr>app_isReverifying := True\<rparr>, Some RReverify))"
| "send (ToggleFavorite i) A = (A, Some (RToggle i))"
| "send (RemoveDomain i) A = (A, Some (RRemove i))"

text \<open>The controls the page offers: the textarea and its button are disabled while a
  check runs, the re-verify button exists only while the shown shortlist is non-empty
  and is disabled while a re-verification runs, the mount effect runs once.\<close>

fun enabled :: "app_state \<Rightarrow> client_action \<Rightarrow> bool" where
  "enabled A Load = False"
| "enabled A (EditInput t) = (\<not> app_isChecking A)"
| "enabled A Submit = (\<not> app_isChecking A)"
| "enabled A (FilterToggleTLD tld) = (tld \<in> set ALL_TLDS)"
| "enabled A Reverify = (shortlistedDomains (app_filters A) (app_domains A) \<noteq> [] \<and> \<not> app_isReverifying A)"
| "enabled A _ = True"

text \<open>The page in front of its server with requests in flight: a request sent by a user
  action is served at any later point and in any order, and its response is delivered
  at any later point; with \<open>ordered\<close> the responses are delivered in the order the
  server produced them.\<close>

inductive page_reach ::
  "env \<Rightarrow> bool \<Rightarrow> app_state \<Rightarrow> server \<Rightarrow> request list \<Rightarrow> (request \<times> DomainSuggestion list response) list \<Rightarrow> bool"
  for E ordered where
  mount: "disk_writable D \<Longrightarrow> data_file D = None \<Longrightarrow>
     page_reach E ordered initial_app \<lparr>srv_disk = D, srv_trace = []\<rparr> [RLoad] []"
| user: "page_reach E ordered A S I R \<Longrightarrow> enabled A a \<Longrightarrow> send a A = (A', q) \<Longrightarrow>
     page_reach E ordered A' S (I @ (case q of None \<Rightarrow> [] | Some r \<Rightarrow> [r])) R"
| serve: "page_reach E ordered A S (I1 @ q # I2) R \<Longrightarrow> serve E G q S = (resp, S') \<Longrightarrow>
     page_reach E ordered A S' (I1 @ I2) (R @ [(q, resp)])"
| deliver: "page_reach E ordered A S I (R1 @ (q, resp) # R2) \<Longrightarrow> \<not> ordered \<or> R1 = [] \<Longrightarrow>
     page_reach E ordered (receive q resp A) S I (R1 @ R2)"

text \<open>The invariant of ordered delivery: the last response not yet delivered, or else the
  page, holds the stored list.\<close>

definition ok_list :: "'a response \<Rightarrow> 'a option" where
  "ok_list r = (case r of Ok l \<Rightarrow> Some l | BadRequest _ \<Rightarrow> None)"

definition page_inv :: "app_state \<Rightarrow> server \<Rightarrow> (request \<times> DomainSuggestion list response) list \<Rightarrow> bool" where
  "page_inv A S R \<longleftrightarrow> disk_writable (srv_disk S) \<and> disk_wf (srv_disk S)
     \<and> list_all (\<lambda>x. ok_list (snd x) \<noteq> None) R
     \<and> (if R = [] then Some (app_domains A) else ok_list (snd (last R))) = Some (stored_list (srv_disk S))"

text \<open>Ids and environment of the witnesses.\<close>

definition const_page_env :: env where
  "const_page_env = const_env None ApiFail DnsFail"

section \<open>Lemmas\<close>

text \<open>The atomic handlers of \<open>App\<close> are the split ones run without interleaving:
  send, serve at once, deliver at once.\<close>

lemma app_step_split:
  "app_step E G a (A, S) =
     (case send a A of
        (A1, None) \<Rightarrow> (A1, S)
      | (A1, Some q) \<Rightarrow> (let (resp, S') = serve E G q S in (receive q resp A1, S')))"
  by (cases a)
     (auto simp: loadDomains_def checkDomains_def reverifyShortlist_def app_toggleFavorite_def
        app_removeDomain_def app_submit_def Let_def prod.case_eq_if split: option.splits response.splits)

lemma send_domains: "app_domains (fst (send a A)) = app_domains A"
  by (cases a) (auto split: prod.split option.split)

lemma rmw_writable_disk:
  "disk_writable D \<Longrightarrow> disk_writable (snd (read_modify_write f D)) \<and> disk_wf (snd (read_modify_write f D))
     \<and> fst (read_modify_write f D) = stored_list (snd (read_modify_write f D))"
  by (simp add: read_modify_write_writable disk_wf_def)

lemma get_writable_disk:
  "disk_writable D \<Longrightarrow> disk_wf D \<Longrightarrow> disk_writable (snd (getAllDomains D)) \<and> disk_wf (snd (getAllDomains D))
     \<and> fst (getAllDomains D) = stored_list (snd (getAllDomains D))"
  using getAllDomains_disk [of D] getAllDomains_result [of D] by simp

lemma serve_sync:
  assumes "disk_writable (srv_disk S)" "disk_wf (srv_disk S)" "serve E G q S = (resp, S')"
  shows "resp = Ok (stored_list (srv_disk S')) \<and> disk_writable (srv_disk S') \<and> disk_wf (srv_disk S')"
proof (cases q)
  case RLoad
  then show ?thesis using assms get_writable_disk [OF assms(1,2)] by (auto simp: route_eqs(1))
next
  case (RAdd ds)
  then show ?thesis using assms rmw_writable_disk [OF assms(1)]
    by (auto simp: route_eqs(4) Let_def prod.case_eq_if)
next
  case RReverify
  obtain allD D1 where g: "getAllDomains (srv_disk S) = (allD, D1)" by force
  have d1: "disk_writable D1" "disk_wf D1" "allD = stored_list D1"
    using get_writable_disk [OF assms(1,2)] g by simp_all
  show ?thesis using RReverify assms g d1 rmw_writable_disk [OF d1(1)]
    by (auto simp: reverify_route_client Let_def prod.case_eq_if split: if_splits)
next
  case (RToggle i)
  then show ?thesis using assms rmw_writable_disk [OF assms(1)] by (auto simp: route_eqs(2))
next
  case (RRemove i)
  then show ?thesis using assms rmw_writable_disk [OF assms(1)] by (auto simp: route_eqs(3))
qed

lemma page_serve_first:
  "page_reach E ordered A S (q # I) R \<Longrightarrow> serve E G q S = (resp, S') \<Longrightarrow>
   page_reach E ordered A S' I (R @ [(q, resp)])"
  using page_reach.serve [of E ordered A S "[]" q I R G resp S'] by simp

lemma page_deliver_first:
  "page_reach E ordered A S I ((q, resp) # R) \<Longrightarrow> page_reach E ordered (receive q resp A) S I R"
  using page_reach.deliver [of E ordered A S I "[]" q resp R] by simp

lemma page_deliver_second:
  "page_reach E False A S I (x # (q, resp) # R) \<Longrightarrow> page_reach E False (receive q resp A) S I (x # R)"
  using page_reach.deliver [of E False A S I "[x]" q resp R] by simp

lemma page_user_request:
  "page_reach E ordered A S I R \<Longrightarrow> enabled A a \<Longrightarrow> send a A = (A', Some q) \<Longrightarrow>
   page_reach E ordered A' S (I @ [q]) R"
  using page_reach.user [of E ordered A S I R a A' "Some q"] by simp

lemma page_user_local:
  "page_reach E ordered A S I R \<Longrightarrow> enabled A a \<Longrightarrow> send a A = (A', None) \<Longrightarrow>
   page_reach E ordered A' S I R"
  using page_reach.user [of E ordered A S I R a A' None] by simp

lemma handleSubmit_a: "handleSubmit ''a'' = (Some [''a''], [])"
  by (simp add: handleSubmit_def parse_domains_def js_trim_def js_space_def keep_valid_def strip_tld_def
      known_tlds_def js_lower_def lower_char_def valid_char_def suffix_to_prefix)

section \<open>Properties of the page with requests in flight\<close>

text \<open>
  C22. When the browser delivers the responses in the order the server produced them,
  the page shows exactly the stored list whenever no response is waiting, however the
  user's clicks, the serving of requests and the deliveries interleave.
\<close>

theorem page_in_step:
  "page_reach E True A S I [] \<Longrightarrow> app_domains A = stored_list (srv_disk S)"
proof -
  have "page_inv A S R" if "page_reach E True A S I R" for A S I R
    using that
  proof (induction rule: page_reach.induct)
    case (mount D)
    then show ?case by (simp add: page_inv_def initial_app_def disk_wf_def stored_list_def)
  next
    case (user A S I R a A' q)
    have "app_domains A' = app_domains A"
      using send_domains [of a A] user.hyps(3) by simp
    then show ?case using user.IH by (auto simp: page_inv_def split: if_splits)
  next
    case (serve A S I1 q I2 R G resp S')
    have "resp = Ok (stored_list (srv_disk S')) \<and> disk_writable (srv_disk S') \<and> disk_wf (srv_disk S')"
      using serve.IH serve.hyps(2) by (intro serve_sync) (simp_all add: page_inv_def)
    then show ?case using serve.IH by (simp add: page_inv_def ok_list_def)
  next
    case (deliver A S I R1 q resp R2)
    then have R1: "R1 = []" by simp
    obtain l where l: "resp = Ok l" using deliver.IH R1 by (auto simp: page_inv_def ok_list_def split: response.splits)
    have "app_domains (receive q resp A) = l" using l by (cases q) simp_all
    then show ?case using deliver.IH R1 l by (auto simp: page_inv_def ok_list_def)
  qed
  then show "page_reach E True A S I [] \<Longrightarrow> app_domains A = stored_list (srv_disk S)"
    by (fastforce simp: page_inv_def)
qed

theorem page_in_step_witness:
  "page_reach const_page_env True (receive RLoad (fst (serve const_page_env test_ids RLoad \<lparr>srv_disk = fresh_disk, srv_trace = []\<rparr>)) initial_app)
      (snd (serve const_page_env test_ids RLoad \<lparr>srv_disk = fresh_disk, srv_trace = []\<rparr>)) [] []
   \<and> app_domains (receive RLoad (fst (serve const_page_env test_ids RLoad \<lparr>srv_disk = fresh_disk, srv_trace = []\<rparr>)) initial_app)
       = stored_list (srv_disk (snd (serve const_page_env test_ids RLoad \<lparr>srv_disk = fresh_disk, srv_trace = []\<rparr>)))"
proof -
  let ?S0 = "\<lparr>srv_disk = fresh_disk, srv_trace = []\<rparr>"
  let ?sv = "serve const_page_env test_ids RLoad ?S0"
  have p0: "page_reach const_page_env True initial_app ?S0 [RLoad] []"
    by (rule page_reach.mount) (simp_all add: fresh_disk_def)
  have "page_reach const_page_env True initial_app (snd ?sv) [] [(RLoad, fst ?sv)]"
    using page_serve_first [OF p0, of test_ids "fst ?sv" "snd ?sv"] by simp
  then have p: "page_reach const_page_env True (receive RLoad (fst ?sv) initial_app) (snd ?sv) [] []"
    by (rule page_deliver_first)
  show ?thesis using page_in_step [OF p] p by simp
qed

text \<open>
  C13. Without that ordering the page can end out of step with the store: the user
  stars a name and then deletes it, the server handles both, and the response to the
  star arrives last, so with nothing pending the page shows the deleted name as a
  favorite while the store no longer holds it.
\<close>

theorem page_out_of_step:
  "\<exists>A S. page_reach E False A S [] [] \<and> app_domains A \<noteq> stored_list (srv_disk S)"
proof -
  let ?G = test_ids
  let ?S0 = "\<lparr>srv_disk = fresh_disk, srv_trace = []\<rparr>"
  have w0: "disk_writable (srv_disk ?S0)" "disk_wf (srv_disk ?S0)" "stored_list (srv_disk ?S0) = []"
    by (simp_all add: fresh_disk_def disk_wf_def stored_list_def)
  have p0: "page_reach E False initial_app ?S0 [RLoad] []"
    by (rule page_reach.mount) (simp_all add: fresh_disk_def)
  obtain r1 S1 where sv1: "serve E ?G RLoad ?S0 = (r1, S1)" by force
  have s1: "r1 = Ok (stored_list (srv_disk S1))" "disk_writable (srv_disk S1)" "disk_wf (srv_disk S1)"
    using serve_sync [OF w0(1,2) sv1] by simp_all
  have "stored_list (srv_disk S1) = []"
    using sv1 w0 by (auto simp: route_eqs(1) getAllDomains_writable fresh_disk_def stored_list_def)
  then have p1: "page_reach E False (receive RLoad (Ok []) initial_app) S1 [] []"
    using page_deliver_first [OF page_serve_first [OF p0 sv1, simplified]] s1(1) by simp
  let ?A1 = "receive RLoad (Ok []) initial_app"
  have p2: "page_reach E False (?A1\<lparr>app_inputText := ''a''\<rparr>) S1 [] []"
    by (rule page_user_local [OF p1, of "EditInput ''a''"]) (simp_all add: initial_app_def)
  let ?A2 = "?A1\<lparr>app_inputText := ''a''\<rparr>"
  have p3: "page_reach E False (?A2\<lparr>app_isChecking := True, app_inputText := []\<rparr>) S1 [RAdd [''a'']] []"
    using page_user_request [OF p2, of Submit] by (simp add: handleSubmit_a initial_app_def)
  let ?A3 = "?A2\<lparr>app_isChecking := True, app_inputText := []\<rparr>"
  obtain r2 S2 where sv2: "serve E ?G (RAdd [''a'']) S1 = (r2, S2)" by force
  have s2: "r2 = Ok (stored_list (srv_disk S2))" "disk_writable (srv_disk S2)" "disk_wf (srv_disk S2)"
    using serve_sync [OF s1(2,3) sv2] by simp_all
  obtain rs tr where rt: "checkBulkDomains E [''a''] ALL_TLDS (srv_trace S1) = (rs, tr)" by force
  have "map dr_domain rs = [''a'']"
    using checkBulkDomains_domains [of E "[''a'']" ALL_TLDS "srv_trace S1"] rt by simp
  then have "length (map dr_domain rs) = 1" by simp
  then have "length rs = 1" by simp
  have "srv_disk S2 = snd (read_modify_write (\<lambda>l. to_suggestions ?G rs @ l) (srv_disk S1))"
    using route_eqs(4) [of E ?G "[''a'']" S1] sv2 rt by (auto simp: prod.case_eq_if)
  then have "stored_list (srv_disk S2) = to_suggestions ?G rs"
    using s1(2) \<open>stored_list (srv_disk S1) = []\<close> by (simp add: read_modify_write_writable)
  then have "length (stored_list (srv_disk S2)) = 1"
    using \<open>length rs = 1\<close> by (simp add: to_suggestions_def)
  then obtain rec where rec: "stored_list (srv_disk S2) = [rec]"
    by (metis One_nat_def length_0_conv length_Suc_conv)
  have "page_reach E False ?A3 S2 [] [(RAdd [''a''], r2)]"
    using page_serve_first [OF p3 sv2] by simp
  then have p4: "page_reach E False (receive (RAdd [''a'']) r2 ?A3) S2 [] []"
    by (rule page_deliver_first)
  let ?A4 = "receive (RAdd [''a'']) r2 ?A3"
  let ?i = "ds_id rec"
  have p5: "page_reach E False ?A4 S2 [RToggle ?i, RRemove ?i] []"
    using page_user_request [OF page_user_request [OF p4, of "ToggleFavorite ?i" ?A4 "RToggle ?i"],
                             of "RemoveDomain ?i" ?A4 "RRemove ?i"] by simp
  obtain r3 S3 where sv3: "serve E ?G (RToggle ?i) S2 = (r3, S3)" by force
  have s3: "r3 = Ok (stored_list (srv_disk S3))" "disk_writable (srv_disk S3)" "disk_wf (srv_disk S3)"
    using serve_sync [OF s2(2,3) sv3] by simp_all
  have st3: "stored_list (srv_disk S3) = [rec\<lparr>ds_isFavorite := \<not> ds_isFavorite rec\<rparr>]"
    using sv3 s2(2) rec by (auto simp: route_eqs(2) read_modify_write_writable)
  obtain r4 S4 where sv4: "serve E ?G (RRemove ?i) S3 = (r4, S4)" by force
  have s4: "r4 = Ok (stored_list (srv_disk S4))"
    using serve_sync [OF s3(2,3) sv4] by simp
  have st4: "stored_list (srv_disk S4) = []"
    using sv4 s3(2) st3 by (auto simp: route_eqs(3) read_modify_write_writable)
  have p6: "page_reach E False ?A4 S4 [] [(RToggle ?i, r3), (RRemove ?i, r4)]"
    using page_serve_first [OF page_serve_first [OF p5 sv3] sv4] by simp
  have p7: "page_reach E False (receive (RToggle ?i) r3 (receive (RRemove ?i) r4 ?A4)) S4 [] []"
    using page_deliver_first [OF page_deliver_second [OF p6]] .
  moreover have "app_domains (receive (RToggle ?i) r3 (receive (RRemove ?i) r4 ?A4)) \<noteq> stored_list (srv_disk S4)"
    using s3(1) st3 st4 by simp
  ultimately show ?thesis by blast
qed

end
