(* ===== verification/View.thy ===== *)
theory View
  imports App
begin

text \<open>
  What the components of the client render, as values: the markup of
  \<^verbatim>\<open>DomainTable.tsx\<close>, \<^verbatim>\<open>Shortlist.tsx\<close>, \<^verbatim>\<open>DomainInput.tsx\<close> and of the page of
  \<^verbatim>\<open>App.tsx\<close> reduced to the texts, cells, buttons and counters it shows.  Styles and
  class names are left out, \<open>formatDate\<close> is a parameter, and a button is given by
  its label and whether it is disabled.
\<close>

section \<open>The domain table\<close>

text \<open>One row of the table, keyed by \<open>domain.id\<close>: the name, one badge per visible TLD,
  the formatted date, and in the actions column (when shown) the star, filled for a
  favorite, and whether the remove button is there.\<close>

record table_row =
  row_key :: string
  row_name :: string
  row_badges :: "badge list"
  row_date :: string
  row_star :: "bool option"
  row_remove :: bool

datatype table_body =
    EmptyState string
  | Table "string list" "table_row list" "(string \<times> nat) list"

record table_view =
  tv_title :: string
  tv_export :: bool
  tv_body :: table_body

definition domainTable_view ::
  "(string \<Rightarrow> string) \<Rightarrow> DomainSuggestion list \<Rightarrow> string list \<Rightarrow> bool \<Rightarrow> string \<Rightarrow> bool \<Rightarrow> string
   \<Rightarrow> table_view" where
  "domainTable_view formatDate domains visibleTLDs hasRemove title showActions emptyMessage =
     \<lparr>tv_title = title,
      tv_export = (length domains > 0),
      tv_body =
        (if length domains = 0 then EmptyState emptyMessage
         else Table
           (''Domain Name'' # map (\<lambda>tld. CHR ''.'' # tld) visibleTLDs @ [''Added'']
              @ (if showActions then [''Actions''] else []))
           (map (\<lambda>d. \<lparr>row_key = ds_id d, row_name = ds_domain d,
                       row_badges = map (\<lambda>tld. getStatusBadge (ds_availability d tld)) visibleTLDs,
                       row_date = formatDate (ds_timestamp d),
                       row_star = (if showActions then Some (ds_isFavorite d) else None),
                       row_remove = (showActions \<and> hasRemove)\<rparr>) domains)
           [(''Total Domains'', length domains), (''In Shortlist'', in_shortlist_count domains)])\<rparr>"

section \<open>The shortlist\<close>

text \<open>The shortlist has no remove button; its date column shows \<open>lastChecked\<close> when
  set, and its header holds the re-verify button, disabled while a re-verification
  runs.  The empty-state text names the outline star glyph, which lies outside the
  8-bit characters of the model; it is written \<open>*\<close>.\<close>

record shortlist_view =
  sv_reverify :: "(string \<times> bool) option"
  sv_body :: table_body

definition shortlist_view ::
  "(string \<Rightarrow> string) \<Rightarrow> DomainSuggestion list \<Rightarrow> string list \<Rightarrow> bool \<Rightarrow> shortlist_view" where
  "shortlist_view formatDate domains visibleTLDs isReverifying =
     \<lparr>sv_reverify =
        (if length domains > 0
         then Some (if isReverifying then ''Re-verifying...'' else ''Re-verify All'', isReverifying)
         else None),
      sv_body =
        (if length domains = 0
         then EmptyState ''No favorites yet. Click the star (*) icon on domains to add them to your shortlist.''
         else Table
           (''Domain Name'' # map (\<lambda>tld. CHR ''.'' # tld) visibleTLDs @ [''Last Checked'', ''Actions''])
           (map (\<lambda>d. \<lparr>row_key = ds_id d, row_name = ds_domain d,
                       row_badges = map (\<lambda>tld. getStatusBadge (ds_availability d tld)) visibleTLDs,
                       row_date = formatDate (shown_checked d),
                       row_star = Some True, row_remove = False\<rparr>) domains)
           [(''Shortlisted'', length domains), (''All Available'', all_available_count visibleTLDs domains)])\<rparr>"

section \<open>The input form and the page\<close>

text \<open>The form: the button is disabled while a check runs or while the text is blank,
  its label says what runs, and the counter shows the non-blank lines.\<close>

record input_view =
  iv_disabled :: bool
  iv_button :: string
  iv_button_disabled :: bool
  iv_count :: nat

definition domainInput_view :: "string \<Rightarrow> bool \<Rightarrow> input_view" where
  "domainInput_view inputText isChecking =
     \<lparr>iv_disabled = isChecking,
      iv_button = (if isChecking then ''Checking...'' else ''Check Availability''),
      iv_button_disabled = (isChecking \<or> js_trim inputText = []),
      iv_count = domains_to_check inputText\<rparr>"

datatype page_view =
    Loading
  | PageView input_view FilterState shortlist_view table_view

text \<open>The page: a loading notice until the first load answers, then the form, the
  filters, the shortlist of the favorites that pass the filters, and the table of all
  records that pass them.\<close>

definition app_view :: "(string \<Rightarrow> string) \<Rightarrow> app_state \<Rightarrow> page_view" where
  "app_view formatDate A =
     (if app_isLoading A then Loading
      else PageView (domainInput_view (app_inputText A) (app_isChecking A)) (app_filters A)
             (shortlist_view formatDate (shortlistedDomains (app_filters A) (app_domains A))
                (f_tlds (app_filters A)) (app_isReverifying A))
             (domainTable_view formatDate (filteredDomains (app_filters A) (app_domains A))
                (f_tlds (app_filters A)) True ''All Domain Suggestions'' True
                ''No domain suggestions yet. Add some domains above to get started!''))"

section \<open>Lemmas\<close>

text \<open>React keys the rows by \<open>domain.id\<close>: the keys are the ids of the records shown,
  in order, so they are unique whenever the ids are.\<close>

lemma domainTable_keys:
  "tv_body (domainTable_view fmt ds tlds r title act msg) = Table hs rows st \<Longrightarrow>
   map row_key rows = map ds_id ds"
  by (auto simp: domainTable_view_def split: if_splits)

end
