(* ===== verification/Spec2Isabelle.thy ===== *)
theory Spec2Isabelle
  imports Page View
begin

text \<open>
  \<^bold>\<open>A verification model of naming_app.\<close>

  \<^emph>\<open>The program.\<close>  naming_app lets a team submit candidate domain names, checks
  them against the TLDs \<open>com\<close>, \<open>ai\<close>, \<open>se\<close>, \<open>no\<close> and keeps a shared,
  file-backed shortlist.  The backend (\<^verbatim>\<open>src/backend/src\<close>) has three parts, the
  React client (\<^verbatim>\<open>src/frontend/src\<close>) two; all five are modelled.
  \<^item> \<^verbatim>\<open>domainChecker.ts\<close>: the provider lookup \<open>checkWithRapidAPI\<close> (Domainr
    status API) with its single fallback \<open>checkWithDNS\<close> (Google DNS-over-HTTPS),
    wrapped by \<open>checkSingleDomain\<close>; \<open>checkDomainAvailability\<close> runs it for each
    TLD of one name with a 1.5 s delay between TLDs; \<open>checkBulkDomains\<close> runs that
    for each name with a 2 s delay between names; \<open>reverifyDomains\<close> forwards to it.
  \<^item> \<^verbatim>\<open>storage.ts\<close>: the list of \<open>DomainSuggestion\<close> records in
    \<^verbatim>\<open>data/domains.json\<close>, read and written whole by \<open>getAllDomains\<close>,
    \<open>saveAllDomains\<close>, \<open>addDomains\<close>, \<open>updateDomain\<close>, \<open>toggleFavorite\<close>,
    \<open>removeDomain\<close>, \<open>updateMultipleDomains\<close>, \<open>clearAllDomains\<close>.
  \<^item> \<^verbatim>\<open>index.ts\<close>: the Express routes, which validate JSON bodies, call the
    checker and the store, and build new records (\<open>POST /domains\<close>) or the
    re-verification update map (\<open>POST /domains/reverify\<close>).
  \<^item> \<^verbatim>\<open>DomainInput.tsx\<close> parses the textarea into names; \<^verbatim>\<open>App.tsx\<close> holds
    the list and the filters, sends the requests and replaces its list with each
    response.
  \<^item> \<^verbatim>\<open>Filters.tsx\<close>, \<^verbatim>\<open>DomainTable.tsx\<close>, \<^verbatim>\<open>Shortlist.tsx\<close> change the
    filters and display the records: status badges, CSV export, counters.

  \<^emph>\<open>The theories.\<close>
  \<^item> \<open>Prelude\<close>: the JavaScript values shared by all parts (\<open>boolean | null\<close> as
    \<open>bool option\<close>, objects as maps, where reading a missing key is the outer
    \<open>None\<close>), the object literal as a record of its own keys and its prototype state
    (\<open>js_object\<close>), \<open>obj[k] = v\<close> with the inherited \<open>__proto__\<close> accessor
    (\<open>js_obj_set\<close>: a \<open>null\<close> value removes the prototype, a boolean is ignored, and
    only after that does \<open>__proto__\<close> become an own key), \<open>toLowerCase\<close> on 8-bit
    characters (ASCII and Latin-1 capitals), \<open>split\<close> and \<open>join\<close> with a one-character separator
    (\<open>js_split\<close>, \<open>js_join\<close>, inverse to each other), the \<open>model_defs\<close>
    collection.
  \<^item> \<open>Lookup\<close>: events (\<open>ProviderGet\<close>, \<open>DnsGet\<close> with their timeouts,
    \<open>Sleep\<close>), the environment (API key, time-dependent provider and DNS oracles, the
    clock), \<open>checkWithDNS\<close>, \<open>checkWithRapidAPI\<close>.  Every network call and every
    \<open>await delay\<close> appends to an explicit trace; this is how ordering and pacing are
    stated.
  \<^item> \<open>Checker\<close>: \<open>checkSingleDomain\<close>, the two \<open>for\<close> loops as the code writes
    them (\<open>tld_loop\<close>, \<open>domain_loop\<close>: index, guard \<open>i < length - 1\<close> for the
    delay, termination by the measure \<open>length - i\<close>), their structural equivalents
    \<open>check_tlds\<close>/\<open>check_domains\<close> (lemmas \<open>tld_loop_check_tlds\<close>,
    \<open>domain_loop_check_domains\<close>), \<open>checkDomainAvailability\<close>,
    \<open>checkBulkDomains\<close>, \<open>reverifyDomains\<close>, and \<open>paced\<close>, the shape of a
    throttled trace.
  \<^item> \<open>Storage\<close>: the disk as a record (directory present, file absent / valid JSON /
    unparsable, and the write mode: writes succeed, are refused without effect, or fail
    after \<open>writeFileSync\<close> has truncated the file, leaving unparsable text), errors of \<open>fs\<close> and \<open>JSON.parse\<close> as
    \<open>Inl\<close> values absorbed where the code's \<open>catch\<close> blocks absorb them, every
    operation of \<^verbatim>\<open>storage.ts\<close>; the abstract specification \<open>list_op\<close> over a
    \<open>store_op\<close> datatype, the step \<open>store_step\<close> on the disk, and the shared
    shape \<open>read_modify_write\<close>.
  \<^item> \<open>Handlers\<close>: JSON request values and their truthiness and string conversion,
    the server state (disk and trace), every route of \<^verbatim>\<open>index.ts\<close> but the
    static catch-all, id generation, and re-verification split
    at its \<open>await\<close> into \<open>reverify_start\<close> and \<open>reverify_finish\<close>.
  \<^item> \<open>Server\<close>: the inductive step relation \<open>server_reach\<close> over server states and
    pending re-verifications (one step per request, two per re-verification, so any
    request may run while a bulk check is awaited), and its store invariant.
  \<^item> \<open>Input\<close>: the parser of \<^verbatim>\<open>DomainInput.tsx\<close> (\<open>js_trim\<close>,
    \<open>strip_tld\<close> for the regular expression \<open>/\.(com|ai|se|no)$/i\<close>,
    \<open>keep_valid\<close> for \<open>[^a-z0-9-]\<close>, \<open>parse_domains\<close>), \<open>handleSubmit\<close> and
    the line counter.
  \<^item> \<open>Client\<close>: the filter state, its three handlers and the inductive set of
    reachable filter states; \<open>js_includes\<close> and the list filter of \<^verbatim>\<open>App.tsx\<close>;
    \<open>getStatusBadge\<close>, the CSV export (with \<open>formatDate\<close> as a parameter) and the
    counters; and, as the reading side of the export, an RFC 4180 line reader
    (\<open>csv_fields\<close>), which is not code of the repository.
  \<^item> \<open>App\<close>: the state of the page, its handlers each composed with the route its
    request reaches, the user actions as a datatype with the step function
    \<open>app_step\<close>, and the inductive relation \<open>app_reach\<close> of one page in front of
    its server.
  \<^item> \<open>Page\<close>: the page's handlers split at their \<open>await\<close> (\<open>send\<close>, \<open>serve\<close>,
    \<open>receive\<close>), the controls the page enables, and the inductive relation
    \<open>page_reach\<close> of the page with requests in flight, optionally with responses
    delivered in server order.
  \<^item> \<open>View\<close>: what \<^verbatim>\<open>DomainTable.tsx\<close>, \<^verbatim>\<open>Shortlist.tsx\<close>,
    \<^verbatim>\<open>DomainInput.tsx\<close> and the page render, as values (rows, badges, buttons,
    counters).
  \<^item> This theory: the end-to-end scenario of the spec, evaluated as an example.

  \<^emph>\<open>What is proved.\<close>  Checker (C1-C4, C15, C16): every requested TLD but
  \<open>__proto__\<close> is a key of the availability map and no other key is, and
  \<open>__proto__\<close> is one only when requested twice; one result per name in input
  order; the exact pacing of the trace (strictly sequential blocks with one delay
  between neighbours and none after the last); the total waiting time; each entry is the
  verdict of its lookup.  Lookup (C5-C8, C18): classification of the Domainr summary,
  the DNS-only path without key, the one-shot fallback, the bound of one or two requests
  per lookup with fixed timeouts, and the taken verdict for a missing summary.  Storage
  (C9-C12, C14, C19, C20): refinement of the abstract list operations; a write that
  fails after truncating the file destroys the stored list for good; the functional
  contract of add, toggle (flip exactly the records of the id, and involution) and
  update-many; the behaviour when writes are refused and on a corrupt or missing file.
  Handlers (C17, C21, C23-C25): re-verification by name, the POST /domains contract,
  injectivity of generated ids and distinct ids within a batch, and that interleaving
  other requests at the \<open>await\<close> of re-verification loses no update.  Input
  (C26-C30): every emitted name is non-empty over \<open>[a-z0-9-]\<close>, parsing is
  idempotent, an extension in any case is stripped, the counter bounds the submitted
  names, the submit handler's outcomes.  Client (C31-C33): reachable filter states hold
  each offered TLD at most once; the search ignores case (Latin-1 included) and a more
  specific search shows a subsequence; read back by a CSV reader, a row has one field
  more than its header for every comma in its name or date.  Server (C34): the store
  invariant over every interleaving, by rule induction.  App (C35): with each request
  answered before the next action the page always shows the stored list and every
  visible cell has been checked.  Page (C13, C22): with responses delivered in the
  order the server produced them the page shows the stored list whenever none is
  waiting; delivered out of order, a concrete run (star, then delete) leaves the page
  showing a record the store no longer holds.  Further lemmas kept outside the claims:
  the key set of the checker's results without \<open>__proto__\<close>
  (\<open>checkBulkDomains_dom\<close>), the removal and clear contracts of the store, the 400
  path of POST /domains, the agreement of badge and CSV cell, the equality of the
  atomic and split handlers (\<open>app_step_split\<close>), that table rows are keyed by the
  ids they show (\<open>domainTable_keys\<close>), and the scenario below.

  \<^emph>\<open>Bounds and fuel.\<close>  No fuel is needed: both loops terminate by the measure
  \<open>length - i\<close>, and every other recursion is structural.  Delays and timeouts are
  JavaScript numbers of at most a few thousand milliseconds, kept as \<open>nat\<close>; no
  arithmetic in the code can overflow.  Strings are lists of 8-bit characters, so
  JavaScript white space is the characters 9-13, 32, 160; the star glyphs of the
  tables are outside that range and appear as a flag or as \<open>*\<close>.

  \<^emph>\<open>Not modelled.\<close>  Styles and class names of the markup, the Blob download of the
  CSV, \<open>toLocaleString\<close> (a parameter), alerts and console logging (I/O); the
  wall-clock duration of requests (the clock is an oracle on the trace); JSON numbers
  other than integers in request bodies; valid JSON of the wrong shape in the data
  file (the code would throw from a spread or a \<open>.map\<close>); \<open>initializeStorage\<close>
  at module load, \<open>app.listen\<close>, static file serving and the catch-all route (I/O);
  partial writes of a disk that
  accepts writes (the text of a torn write is only known to be unparsable); several
  pages or several server processes (within one Node process every store
  function runs without suspension, which \<open>store_step\<close> and \<open>server_reach\<close>
  reflect; the page model \<open>page_reach\<close> has one page, whose own overlapping
  requests already show the stale list).

  \<^emph>\<open>Plan for the rest of the development.\<close>  (1) Several pages in front of one
  server, with the stale-list behaviour of one page generalised.  (2) Claims for the
  check routes and for \<open>js_str\<close> on request values.
\<close>

text \<open>The environment of the spec's scenario: Domainr reports \<open>nordicai.com\<close> active
  and every other name inactive.\<close>

definition nordic_env :: env where
  "nordic_env = \<lparr>api_key = Some ''key'',
     provider = (\<lambda>tr f. if f = ''nordicai.com'' then ApiOk (Some [Entry (SummaryStr ''active'')])
                        else ApiOk (Some [Entry (SummaryStr ''inactive'')])),
     dns = (\<lambda>tr f. DnsFail), clock = (\<lambda>tr. ''2025-06-01T12:00:00.000Z'')\<rparr>"

text \<open>
  The scenario of the spec, evaluated: submitting \<open>nordicai\<close> with TLDs \<open>com\<close> and
  \<open>ai\<close> through \<open>POST /domains\<close>, with the provider reporting \<open>com\<close> active and
  \<open>ai\<close> inactive, stores and returns one record with availability
  \<open>{com: false, ai: true}\<close>, after exactly two provider requests separated by one
  1.5 s delay.
\<close>

theorem nordicai_scenario:
  "add_domains_route nordic_env \<lparr>now_ms = (\<lambda>i. ''1700000000000''), random_str = (\<lambda>i. ''0.5'')\<rparr>
      (Some (JArr [JStr ''nordicai''])) (Some (JArr [JStr ''com'', JStr ''ai'']))
      \<lparr>srv_disk = sample_disk True [], srv_trace = []\<rparr>
   = (Ok [\<lparr>ds_id = ''nordicai-1700000000000-0.5'', ds_domain = ''nordicai'',
           ds_availability = [''com'' \<mapsto> Some False, ''ai'' \<mapsto> Some True],
           ds_timestamp = ''2025-06-01T12:00:00.000Z'', ds_isFavorite = False,
           ds_lastChecked = Some ''2025-06-01T12:00:00.000Z''\<rparr>],
      \<lparr>srv_disk = sample_disk True [\<lparr>ds_id = ''nordicai-1700000000000-0.5'', ds_domain = ''nordicai'',
           ds_availability = [''com'' \<mapsto> Some False, ''ai'' \<mapsto> Some True],
           ds_timestamp = ''2025-06-01T12:00:00.000Z'', ds_isFavorite = False,
           ds_lastChecked = Some ''2025-06-01T12:00:00.000Z''\<rparr>],
       srv_trace = [ProviderGet ''nordicai.com'' 10000, Sleep 1500, ProviderGet ''nordicai.ai'' 10000]\<rparr>)"
  by (simp add: add_domains_route_def checkBulkDomains_def domain_loop_check_domains
      checkDomainAvailability_check_tlds checkWithRapidAPI_def nordic_env_def
      checkSingleDomain_def Let_def model_defs js_string_eval
      to_suggestions_def make_id_def store_ops_read_modify_write read_modify_write_writable sample_disk_def)

end
